theory Spec2Isabelle
  imports Complex_Main "HOL-Library.Word"
begin

unbundle bit_operations_syntax

section \<open>Chunked voxel volume (marching-cubes engine.cpp)\<close>

text \<open>
  Shallow embedding of \<^verbatim>\<open>src/sketches/marching-cubes/src/engine.cpp\<close>.
  C \<^verbatim>\<open>int\<close> is modelled as \<^typ>\<open>int\<close> and \<^verbatim>\<open>uint8_t\<close> as \<^typ>\<open>8 word\<close>. A \<^verbatim>\<open>size_t\<close> is a
  \<^typ>\<open>nat\<close>; the functions that multiply chunk extents are given twice, once in machine
  arithmetic modulo \<open>2 ^ w\<close> (\<open>chunkCoordinateToIndexW\<close>, \<open>chunkIndexToCoordinateW\<close>,
  \<open>initVoxelsW\<close>) and once without wrap-around; the two agree on every world the machine
  can hold (\<open>allocatable\<close>, lemmas \<open>chunkCoordinateToIndexW_fit\<close>,
  \<open>chunkIndexToCoordinateW_fit\<close>, \<open>initVoxelsW_fit\<close>). The shift \<^verbatim>\<open>wx >> CHUNK_BITS\<close> on a signed int is the arithmetic shift,
  that is \<open>wx div 16\<close> rounding down, and \<^verbatim>\<open>wx & CHUNK_MASK\<close> is \<open>wx mod 16\<close>.
  A fixed-size C array is a list; every read and write of the model is guarded by the
  well-formedness predicate \<open>wf_world\<close>, which fixes the lengths the C types fix.
\<close>

subsection \<open>Constants and coordinate mapping\<close>

type_synonym byte = "8 word"

definition CHUNK_BITS :: nat where "CHUNK_BITS = 4"
definition CHUNK_SIZE :: int where "CHUNK_SIZE = 2 ^ CHUNK_BITS"
definition CHUNK_MASK :: int where "CHUNK_MASK = CHUNK_SIZE - 1"
definition CHUNK_VOXELS :: nat where "CHUNK_VOXELS = nat (CHUNK_SIZE * CHUNK_SIZE * CHUNK_SIZE)"

record ChunkBounds =
  xmin :: int
  xmax :: int
  ymin :: int
  ymax :: int
  zmin :: int
  zmax :: int

text \<open>
  \<^verbatim>\<open>chunkCoordinateToIndex\<close>: the bool result and the out-parameter become an option.
  This and \<open>chunkIndexToCoordinate\<close>, \<open>initVoxels\<close> below compute in \<^typ>\<open>nat\<close> without
  wrap-around: they are the source functions on worlds whose chunk count fits \<^verbatim>\<open>size_t\<close>
  and \<^verbatim>\<open>int\<close>. The versions in machine arithmetic follow in their own subsection.
\<close>

definition chunkCoordinateToIndex :: "int \<Rightarrow> int \<Rightarrow> int \<Rightarrow> ChunkBounds \<Rightarrow> nat option" where
  "chunkCoordinateToIndex cx cy cz b =
     (if cx < xmin b \<or> cx > xmax b \<or> cy < ymin b \<or> cy > ymax b \<or> cz < zmin b \<or> cz > zmax b
      then None
      else let xs = nat (xmax b - xmin b + 1);
               ys = nat (ymax b - ymin b + 1);
               zs = nat (zmax b - zmin b + 1);
               ox = nat (cx - xmin b);
               oy = nat (cy - ymin b);
               oz = nat (cz - zmin b)
           in Some ((ox * ys + oy) * zs + oz))"

definition chunkIndexToCoordinate :: "nat \<Rightarrow> ChunkBounds \<Rightarrow> int \<times> int \<times> int" where
  "chunkIndexToCoordinate index b =
     (let xs = nat (xmax b - xmin b + 1);
          ys = nat (ymax b - ymin b + 1);
          zs = nat (zmax b - zmin b + 1);
          plane = ys * zs;
          ox = index div plane;
          rem = index mod plane;
          oy = rem div zs;
          oz = rem mod zs
      in (int ox + xmin b, int oy + ymin b, int oz + zmin b))"

definition worldPositionToChunkCoordinates :: "int \<Rightarrow> int \<Rightarrow> int \<Rightarrow> int \<times> int \<times> int" where
  "worldPositionToChunkCoordinates wx wy wz =
     (wx div 2 ^ CHUNK_BITS, wy div 2 ^ CHUNK_BITS, wz div 2 ^ CHUNK_BITS)"

definition worldPositionToChunkPosition :: "int \<Rightarrow> int \<Rightarrow> int \<Rightarrow> int \<times> int \<times> int" where
  "worldPositionToChunkPosition wx wy wz =
     (wx mod (CHUNK_MASK + 1), wy mod (CHUNK_MASK + 1), wz mod (CHUNK_MASK + 1))"

definition getVoxelIndex :: "int \<Rightarrow> int \<Rightarrow> int \<Rightarrow> nat" where
  "getVoxelIndex lx ly lz =
     nat lx + nat lz * nat CHUNK_SIZE + nat ly * nat CHUNK_SIZE * nat CHUNK_SIZE"

subsection \<open>Chunks and the world\<close>

record VoxelChunk =
  chunk_id :: int
  chunk_x :: int
  chunk_y :: int
  chunk_z :: int
  chunk_value :: "byte list"
  chunk_color :: "byte list"
  chunk_sum :: int
  dirtyMesh :: bool

record Voxels =
  bounds :: ChunkBounds
  chunks :: "VoxelChunk list"

text \<open>One iteration of the allocation loop of \<^verbatim>\<open>initVoxels\<close>: the chunk stored at index \<open>i\<close>.\<close>

definition newChunk :: "ChunkBounds \<Rightarrow> nat \<Rightarrow> VoxelChunk" where
  "newChunk b i =
     (let (cx, cy, cz) = chunkIndexToCoordinate i b
      in \<lparr> chunk_id = int i, chunk_x = cx, chunk_y = cy, chunk_z = cz,
           chunk_value = replicate CHUNK_VOXELS 0,
           chunk_color = replicate (CHUNK_VOXELS * 3) 0,
           chunk_sum = 0, dirtyMesh = False \<rparr>)"

definition initVoxels :: "int \<Rightarrow> int \<Rightarrow> int \<Rightarrow> int \<Rightarrow> int \<Rightarrow> int \<Rightarrow> Voxels" where
  "initVoxels chunkXMin chunkXMax chunkYMin chunkYMax chunkZMin chunkZMax =
     (let b = \<lparr> xmin = chunkXMin, xmax = chunkXMax, ymin = chunkYMin, ymax = chunkYMax,
                zmin = chunkZMin, zmax = chunkZMax \<rparr>;
          chunkCountX = nat (chunkXMax - chunkXMin + 1);
          chunkCountY = nat (chunkYMax - chunkYMin + 1);
          chunkCountZ = nat (chunkZMax - chunkZMin + 1);
          totalChunks = chunkCountX * chunkCountY * chunkCountZ
      in \<lparr> bounds = b, chunks = map (newChunk b) [0..<totalChunks] \<rparr>)"

definition markChunkDirty :: "Voxels \<Rightarrow> int \<Rightarrow> int \<Rightarrow> int \<Rightarrow> Voxels" where
  "markChunkDirty world cx cy cz =
     (case chunkCoordinateToIndex cx cy cz (bounds world) of
        None \<Rightarrow> world
      | Some chunkIndex \<Rightarrow>
          world\<lparr>chunks := (chunks world)[chunkIndex := (chunks world ! chunkIndex)\<lparr>dirtyMesh := True\<rparr>]\<rparr>)"


text \<open>
  The statement forms of the dirty propagation in \<^verbatim>\<open>setVoxel\<close>:
  \<^verbatim>\<open>if (l == 0) markChunkDirty(lo); else if (l == CHUNK_SIZE - 1) markChunkDirty(hi);\<close> and
  \<^verbatim>\<open>if (cond) markChunkDirty(world, cx, cy, cz);\<close>
\<close>

definition markFace ::
  "int \<Rightarrow> Voxels \<Rightarrow> int \<times> int \<times> int \<Rightarrow> int \<times> int \<times> int \<Rightarrow> Voxels" where
  "markFace l world lo hi =
     (if l = 0 then (case lo of (cx, cy, cz) \<Rightarrow> markChunkDirty world cx cy cz)
      else if l = CHUNK_SIZE - 1 then (case hi of (cx, cy, cz) \<Rightarrow> markChunkDirty world cx cy cz)
      else world)"

definition markIf :: "bool \<Rightarrow> Voxels \<Rightarrow> int \<Rightarrow> int \<Rightarrow> int \<Rightarrow> Voxels" where
  "markIf cond world cx cy cz = (if cond then markChunkDirty world cx cy cz else world)"

text \<open>
  The write of \<^verbatim>\<open>setVoxel\<close> into the chunk it found: density, colour, the running sum and
  the chunk's own dirty flag.
\<close>

definition writeVoxel :: "VoxelChunk \<Rightarrow> nat \<Rightarrow> byte \<Rightarrow> byte \<Rightarrow> byte \<Rightarrow> byte \<Rightarrow> VoxelChunk" where
  "writeVoxel chunk voxelIndex val r g b =
     (let prevValue = chunk_value chunk ! voxelIndex
      in chunk\<lparr>chunk_value := (chunk_value chunk)[voxelIndex := val],
               chunk_color := (chunk_color chunk)
                  [voxelIndex * 3 + 0 := r, voxelIndex * 3 + 1 := g, voxelIndex * 3 + 2 := b],
               chunk_sum := chunk_sum chunk + (uint val - uint prevValue),
               dirtyMesh := True\<rparr>)"

text \<open>
  The twenty \<^verbatim>\<open>if (cond) markChunkDirty(...)\<close> statements that follow the three face tests
  of \<^verbatim>\<open>setVoxel\<close>, in the order of the source: each entry is the condition and the
  chunk coordinate that is marked.
\<close>

definition diagonalTests ::
  "int \<Rightarrow> int \<Rightarrow> int \<Rightarrow> int \<Rightarrow> int \<Rightarrow> int \<Rightarrow> (bool \<times> int \<times> int \<times> int) list" where
  "diagonalTests cx cy cz lx ly lz =
     (let hi = CHUNK_SIZE - 1 in
      [ \<comment> \<open>XY edges\<close>
        (lx = 0 \<and> ly = 0, cx - 1, cy - 1, cz),
        (lx = 0 \<and> ly = hi, cx - 1, cy + 1, cz),
        (lx = hi \<and> ly = 0, cx + 1, cy - 1, cz),
        (lx = hi \<and> ly = hi, cx + 1, cy + 1, cz),
        \<comment> \<open>XZ edges\<close>
        (lx = 0 \<and> lz = 0, cx - 1, cy, cz - 1),
        (lx = 0 \<and> lz = hi, cx - 1, cy, cz + 1),
        (lx = hi \<and> lz = 0, cx + 1, cy, cz - 1),
        (lx = hi \<and> lz = hi, cx + 1, cy, cz + 1),
        \<comment> \<open>YZ edges\<close>
        (ly = 0 \<and> lz = 0, cx, cy - 1, cz - 1),
        (ly = 0 \<and> lz = hi, cx, cy - 1, cz + 1),
        (ly = hi \<and> lz = 0, cx, cy + 1, cz - 1),
        (ly = hi \<and> lz = hi, cx, cy + 1, cz + 1),
        \<comment> \<open>the 8 corners\<close>
        (lx = 0 \<and> ly = 0 \<and> lz = 0, cx - 1, cy - 1, cz - 1),
        (lx = 0 \<and> ly = 0 \<and> lz = hi, cx - 1, cy - 1, cz + 1),
        (lx = 0 \<and> ly = hi \<and> lz = 0, cx - 1, cy + 1, cz - 1),
        (lx = 0 \<and> ly = hi \<and> lz = hi, cx - 1, cy + 1, cz + 1),
        (lx = hi \<and> ly = 0 \<and> lz = 0, cx + 1, cy - 1, cz - 1),
        (lx = hi \<and> ly = 0 \<and> lz = hi, cx + 1, cy - 1, cz + 1),
        (lx = hi \<and> ly = hi \<and> lz = 0, cx + 1, cy + 1, cz - 1),
        (lx = hi \<and> ly = hi \<and> lz = hi, cx + 1, cy + 1, cz + 1) ])"

text \<open>
  The neighbour marking of \<^verbatim>\<open>setVoxel\<close>: the X, Y and Z face tests, then the twenty
  edge and corner tests, executed one after the other.
\<close>

definition markNeighbours ::
  "Voxels \<Rightarrow> int \<Rightarrow> int \<Rightarrow> int \<Rightarrow> int \<Rightarrow> int \<Rightarrow> int \<Rightarrow> Voxels" where
  "markNeighbours world cx cy cz lx ly lz =
     fold (\<lambda>(cond, x, y, z) w. markIf cond w x y z) (diagonalTests cx cy cz lx ly lz)
       (markFace lz
          (markFace ly
             (markFace lx world (cx - 1, cy, cz) (cx + 1, cy, cz))
             (cx, cy - 1, cz) (cx, cy + 1, cz))
          (cx, cy, cz - 1) (cx, cy, cz + 1))"

text \<open>
  \<^verbatim>\<open>setVoxel\<close>. The chunk pointers of the world are distinct heap objects, so the write
  through \<^verbatim>\<open>chunk\<close> is an update of the list element at \<open>chunkIndex\<close>.
\<close>

definition setVoxel ::
  "Voxels \<Rightarrow> int \<Rightarrow> int \<Rightarrow> int \<Rightarrow> byte \<Rightarrow> byte \<Rightarrow> byte \<Rightarrow> byte \<Rightarrow> Voxels" where
  "setVoxel world wx wy wz val r g b =
     (let (cx, cy, cz) = worldPositionToChunkCoordinates wx wy wz;
          (lx, ly, lz) = worldPositionToChunkPosition wx wy wz
      in case chunkCoordinateToIndex cx cy cz (bounds world) of
           None \<Rightarrow> world
         | Some chunkIndex \<Rightarrow>
             let chunk = chunks world ! chunkIndex;
                 voxelIndex = getVoxelIndex lx ly lz;
                 w = world\<lparr>chunks := (chunks world)
                        [chunkIndex := writeVoxel chunk voxelIndex val r g b]\<rparr>
             in markNeighbours w cx cy cz lx ly lz)"

text \<open>\<^verbatim>\<open>getVoxel\<close>: the four out-parameters become a tuple (value, r, g, b).\<close>

definition getVoxel :: "Voxels \<Rightarrow> int \<Rightarrow> int \<Rightarrow> int \<Rightarrow> byte \<times> byte \<times> byte \<times> byte" where
  "getVoxel voxels wx wy wz =
     (let (cx, cy, cz) = worldPositionToChunkCoordinates wx wy wz;
          (lx, ly, lz) = worldPositionToChunkPosition wx wy wz
      in case chunkCoordinateToIndex cx cy cz (bounds voxels) of
           None \<Rightarrow> (0, 0, 0, 0)
         | Some chunkIndex \<Rightarrow>
             let chunk = chunks voxels ! chunkIndex;
                 voxelIndex = getVoxelIndex lx ly lz
             in (chunk_value chunk ! voxelIndex,
                 chunk_color chunk ! (voxelIndex * 3 + 0),
                 chunk_color chunk ! (voxelIndex * 3 + 1),
                 chunk_color chunk ! (voxelIndex * 3 + 2)))"

definition getVoxelRelative ::
  "Voxels \<Rightarrow> VoxelChunk \<Rightarrow> int \<Rightarrow> int \<Rightarrow> int \<Rightarrow> byte \<times> byte \<times> byte \<times> byte" where
  "getVoxelRelative voxels chunk lx ly lz =
     (if lx \<ge> 0 \<and> lx < CHUNK_SIZE \<and> ly \<ge> 0 \<and> ly < CHUNK_SIZE \<and> lz \<ge> 0 \<and> lz < CHUNK_SIZE
      then let voxelIndex = getVoxelIndex lx ly lz
           in (chunk_value chunk ! voxelIndex,
               chunk_color chunk ! (voxelIndex * 3 + 0),
               chunk_color chunk ! (voxelIndex * 3 + 1),
               chunk_color chunk ! (voxelIndex * 3 + 2))
      else let wx = chunk_x chunk * 2 ^ CHUNK_BITS + lx;
               wy = chunk_y chunk * 2 ^ CHUNK_BITS + ly;
               wz = chunk_z chunk * 2 ^ CHUNK_BITS + lz
           in getVoxel voxels wx wy wz)"

definition getChunkAt :: "Voxels \<Rightarrow> int \<Rightarrow> int \<Rightarrow> int \<Rightarrow> VoxelChunk option" where
  "getChunkAt world cx cy cz =
     (case chunkCoordinateToIndex cx cy cz (bounds world) of
        None \<Rightarrow> None
      | Some idx \<Rightarrow> Some (chunks world ! idx))"

definition getChunkAtPos :: "Voxels \<Rightarrow> int \<Rightarrow> int \<Rightarrow> int \<Rightarrow> VoxelChunk option" where
  "getChunkAtPos world wx wy wz =
     (let (cx, cy, cz) = worldPositionToChunkCoordinates wx wy wz
      in getChunkAt world cx cy cz)"

text \<open>\<^verbatim>\<open>recomputeChunkSum\<close>: the loop over \<open>i = 0 .. CHUNK_VOXELS - 1\<close> as a fold.\<close>

definition recomputeChunkSum :: "VoxelChunk \<Rightarrow> VoxelChunk \<times> int" where
  "recomputeChunkSum chunk =
     (let s = fold (\<lambda>i s. s + uint (chunk_value chunk ! i)) [0..<CHUNK_VOXELS] 0
      in (chunk\<lparr>chunk_sum := s\<rparr>, s))"

definition isChunkDirty :: "VoxelChunk \<Rightarrow> bool" where
  "isChunkDirty chunk = dirtyMesh chunk"

definition setChunkDirty :: "VoxelChunk \<Rightarrow> bool \<Rightarrow> VoxelChunk" where
  "setChunkDirty chunk dirty = chunk\<lparr>dirtyMesh := dirty\<rparr>"

definition clearChunkDirty :: "VoxelChunk \<Rightarrow> VoxelChunk" where
  "clearChunkDirty chunk = chunk\<lparr>dirtyMesh := False\<rparr>"


subsection \<open>Simplex noise and chunk generation\<close>

text \<open>
  The C \<^verbatim>\<open>float\<close> is idealised as \<^typ>\<open>real\<close>: every operation is exact, rounding is not
  modelled, and a decimal literal such as \<^verbatim>\<open>0.0125f\<close> stands for the decimal itself.
  \<^verbatim>\<open>(int)std::floor(v)\<close> is \<open>\<lfloor>v\<rfloor>\<close>; \<^verbatim>\<open>i & 255\<close> is \<open>i mod 256\<close>.
\<close>

definition perm :: "nat list" where
  "perm =
    [151, 160, 137, 91, 90, 15, 131, 13, 201, 95, 96, 53, 194, 233, 7, 225, 140, 36, 103, 30,
     69, 142, 8, 99, 37, 240, 21, 10, 23, 190, 6, 148, 247, 120, 234, 75, 0, 26, 197, 62, 94,
     252, 219, 203, 117, 35, 11, 32, 57, 177, 33, 88, 237, 149, 56, 87, 174, 20, 125, 136, 171,
     168, 68, 175, 74, 165, 71, 134, 139, 48, 27, 166, 77, 146, 158, 231, 83, 111, 229, 122,
     60, 211, 133, 230, 220, 105, 92, 41, 55, 46, 245, 40, 244, 102, 143, 54, 65, 25, 63, 161,
     1, 216, 80, 73, 209, 76, 132, 187, 208, 89, 18, 169, 200, 196, 135, 130, 116, 188, 159,
     86, 164, 100, 109, 198, 173, 186, 3, 64, 52, 217, 226, 250, 124, 123, 5, 202, 38, 147,
     118, 126, 255, 82, 85, 212, 207, 206, 59, 227, 47, 16, 58, 17, 182, 189, 28, 42, 223, 183,
     170, 213, 119, 248, 152, 2, 44, 154, 163, 70, 221, 153, 101, 155, 167, 43, 172, 9, 129,
     22, 39, 253, 19, 98, 108, 110, 79, 113, 224, 232, 178, 185, 112, 104, 218, 246, 97, 228,
     251, 34, 242, 193, 238, 210, 144, 12, 191, 179, 162, 241, 81, 51, 145, 235, 249, 14, 239,
     107, 49, 192, 214, 31, 181, 199, 106, 157, 184, 84, 204, 176, 115, 121, 50, 45, 127, 4,
     150, 254, 138, 236, 205, 93, 222, 114, 67, 29, 24, 72, 243, 141, 128, 195, 78, 66, 215,
     61, 156, 180, 151, 160, 137, 91, 90, 15, 131, 13, 201, 95, 96, 53, 194, 233, 7, 225, 140,
     36, 103, 30, 69, 142, 8, 99, 37, 240, 21, 10, 23, 190, 6, 148, 247, 120, 234, 75, 0, 26,
     197, 62, 94, 252, 219, 203, 117, 35, 11, 32, 57, 177, 33, 88, 237, 149, 56, 87, 174, 20,
     125, 136, 171, 168, 68, 175, 74, 165, 71, 134, 139, 48, 27, 166, 77, 146, 158, 231, 83,
     111, 229, 122, 60, 211, 133, 230, 220, 105, 92, 41, 55, 46, 245, 40, 244, 102, 143, 54,
     65, 25, 63, 161, 1, 216, 80, 73, 209, 76, 132, 187, 208, 89, 18, 169, 200, 196, 135, 130,
     116, 188, 159, 86, 164, 100, 109, 198, 173, 186, 3, 64, 52, 217, 226, 250, 124, 123, 5,
     202, 38, 147, 118, 126, 255, 82, 85, 212, 207, 206, 59, 227, 47, 16, 58, 17, 182, 189, 28,
     42, 223, 183, 170, 213, 119, 248, 152, 2, 44, 154, 163, 70, 221, 153, 101, 155, 167, 43,
     172, 9, 129, 22, 39, 253, 19, 98, 108, 110, 79, 113, 224, 232, 178, 185, 112, 104, 218,
     246, 97, 228, 251, 34, 242, 193, 238, 210, 144, 12, 191, 179, 162, 241, 81, 51, 145, 235,
     249, 14, 239, 107, 49, 192, 214, 31, 181, 199, 106, 157, 184, 84, 204, 176, 115, 121, 50,
     45, 127, 4, 150, 254, 138, 236, 205, 93, 222, 114, 67, 29, 24, 72, 243, 141, 128, 195, 78,
     66, 215, 61, 156, 180]"

definition grad3 :: "(real \<times> real \<times> real) list" where
  "grad3 =
    [(1,1,0), (-1,1,0), (1,-1,0), (-1,-1,0),
     (1,0,1), (-1,0,1), (1,0,-1), (-1,0,-1),
     (0,1,1), (0,-1,1), (0,1,-1), (0,-1,-1)]"

definition dot3 :: "real \<times> real \<times> real \<Rightarrow> real \<Rightarrow> real \<Rightarrow> real \<Rightarrow> real" where
  "dot3 g x y z = (case g of (g0, g1, g2) \<Rightarrow> g0 * x + g1 * y + g2 * z)"

text \<open>The contribution of one simplex corner: \<^verbatim>\<open>t = 0.6 - x*x - y*y - z*z; if (t<0) 0 else t*=t; t*t*dot\<close>.\<close>

definition corner :: "nat \<Rightarrow> real \<Rightarrow> real \<Rightarrow> real \<Rightarrow> real" where
  "corner gi x y z =
     (let t = 6/10 - x * x - y * y - z * z
      in if t < 0 then 0
         else let t2 = t * t in t2 * t2 * dot3 (grad3 ! gi) x y z)"

definition simplexNoise3D :: "real \<Rightarrow> real \<Rightarrow> real \<Rightarrow> int \<Rightarrow> real" where
  "simplexNoise3D x y z seed =
     (let x = x + of_int seed * (123/1000);
          y = y + of_int seed * (456/1000);
          z = z + of_int seed * (789/1000);
          F3 = 1/3; G3 = 1/6;
          s = (x + y + z) * F3;
          i = \<lfloor>x + s\<rfloor>; j = \<lfloor>y + s\<rfloor>; k = \<lfloor>z + s\<rfloor>;
          t = of_int (i + j + k) * G3;
          X0 = of_int i - t; Y0 = of_int j - t; Z0 = of_int k - t;
          x0 = x - X0; y0 = y - Y0; z0 = z - Z0;
          (i1, j1, k1, i2, j2, k2) =
            (if x0 \<ge> y0 then
               (if y0 \<ge> z0 then (1, 0, 0, 1, 1, 0)
                else if x0 \<ge> z0 then (1, 0, 0, 1, 0, 1)
                else (0, 0, 1, 1, 0, 1))
             else
               (if y0 < z0 then (0, 0, 1, 0, 1, 1)
                else if x0 < z0 then (0, 1, 0, 0, 1, 1)
                else (0::nat, 1::nat, 0::nat, 1::nat, 1::nat, 0::nat)));
          x1 = x0 - of_nat i1 + G3; y1 = y0 - of_nat j1 + G3; z1 = z0 - of_nat k1 + G3;
          x2 = x0 - of_nat i2 + 2 * G3; y2 = y0 - of_nat j2 + 2 * G3; z2 = z0 - of_nat k2 + 2 * G3;
          x3 = x0 - 1 + 3 * G3; y3 = y0 - 1 + 3 * G3; z3 = z0 - 1 + 3 * G3;
          ii = nat (i mod 256); jj = nat (j mod 256); kk = nat (k mod 256);
          gi0 = perm ! (ii + perm ! (jj + perm ! kk)) mod 12;
          gi1 = perm ! (ii + i1 + perm ! (jj + j1 + perm ! (kk + k1))) mod 12;
          gi2 = perm ! (ii + i2 + perm ! (jj + j2 + perm ! (kk + k2))) mod 12;
          gi3 = perm ! (ii + 1 + perm ! (jj + 1 + perm ! (kk + 1))) mod 12;
          n0 = corner gi0 x0 y0 z0;
          n1 = corner gi1 x1 y1 z1;
          n2 = corner gi2 x2 y2 z2;
          n3 = corner gi3 x3 y3 z3
      in 32 * (n0 + n1 + n2 + n3))"

text \<open>
  \<^verbatim>\<open>fbm3\<close>: the loop state is (amplitude, frequency, sum, maxValue), with \<^verbatim>\<open>sum\<close> named \<open>acc\<close>; the loop runs for
  \<open>i = 0 .. octaves - 1\<close>.
\<close>

definition fbm3 :: "real \<Rightarrow> real \<Rightarrow> real \<Rightarrow> int \<Rightarrow> nat \<Rightarrow> real \<Rightarrow> real \<Rightarrow> real" where
  "fbm3 x y z seed octaves lacunarity gain =
     (case fold (\<lambda>i (amplitude, frequency, acc, maxValue).
                   (amplitude * gain, frequency * lacunarity,
                    acc + amplitude * simplexNoise3D (x * frequency) (y * frequency)
                                          (z * frequency) (seed + int i),
                    maxValue + amplitude))
                [0..<octaves] (1, 1, 0, 0)
      of (amplitude, frequency, acc, maxValue) \<Rightarrow> acc / maxValue)"

text \<open>The smoothstep of \<^verbatim>\<open>generateChunk\<close> at a world voxel coordinate.\<close>

definition solidityAt :: "int \<Rightarrow> int \<Rightarrow> int \<Rightarrow> int \<Rightarrow> real" where
  "solidityAt wx wy wz seed =
     (let isoScale = 125/10000; threshold = 5/100;
          n = fbm3 (of_int wx * isoScale) (of_int wy * isoScale) (of_int wz * isoScale) seed 5 2 (1/2);
          t = (n - (threshold - 2/10)) / (4/10);
          t = max 0 (min 1 t)
      in t * t * (3 - 2 * t))"

text \<open>
  The body of the \<^verbatim>\<open>if (solidity > 0.01f)\<close> branch: density and the HSV-derived colour.
  \<^verbatim>\<open>ih % 6\<close> is the C remainder, which has the sign of \<open>ih\<close>; a negative remainder matches
  no \<^verbatim>\<open>case\<close> and leaves \<open>r = g = b = 1\<close>. The cast \<^verbatim>\<open>(uint8_t)f\<close> truncates.
\<close>

definition voxelColour ::
  "int \<Rightarrow> int \<Rightarrow> int \<Rightarrow> int \<Rightarrow> real \<Rightarrow> byte \<times> byte \<times> byte \<times> byte" where
  "voxelColour wx wy wz seed solidity =
     (let h = (fbm3 (of_int wz * (4/1000)) (of_int wx * (4/1000)) (of_int wy * (4/1000))
                 (seed + 1000) 3 2 (6/10) + 1) * (1/2);
          sCol = 8/10; vCol = 1;
          ih = \<lfloor>h * 6\<rfloor>;
          fh = h * 6 - of_int ih;
          p = vCol * (1 - sCol);
          q = vCol * (1 - fh * sCol);
          t = vCol * (1 - (1 - fh) * sCol);
          sel = (if ih \<ge> 0 then ih mod 6 else - ((- ih) mod 6));
          (r, g, b) =
            (if sel = 0 then (vCol, t, p)
             else if sel = 1 then (q, vCol, p)
             else if sel = 2 then (p, vCol, t)
             else if sel = 3 then (p, q, vCol)
             else if sel = 4 then (t, p, vCol)
             else if sel = 5 then (vCol, p, q)
             else (1, 1, 1));
          finalR = (word_of_int \<lfloor>r * solidity * 255\<rfloor> :: byte);
          finalG = (word_of_int \<lfloor>g * solidity * 255\<rfloor> :: byte);
          finalB = (word_of_int \<lfloor>b * solidity * 255\<rfloor> :: byte);
          density = (word_of_int \<lfloor>solidity * 255\<rfloor> :: byte)
      in (density, finalR, finalG, finalB))"

text \<open>The body of the innermost loop of \<^verbatim>\<open>generateChunk\<close>.\<close>

definition generateVoxel ::
  "int \<Rightarrow> int \<Rightarrow> int \<Rightarrow> int \<Rightarrow> nat \<Rightarrow> nat \<Rightarrow> nat \<Rightarrow> VoxelChunk \<Rightarrow> VoxelChunk" where
  "generateVoxel cx cy cz seed lz ly lx chunk =
     (let wx = cx * CHUNK_SIZE + int lx;
          wy = cy * CHUNK_SIZE + int ly;
          wz = cz * CHUNK_SIZE + int lz;
          solidity = solidityAt wx wy wz seed
      in if solidity > 1/100
         then let (density, finalR, finalG, finalB) = voxelColour wx wy wz seed solidity;
                  idx = lx + lz * nat CHUNK_SIZE + ly * nat CHUNK_SIZE * nat CHUNK_SIZE
              in chunk\<lparr>chunk_value := (chunk_value chunk)[idx := density],
                       chunk_color := (chunk_color chunk)
                          [idx * 3 + 0 := finalR, idx * 3 + 1 := finalG, idx * 3 + 2 := finalB]\<rparr>
         else chunk)"

text \<open>
  \<^verbatim>\<open>generateChunk\<close> on a non-null chunk pointer: three nested loops (\<open>lz\<close> outermost, \<open>lx\<close>
  innermost), then \<^verbatim>\<open>recomputeChunkSum\<close>.
\<close>

definition generateChunk :: "VoxelChunk \<Rightarrow> int \<Rightarrow> int \<Rightarrow> int \<Rightarrow> int \<Rightarrow> VoxelChunk" where
  "generateChunk chunk cx cy cz seed =
     (let n = nat CHUNK_SIZE;
          filled = fold (\<lambda>lz. fold (\<lambda>ly. fold (generateVoxel cx cy cz seed lz ly) [0..<n]) [0..<n])
                     [0..<n] chunk
      in fst (recomputeChunkSum filled))"

text \<open>
  The call as the bindings expose it: the chunk pointer comes from \<^verbatim>\<open>getChunkAt\<close>, and a null
  pointer makes \<^verbatim>\<open>generateChunk\<close> return at once.
\<close>

definition generateChunkAt ::
  "Voxels \<Rightarrow> int \<Rightarrow> int \<Rightarrow> int \<Rightarrow> int \<Rightarrow> int \<Rightarrow> int \<Rightarrow> int \<Rightarrow> Voxels" where
  "generateChunkAt world px py pz cx cy cz seed =
     (case chunkCoordinateToIndex px py pz (bounds world) of
        None \<Rightarrow> world
      | Some i \<Rightarrow> world\<lparr>chunks := (chunks world)[i := generateChunk (chunks world ! i) cx cy cz seed]\<rparr>)"


subsection \<open>Raycasting\<close>

text \<open>
  Floats are reals extended by \<open>+\<infinity>\<close>: the initial \<^verbatim>\<open>tMax\<close> of an axis with direction
  component 0 is a positive numerator divided by zero, which is \<open>+\<infinity>\<close> in IEEE arithmetic.
  No other division of the function can have a zero divisor.
\<close>

datatype xreal = Fin real | PInf

fun xless :: "xreal \<Rightarrow> xreal \<Rightarrow> bool" where
  "xless (Fin a) (Fin b) = (a < b)"
| "xless (Fin a) PInf = True"
| "xless PInf b = False"

fun xadd :: "xreal \<Rightarrow> real \<Rightarrow> xreal" where
  "xadd (Fin a) d = Fin (a + d)"
| "xadd PInf d = PInf"

text \<open>\<open>num / den\<close> for a numerator known to be positive.\<close>

definition divPos :: "real \<Rightarrow> real \<Rightarrow> xreal" where
  "divPos num den = (if den = 0 then PInf else Fin (num / den))"

text \<open>\<^verbatim>\<open>std::numeric_limits<float>::max()\<close>\<close>

definition FLT_MAX :: real where
  "FLT_MAX = (2 ^ 24 - 1) * 2 ^ 104"

definition ISOLEVEL :: int where "ISOLEVEL = 128"

record RaycastResult =
  hit :: bool
  positionX :: real
  positionY :: real
  positionZ :: real
  normalX :: real
  normalY :: real
  normalZ :: real
  hitValue :: byte
  hitR :: byte
  hitG :: byte
  hitB :: byte
  hitDistance :: real
  voxelX :: int
  voxelY :: int
  voxelZ :: int

text \<open>The values \<^verbatim>\<open>raycastVoxels\<close> computes once, before its loop.\<close>

record Ray =
  tOriginX :: real
  tOriginY :: real
  tOriginZ :: real
  dirX :: real
  dirY :: real
  dirZ :: real
  stepX :: int
  stepY :: int
  stepZ :: int
  tDeltaX :: real
  tDeltaY :: real
  tDeltaZ :: real
  maxDistance :: real

text \<open>The variables the loop updates.\<close>

record Cursor =
  posX :: int
  posY :: int
  posZ :: int
  tMaxX :: xreal
  tMaxY :: xreal
  tMaxZ :: xreal
  hitNormalX :: real
  hitNormalY :: real
  hitNormalZ :: real
  distance :: real

text \<open>
  The chunk-skipping branch of the loop body (the chunk \<open>(cx, cy, cz)\<close> of the current
  voxel is absent or has \<open>sum = 0\<close>). \<open>Inl\<close> is a \<^verbatim>\<open>return\<close>, \<open>Inr\<close> is \<^verbatim>\<open>continue\<close>.
\<close>

definition exitDistance :: "real \<Rightarrow> real \<Rightarrow> int \<Rightarrow> int \<Rightarrow> real \<Rightarrow> real" where
  "exitDistance dir tOrigin chunkMin chunkMax travelled =
     (if dir > 0 then
        (let t = (of_int chunkMax - tOrigin) / dir in if t > travelled then t else FLT_MAX)
      else if dir < 0 then
        (let t = (of_int chunkMin - tOrigin) / dir in if t > travelled then t else FLT_MAX)
      else FLT_MAX)"

definition recalcTMax :: "real \<Rightarrow> real \<Rightarrow> int \<Rightarrow> xreal \<Rightarrow> xreal" where
  "recalcTMax dir tOrigin p old =
     (if dir \<noteq> 0
      then Fin (if dir \<ge> 0 then (of_int (p + 1) - tOrigin) / dir else (tOrigin - of_int p) / - dir)
      else old)"

definition skipChunk ::
  "RaycastResult \<Rightarrow> Ray \<Rightarrow> int \<Rightarrow> int \<Rightarrow> int \<Rightarrow> Cursor \<Rightarrow> RaycastResult + Cursor" where
  "skipChunk out ray cx cy cz c =
     (let chunkMinX = cx * CHUNK_SIZE; chunkMinY = cy * CHUNK_SIZE; chunkMinZ = cz * CHUNK_SIZE;
          chunkMaxX = chunkMinX + CHUNK_SIZE;
          chunkMaxY = chunkMinY + CHUNK_SIZE;
          chunkMaxZ = chunkMinZ + CHUNK_SIZE;
          tExitX = exitDistance (dirX ray) (tOriginX ray) chunkMinX chunkMaxX (distance c);
          tExitY = exitDistance (dirY ray) (tOriginY ray) chunkMinY chunkMaxY (distance c);
          tExitZ = exitDistance (dirZ ray) (tOriginZ ray) chunkMinZ chunkMaxZ (distance c);
          tExit = min tExitX (min tExitY tExitZ)
      in if tExit \<ge> maxDistance ray \<or> tExit = FLT_MAX then Inl (out\<lparr>hit := False\<rparr>)
         else
           let epsilon = 1/10000;
               exitX = tOriginX ray + dirX ray * (tExit + epsilon);
               exitY = tOriginY ray + dirY ray * (tExit + epsilon);
               exitZ = tOriginZ ray + dirZ ray * (tExit + epsilon);
               x = \<lfloor>exitX\<rfloor>; y = \<lfloor>exitY\<rfloor>; z = \<lfloor>exitZ\<rfloor>;
               (nx, ny, nz) =
                 (if tExit = tExitX then (- of_int (stepX ray), 0, 0)
                  else if tExit = tExitY then (0, - of_int (stepY ray), 0)
                  else (0, 0, - of_int (stepZ ray)))
           in Inr \<lparr> posX = x, posY = y, posZ = z,
                     tMaxX = recalcTMax (dirX ray) (tOriginX ray) x (tMaxX c),
                     tMaxY = recalcTMax (dirY ray) (tOriginY ray) y (tMaxY c),
                     tMaxZ = recalcTMax (dirZ ray) (tOriginZ ray) z (tMaxZ c),
                     hitNormalX = nx, hitNormalY = ny, hitNormalZ = nz,
                     distance = tExit \<rparr>)"

text \<open>
  The rest of the loop body: test the current voxel, then step along the axis with the
  smallest \<^verbatim>\<open>tMax\<close>. A step along an axis whose \<^verbatim>\<open>tMax\<close> is \<open>+\<infinity>\<close> sets \<^verbatim>\<open>distance\<close> to
  \<open>+\<infinity>\<close>, so the loop condition fails at once and the function reports no hit: that
  is the \<open>Inl\<close> of the \<open>PInf\<close> cases.
\<close>

definition testVoxel ::
  "RaycastResult \<Rightarrow> Voxels \<Rightarrow> Ray \<Rightarrow> Cursor \<Rightarrow> RaycastResult + Cursor" where
  "testVoxel out voxels ray c =
     (let (val, r, g, b) = getVoxel voxels (posX c) (posY c) (posZ c)
      in if uint val \<ge> ISOLEVEL then
           (let hitPosX = tOriginX ray + dirX ray * distance c;
                hitPosY = tOriginY ray + dirY ray * distance c;
                hitPosZ = tOriginZ ray + dirZ ray * distance c
            in Inl (out\<lparr> hit := True,
                          positionX := hitPosX - 1/2,
                          positionY := hitPosY - 1/2,
                          positionZ := hitPosZ - 1/2,
                          normalX := hitNormalX c,
                          normalY := hitNormalY c,
                          normalZ := hitNormalZ c,
                          hitValue := val, hitR := r, hitG := g, hitB := b,
                          hitDistance := distance c,
                          voxelX := posX c, voxelY := posY c, voxelZ := posZ c \<rparr>))
         else if xless (tMaxX c) (tMaxY c) \<and> xless (tMaxX c) (tMaxZ c) then
           (case tMaxX c of
              PInf \<Rightarrow> Inl (out\<lparr>hit := False\<rparr>)
            | Fin t \<Rightarrow> Inr (c\<lparr> posX := posX c + stepX ray, distance := t,
                               tMaxX := xadd (tMaxX c) (tDeltaX ray),
                               hitNormalX := - of_int (stepX ray),
                               hitNormalY := 0, hitNormalZ := 0 \<rparr>))
         else if xless (tMaxY c) (tMaxZ c) then
           (case tMaxY c of
              PInf \<Rightarrow> Inl (out\<lparr>hit := False\<rparr>)
            | Fin t \<Rightarrow> Inr (c\<lparr> posY := posY c + stepY ray, distance := t,
                               tMaxY := xadd (tMaxY c) (tDeltaY ray),
                               hitNormalX := 0,
                               hitNormalY := - of_int (stepY ray), hitNormalZ := 0 \<rparr>))
         else
           (case tMaxZ c of
              PInf \<Rightarrow> Inl (out\<lparr>hit := False\<rparr>)
            | Fin t \<Rightarrow> Inr (c\<lparr> posZ := posZ c + stepZ ray, distance := t,
                               tMaxZ := xadd (tMaxZ c) (tDeltaZ ray),
                               hitNormalX := 0, hitNormalY := 0,
                               hitNormalZ := - of_int (stepZ ray) \<rparr>)))"

definition raycastStep ::
  "RaycastResult \<Rightarrow> Voxels \<Rightarrow> Ray \<Rightarrow> Cursor \<Rightarrow> RaycastResult + Cursor" where
  "raycastStep out voxels ray c =
     (let (cx, cy, cz) = worldPositionToChunkCoordinates (posX c) (posY c) (posZ c);
          skip = (case chunkCoordinateToIndex cx cy cz (bounds voxels) of
                    None \<Rightarrow> True
                  | Some chunkIndex \<Rightarrow> chunk_sum (chunks voxels ! chunkIndex) = 0)
      in if skip then skipChunk out ray cx cy cz c else testVoxel out voxels ray c)"

text \<open>
  The \<^verbatim>\<open>while (distance < maxDistance)\<close> loop. It is not known to terminate, so the result
  is an option: \<open>None\<close> stands for a loop that never returns.
\<close>

partial_function (option) raycastLoop ::
  "RaycastResult \<Rightarrow> Voxels \<Rightarrow> Ray \<Rightarrow> Cursor \<Rightarrow> RaycastResult option" where
  "raycastLoop out voxels ray c =
     (if distance c < maxDistance ray
      then (case raycastStep out voxels ray c of
              Inl res \<Rightarrow> Some res
            | Inr c' \<Rightarrow> raycastLoop out voxels ray c')
      else Some (out\<lparr>hit := False\<rparr>))"

declare raycastLoop.simps [code]

definition stepOf :: "real \<Rightarrow> int" where
  "stepOf d = (if d \<ge> 0 then 1 else -1)"

definition tDeltaOf :: "real \<Rightarrow> real" where
  "tDeltaOf d = (if d \<noteq> 0 then \<bar>1 / d\<bar> else FLT_MAX)"

definition tMaxInit :: "real \<Rightarrow> real \<Rightarrow> xreal" where
  "tMaxInit tOrigin d =
     (if d \<ge> 0 then divPos (of_int \<lfloor>tOrigin\<rfloor> + 1 - tOrigin) d
      else Fin ((tOrigin - of_int \<lfloor>tOrigin\<rfloor>) / - d))"

definition initRay :: "real \<Rightarrow> real \<Rightarrow> real \<Rightarrow> real \<Rightarrow> real \<Rightarrow> real \<Rightarrow> real \<Rightarrow> Ray" where
  "initRay originX originY originZ dx dy dz maxDist =
     \<lparr> tOriginX = originX + 1/2, tOriginY = originY + 1/2, tOriginZ = originZ + 1/2,
       dirX = dx, dirY = dy, dirZ = dz,
       stepX = stepOf dx, stepY = stepOf dy, stepZ = stepOf dz,
       tDeltaX = tDeltaOf dx, tDeltaY = tDeltaOf dy, tDeltaZ = tDeltaOf dz,
       maxDistance = maxDist \<rparr>"

definition initCursor :: "Ray \<Rightarrow> Cursor" where
  "initCursor ray =
     \<lparr> posX = \<lfloor>tOriginX ray\<rfloor>, posY = \<lfloor>tOriginY ray\<rfloor>, posZ = \<lfloor>tOriginZ ray\<rfloor>,
       tMaxX = tMaxInit (tOriginX ray) (dirX ray),
       tMaxY = tMaxInit (tOriginY ray) (dirY ray),
       tMaxZ = tMaxInit (tOriginZ ray) (dirZ ray),
       hitNormalX = 0, hitNormalY = 0, hitNormalZ = 0,
       distance = 0 \<rparr>"

definition raycastVoxels ::
  "RaycastResult \<Rightarrow> Voxels \<Rightarrow> real \<Rightarrow> real \<Rightarrow> real \<Rightarrow> real \<Rightarrow> real \<Rightarrow> real \<Rightarrow> real
     \<Rightarrow> RaycastResult option" where
  "raycastVoxels out voxels originX originY originZ dx dy dz maxDist =
     (let ray = initRay originX originY originZ dx dy dz maxDist
      in raycastLoop out voxels ray (initCursor ray))"

text \<open>
  The reference traversal of the skip-correctness property: the same DDA, testing every
  voxel on the way, without the chunk-skipping branch.
\<close>

partial_function (option) naiveLoop ::
  "RaycastResult \<Rightarrow> Voxels \<Rightarrow> Ray \<Rightarrow> Cursor \<Rightarrow> RaycastResult option" where
  "naiveLoop out voxels ray c =
     (if distance c < maxDistance ray
      then (case testVoxel out voxels ray c of
              Inl res \<Rightarrow> Some res
            | Inr c' \<Rightarrow> naiveLoop out voxels ray c')
      else Some (out\<lparr>hit := False\<rparr>))"

declare naiveLoop.simps [code]

definition naiveRaycast ::
  "RaycastResult \<Rightarrow> Voxels \<Rightarrow> real \<Rightarrow> real \<Rightarrow> real \<Rightarrow> real \<Rightarrow> real \<Rightarrow> real \<Rightarrow> real
     \<Rightarrow> RaycastResult option" where
  "naiveRaycast out voxels originX originY originZ dx dy dz maxDist =
     (let ray = initRay originX originY originZ dx dy dz maxDist
      in naiveLoop out voxels ray (initCursor ray))"


subsection \<open>Marching cubes\<close>

type_synonym Vec3 = "real \<times> real \<times> real"

record Sample =
  s_position :: Vec3
  s_value :: byte
  s_r :: byte
  s_g :: byte
  s_b :: byte

record EdgePoint =
  e_position :: Vec3
  e_r :: real
  e_g :: real
  e_b :: real

text \<open>
  The table the static initialiser fills: entry \<open>i\<close> is the linear value of the sRGB
  level \<open>i / 255\<close>.
\<close>

definition srgbToLinearLUT :: "nat \<Rightarrow> real" where
  "srgbToLinearLUT i =
     (let n = real i / 255
      in if n < 4045/100000 then n * (773993808/10000000000)
         else (n * (9478672986/10000000000) + 521327014/10000000000) powr (24/10))"

text \<open>
  A float division that records a zero divisor: IEEE arithmetic returns an infinity or
  NaN there, the model returns \<open>None\<close>.
\<close>

definition fdiv :: "real \<Rightarrow> real \<Rightarrow> real option" where
  "fdiv a b = (if b = 0 then None else Some (a / b))"

text \<open>The interpolation parameter \<^verbatim>\<open>step\<close> of \<^verbatim>\<open>interpolate\<close>.\<close>

definition interpolateStep :: "Sample \<Rightarrow> Sample \<Rightarrow> real option" where
  "interpolateStep a b =
     (if s_value b = s_value a then Some (1/2)
      else case fdiv (of_int ISOLEVEL - real (unat (s_value a)))
                     (real (unat (s_value b)) - real (unat (s_value a))) of
             None \<Rightarrow> None
           | Some q \<Rightarrow>
               let q = (if q < 0 then 0 else q);
                   q = (if q > 1 then 1 else q)
               in Some q)"

definition interpolate :: "Sample \<Rightarrow> Sample \<Rightarrow> EdgePoint option" where
  "interpolate a b =
     (case interpolateStep a b of
        None \<Rightarrow> None
      | Some step \<Rightarrow>
          (case (s_position a, s_position b) of
             ((ax, ay, az), (bx, by, bz)) \<Rightarrow>
               let r1 = srgbToLinearLUT (unat (s_r a));
                   g1 = srgbToLinearLUT (unat (s_g a));
                   b1 = srgbToLinearLUT (unat (s_b a));
                   r2 = srgbToLinearLUT (unat (s_r b));
                   g2 = srgbToLinearLUT (unat (s_g b));
                   b2 = srgbToLinearLUT (unat (s_b b))
               in Some \<lparr> e_position = (ax + step * (bx - ax), ay + step * (by - ay),
                                         az + step * (bz - az)),
                           e_r = r1 + step * (r2 - r1),
                           e_g = g1 + step * (g2 - g1),
                           e_b = b1 + step * (b2 - b1) \<rparr>))"

definition computeNormal :: "Vec3 \<Rightarrow> Vec3 \<Rightarrow> Vec3 \<Rightarrow> Vec3" where
  "computeNormal a b c =
     (case (a, b, c) of
        ((ax, ay, az), (bx, by, bz), (cx, cy, cz)) \<Rightarrow>
          let cbx = cx - bx; cby = cy - by; cbz = cz - bz;
              abx = ax - bx; aby = ay - by; abz = az - bz;
              nx = cby * abz - cbz * aby;
              ny = cbz * abx - cbx * abz;
              nz = cbx * aby - cby * abx;
              lengthSq = nx * nx + ny * ny + nz * nz
          in if lengthSq < 1/100000000 then (0, 1, 0)
             else let invLength = 1 / sqrt lengthSq
                  in (nx * invLength, ny * invLength, nz * invLength))"

definition edgeTable :: "int list" where
  "edgeTable =
    [0x0, 0x109, 0x203, 0x30a, 0x406, 0x50f, 0x605, 0x70c, 0x80c, 0x905, 0xa0f, 0xb06, 0xc0a,
     0xd03, 0xe09, 0xf00, 0x190, 0x99, 0x393, 0x29a, 0x596, 0x49f, 0x795, 0x69c, 0x99c, 0x895,
     0xb9f, 0xa96, 0xd9a, 0xc93, 0xf99, 0xe90, 0x230, 0x339, 0x33, 0x13a, 0x636, 0x73f, 0x435,
     0x53c, 0xa3c, 0xb35, 0x83f, 0x936, 0xe3a, 0xf33, 0xc39, 0xd30, 0x3a0, 0x2a9, 0x1a3, 0xaa,
     0x7a6, 0x6af, 0x5a5, 0x4ac, 0xbac, 0xaa5, 0x9af, 0x8a6, 0xfaa, 0xea3, 0xda9, 0xca0, 0x460,
     0x569, 0x663, 0x76a, 0x66, 0x16f, 0x265, 0x36c, 0xc6c, 0xd65, 0xe6f, 0xf66, 0x86a, 0x963,
     0xa69, 0xb60, 0x5f0, 0x4f9, 0x7f3, 0x6fa, 0x1f6, 0xff, 0x3f5, 0x2fc, 0xdfc, 0xcf5, 0xfff,
     0xef6, 0x9fa, 0x8f3, 0xbf9, 0xaf0, 0x650, 0x759, 0x453, 0x55a, 0x256, 0x35f, 0x55, 0x15c,
     0xe5c, 0xf55, 0xc5f, 0xd56, 0xa5a, 0xb53, 0x859, 0x950, 0x7c0, 0x6c9, 0x5c3, 0x4ca, 0x3c6,
     0x2cf, 0x1c5, 0xcc, 0xfcc, 0xec5, 0xdcf, 0xcc6, 0xbca, 0xac3, 0x9c9, 0x8c0, 0x8c0, 0x9c9,
     0xac3, 0xbca, 0xcc6, 0xdcf, 0xec5, 0xfcc, 0xcc, 0x1c5, 0x2cf, 0x3c6, 0x4ca, 0x5c3, 0x6c9,
     0x7c0, 0x950, 0x859, 0xb53, 0xa5a, 0xd56, 0xc5f, 0xf55, 0xe5c, 0x15c, 0x55, 0x35f, 0x256,
     0x55a, 0x453, 0x759, 0x650, 0xaf0, 0xbf9, 0x8f3, 0x9fa, 0xef6, 0xfff, 0xcf5, 0xdfc, 0x2fc,
     0x3f5, 0xff, 0x1f6, 0x6fa, 0x7f3, 0x4f9, 0x5f0, 0xb60, 0xa69, 0x963, 0x86a, 0xf66, 0xe6f,
     0xd65, 0xc6c, 0x36c, 0x265, 0x16f, 0x66, 0x76a, 0x663, 0x569, 0x460, 0xca0, 0xda9, 0xea3,
     0xfaa, 0x8a6, 0x9af, 0xaa5, 0xbac, 0x4ac, 0x5a5, 0x6af, 0x7a6, 0xaa, 0x1a3, 0x2a9, 0x3a0,
     0xd30, 0xc39, 0xf33, 0xe3a, 0x936, 0x83f, 0xb35, 0xa3c, 0x53c, 0x435, 0x73f, 0x636, 0x13a,
     0x33, 0x339, 0x230, 0xe90, 0xf99, 0xc93, 0xd9a, 0xa96, 0xb9f, 0x895, 0x99c, 0x69c, 0x795,
     0x49f, 0x596, 0x29a, 0x393, 0x99, 0x190, 0xf00, 0xe09, 0xd03, 0xc0a, 0xb06, 0xa0f, 0x905,
     0x80c, 0x70c, 0x605, 0x50f, 0x406, 0x30a, 0x203, 0x109, 0x0]"

definition triTable :: "int list list" where
  "triTable =
    [[- 1, - 1, - 1, - 1, - 1, - 1, - 1, - 1, - 1, - 1, - 1, - 1, - 1, - 1, - 1, - 1],
     [0, 8, 3, - 1, - 1, - 1, - 1, - 1, - 1, - 1, - 1, - 1, - 1, - 1, - 1, - 1],
     [0, 1, 9, - 1, - 1, - 1, - 1, - 1, - 1, - 1, - 1, - 1, - 1, - 1, - 1, - 1],
     [1, 8, 3, 9, 8, 1, - 1, - 1, - 1, - 1, - 1, - 1, - 1, - 1, - 1, - 1],
     [1, 2, 10, - 1, - 1, - 1, - 1, - 1, - 1, - 1, - 1, - 1, - 1, - 1, - 1, - 1],
     [0, 8, 3, 1, 2, 10, - 1, - 1, - 1, - 1, - 1, - 1, - 1, - 1, - 1, - 1],
     [9, 2, 10, 0, 2, 9, - 1, - 1, - 1, - 1, - 1, - 1, - 1, - 1, - 1, - 1],
     [2, 8, 3, 2, 10, 8, 10, 9, 8, - 1, - 1, - 1, - 1, - 1, - 1, - 1],
     [3, 11, 2, - 1, - 1, - 1, - 1, - 1, - 1, - 1, - 1, - 1, - 1, - 1, - 1, - 1],
     [0, 11, 2, 8, 11, 0, - 1, - 1, - 1, - 1, - 1, - 1, - 1, - 1, - 1, - 1],
     [1, 9, 0, 2, 3, 11, - 1, - 1, - 1, - 1, - 1, - 1, - 1, - 1, - 1, - 1],
     [1, 11, 2, 1, 9, 11, 9, 8, 11, - 1, - 1, - 1, - 1, - 1, - 1, - 1],
     [3, 10, 1, 11, 10, 3, - 1, - 1, - 1, - 1, - 1, - 1, - 1, - 1, - 1, - 1],
     [0, 10, 1, 0, 8, 10, 8, 11, 10, - 1, - 1, - 1, - 1, - 1, - 1, - 1],
     [3, 9, 0, 3, 11, 9, 11, 10, 9, - 1, - 1, - 1, - 1, - 1, - 1, - 1],
     [9, 8, 10, 10, 8, 11, - 1, - 1, - 1, - 1, - 1, - 1, - 1, - 1, - 1, - 1],
     [4, 7, 8, - 1, - 1, - 1, - 1, - 1, - 1, - 1, - 1, - 1, - 1, - 1, - 1, - 1],
     [4, 3, 0, 7, 3, 4, - 1, - 1, - 1, - 1, - 1, - 1, - 1, - 1, - 1, - 1],
     [0, 1, 9, 8, 4, 7, - 1, - 1, - 1, - 1, - 1, - 1, - 1, - 1, - 1, - 1],
     [4, 1, 9, 4, 7, 1, 7, 3, 1, - 1, - 1, - 1, - 1, - 1, - 1, - 1],
     [1, 2, 10, 8, 4, 7, - 1, - 1, - 1, - 1, - 1, - 1, - 1, - 1, - 1, - 1],
     [3, 4, 7, 3, 0, 4, 1, 2, 10, - 1, - 1, - 1, - 1, - 1, - 1, - 1],
     [9, 2, 10, 9, 0, 2, 8, 4, 7, - 1, - 1, - 1, - 1, - 1, - 1, - 1],
     [2, 10, 9, 2, 9, 7, 2, 7, 3, 7, 9, 4, - 1, - 1, - 1, - 1],
     [8, 4, 7, 3, 11, 2, - 1, - 1, - 1, - 1, - 1, - 1, - 1, - 1, - 1, - 1],
     [11, 4, 7, 11, 2, 4, 2, 0, 4, - 1, - 1, - 1, - 1, - 1, - 1, - 1],
     [9, 0, 1, 8, 4, 7, 2, 3, 11, - 1, - 1, - 1, - 1, - 1, - 1, - 1],
     [4, 7, 11, 9, 4, 11, 9, 11, 2, 9, 2, 1, - 1, - 1, - 1, - 1],
     [3, 10, 1, 3, 11, 10, 7, 8, 4, - 1, - 1, - 1, - 1, - 1, - 1, - 1],
     [1, 11, 10, 1, 4, 11, 1, 0, 4, 7, 11, 4, - 1, - 1, - 1, - 1],
     [4, 7, 8, 9, 0, 11, 9, 11, 10, 11, 0, 3, - 1, - 1, - 1, - 1],
     [4, 7, 11, 4, 11, 9, 9, 11, 10, - 1, - 1, - 1, - 1, - 1, - 1, - 1],
     [9, 5, 4, - 1, - 1, - 1, - 1, - 1, - 1, - 1, - 1, - 1, - 1, - 1, - 1, - 1],
     [9, 5, 4, 0, 8, 3, - 1, - 1, - 1, - 1, - 1, - 1, - 1, - 1, - 1, - 1],
     [0, 5, 4, 1, 5, 0, - 1, - 1, - 1, - 1, - 1, - 1, - 1, - 1, - 1, - 1],
     [8, 5, 4, 8, 3, 5, 3, 1, 5, - 1, - 1, - 1, - 1, - 1, - 1, - 1],
     [1, 2, 10, 9, 5, 4, - 1, - 1, - 1, - 1, - 1, - 1, - 1, - 1, - 1, - 1],
     [3, 0, 8, 1, 2, 10, 4, 9, 5, - 1, - 1, - 1, - 1, - 1, - 1, - 1],
     [5, 2, 10, 5, 4, 2, 4, 0, 2, - 1, - 1, - 1, - 1, - 1, - 1, - 1],
     [2, 10, 5, 3, 2, 5, 3, 5, 4, 3, 4, 8, - 1, - 1, - 1, - 1],
     [9, 5, 4, 2, 3, 11, - 1, - 1, - 1, - 1, - 1, - 1, - 1, - 1, - 1, - 1],
     [0, 11, 2, 0, 8, 11, 4, 9, 5, - 1, - 1, - 1, - 1, - 1, - 1, - 1],
     [0, 5, 4, 0, 1, 5, 2, 3, 11, - 1, - 1, - 1, - 1, - 1, - 1, - 1],
     [2, 1, 5, 2, 5, 8, 2, 8, 11, 4, 8, 5, - 1, - 1, - 1, - 1],
     [10, 3, 11, 10, 1, 3, 9, 5, 4, - 1, - 1, - 1, - 1, - 1, - 1, - 1],
     [4, 9, 5, 0, 8, 1, 8, 10, 1, 8, 11, 10, - 1, - 1, - 1, - 1],
     [5, 4, 0, 5, 0, 11, 5, 11, 10, 11, 0, 3, - 1, - 1, - 1, - 1],
     [5, 4, 8, 5, 8, 10, 10, 8, 11, - 1, - 1, - 1, - 1, - 1, - 1, - 1],
     [9, 7, 8, 5, 7, 9, - 1, - 1, - 1, - 1, - 1, - 1, - 1, - 1, - 1, - 1],
     [9, 3, 0, 9, 5, 3, 5, 7, 3, - 1, - 1, - 1, - 1, - 1, - 1, - 1],
     [0, 7, 8, 0, 1, 7, 1, 5, 7, - 1, - 1, - 1, - 1, - 1, - 1, - 1],
     [1, 5, 3, 3, 5, 7, - 1, - 1, - 1, - 1, - 1, - 1, - 1, - 1, - 1, - 1],
     [9, 7, 8, 9, 5, 7, 10, 1, 2, - 1, - 1, - 1, - 1, - 1, - 1, - 1],
     [10, 1, 2, 9, 5, 0, 5, 3, 0, 5, 7, 3, - 1, - 1, - 1, - 1],
     [8, 0, 2, 8, 2, 5, 8, 5, 7, 10, 5, 2, - 1, - 1, - 1, - 1],
     [2, 10, 5, 2, 5, 3, 3, 5, 7, - 1, - 1, - 1, - 1, - 1, - 1, - 1],
     [7, 9, 5, 7, 8, 9, 3, 11, 2, - 1, - 1, - 1, - 1, - 1, - 1, - 1],
     [9, 5, 7, 9, 7, 2, 9, 2, 0, 2, 7, 11, - 1, - 1, - 1, - 1],
     [2, 3, 11, 0, 1, 8, 1, 7, 8, 1, 5, 7, - 1, - 1, - 1, - 1],
     [11, 2, 1, 11, 1, 7, 7, 1, 5, - 1, - 1, - 1, - 1, - 1, - 1, - 1],
     [9, 5, 8, 8, 5, 7, 10, 1, 3, 10, 3, 11, - 1, - 1, - 1, - 1],
     [5, 7, 0, 5, 0, 9, 7, 11, 0, 1, 0, 10, 11, 10, 0, - 1],
     [11, 10, 0, 11, 0, 3, 10, 5, 0, 8, 0, 7, 5, 7, 0, - 1],
     [11, 10, 5, 7, 11, 5, - 1, - 1, - 1, - 1, - 1, - 1, - 1, - 1, - 1, - 1],
     [10, 6, 5, - 1, - 1, - 1, - 1, - 1, - 1, - 1, - 1, - 1, - 1, - 1, - 1, - 1],
     [0, 8, 3, 5, 10, 6, - 1, - 1, - 1, - 1, - 1, - 1, - 1, - 1, - 1, - 1],
     [9, 0, 1, 5, 10, 6, - 1, - 1, - 1, - 1, - 1, - 1, - 1, - 1, - 1, - 1],
     [1, 8, 3, 1, 9, 8, 5, 10, 6, - 1, - 1, - 1, - 1, - 1, - 1, - 1],
     [1, 6, 5, 2, 6, 1, - 1, - 1, - 1, - 1, - 1, - 1, - 1, - 1, - 1, - 1],
     [1, 6, 5, 1, 2, 6, 3, 0, 8, - 1, - 1, - 1, - 1, - 1, - 1, - 1],
     [9, 6, 5, 9, 0, 6, 0, 2, 6, - 1, - 1, - 1, - 1, - 1, - 1, - 1],
     [5, 9, 8, 5, 8, 2, 5, 2, 6, 3, 2, 8, - 1, - 1, - 1, - 1],
     [2, 3, 11, 10, 6, 5, - 1, - 1, - 1, - 1, - 1, - 1, - 1, - 1, - 1, - 1],
     [11, 0, 8, 11, 2, 0, 10, 6, 5, - 1, - 1, - 1, - 1, - 1, - 1, - 1],
     [0, 1, 9, 2, 3, 11, 5, 10, 6, - 1, - 1, - 1, - 1, - 1, - 1, - 1],
     [5, 10, 6, 1, 9, 2, 9, 11, 2, 9, 8, 11, - 1, - 1, - 1, - 1],
     [6, 3, 11, 6, 5, 3, 5, 1, 3, - 1, - 1, - 1, - 1, - 1, - 1, - 1],
     [0, 8, 11, 0, 11, 5, 0, 5, 1, 5, 11, 6, - 1, - 1, - 1, - 1],
     [3, 11, 6, 0, 3, 6, 0, 6, 5, 0, 5, 9, - 1, - 1, - 1, - 1],
     [6, 5, 9, 6, 9, 11, 11, 9, 8, - 1, - 1, - 1, - 1, - 1, - 1, - 1],
     [5, 10, 6, 4, 7, 8, - 1, - 1, - 1, - 1, - 1, - 1, - 1, - 1, - 1, - 1],
     [4, 3, 0, 4, 7, 3, 6, 5, 10, - 1, - 1, - 1, - 1, - 1, - 1, - 1],
     [1, 9, 0, 5, 10, 6, 8, 4, 7, - 1, - 1, - 1, - 1, - 1, - 1, - 1],
     [10, 6, 5, 1, 9, 7, 1, 7, 3, 7, 9, 4, - 1, - 1, - 1, - 1],
     [6, 1, 2, 6, 5, 1, 4, 7, 8, - 1, - 1, - 1, - 1, - 1, - 1, - 1],
     [1, 2, 5, 5, 2, 6, 3, 0, 4, 3, 4, 7, - 1, - 1, - 1, - 1],
     [8, 4, 7, 9, 0, 5, 0, 6, 5, 0, 2, 6, - 1, - 1, - 1, - 1],
     [7, 3, 9, 7, 9, 4, 3, 2, 9, 5, 9, 6, 2, 6, 9, - 1],
     [3, 11, 2, 7, 8, 4, 10, 6, 5, - 1, - 1, - 1, - 1, - 1, - 1, - 1],
     [5, 10, 6, 4, 7, 2, 4, 2, 0, 2, 7, 11, - 1, - 1, - 1, - 1],
     [0, 1, 9, 4, 7, 8, 2, 3, 11, 5, 10, 6, - 1, - 1, - 1, - 1],
     [9, 2, 1, 9, 11, 2, 9, 4, 11, 7, 11, 4, 5, 10, 6, - 1],
     [8, 4, 7, 3, 11, 5, 3, 5, 1, 5, 11, 6, - 1, - 1, - 1, - 1],
     [5, 1, 11, 5, 11, 6, 1, 0, 11, 7, 11, 4, 0, 4, 11, - 1],
     [0, 5, 9, 0, 6, 5, 0, 3, 6, 11, 6, 3, 8, 4, 7, - 1],
     [6, 5, 9, 6, 9, 11, 4, 7, 9, 7, 11, 9, - 1, - 1, - 1, - 1],
     [10, 4, 9, 6, 4, 10, - 1, - 1, - 1, - 1, - 1, - 1, - 1, - 1, - 1, - 1],
     [4, 10, 6, 4, 9, 10, 0, 8, 3, - 1, - 1, - 1, - 1, - 1, - 1, - 1],
     [10, 0, 1, 10, 6, 0, 6, 4, 0, - 1, - 1, - 1, - 1, - 1, - 1, - 1],
     [8, 3, 1, 8, 1, 6, 8, 6, 4, 6, 1, 10, - 1, - 1, - 1, - 1],
     [1, 4, 9, 1, 2, 4, 2, 6, 4, - 1, - 1, - 1, - 1, - 1, - 1, - 1],
     [3, 0, 8, 1, 2, 9, 2, 4, 9, 2, 6, 4, - 1, - 1, - 1, - 1],
     [0, 2, 4, 4, 2, 6, - 1, - 1, - 1, - 1, - 1, - 1, - 1, - 1, - 1, - 1],
     [8, 3, 2, 8, 2, 4, 4, 2, 6, - 1, - 1, - 1, - 1, - 1, - 1, - 1],
     [10, 4, 9, 10, 6, 4, 11, 2, 3, - 1, - 1, - 1, - 1, - 1, - 1, - 1],
     [0, 8, 2, 2, 8, 11, 4, 9, 10, 4, 10, 6, - 1, - 1, - 1, - 1],
     [3, 11, 2, 0, 1, 6, 0, 6, 4, 6, 1, 10, - 1, - 1, - 1, - 1],
     [6, 4, 1, 6, 1, 10, 4, 8, 1, 2, 1, 11, 8, 11, 1, - 1],
     [9, 6, 4, 9, 3, 6, 9, 1, 3, 11, 6, 3, - 1, - 1, - 1, - 1],
     [8, 11, 1, 8, 1, 0, 11, 6, 1, 9, 1, 4, 6, 4, 1, - 1],
     [3, 11, 6, 3, 6, 0, 0, 6, 4, - 1, - 1, - 1, - 1, - 1, - 1, - 1],
     [6, 4, 8, 11, 6, 8, - 1, - 1, - 1, - 1, - 1, - 1, - 1, - 1, - 1, - 1],
     [7, 10, 6, 7, 8, 10, 8, 9, 10, - 1, - 1, - 1, - 1, - 1, - 1, - 1],
     [0, 7, 3, 0, 10, 7, 0, 9, 10, 6, 7, 10, - 1, - 1, - 1, - 1],
     [10, 6, 7, 1, 10, 7, 1, 7, 8, 1, 8, 0, - 1, - 1, - 1, - 1],
     [10, 6, 7, 10, 7, 1, 1, 7, 3, - 1, - 1, - 1, - 1, - 1, - 1, - 1],
     [1, 2, 6, 1, 6, 8, 1, 8, 9, 8, 6, 7, - 1, - 1, - 1, - 1],
     [2, 6, 9, 2, 9, 1, 6, 7, 9, 0, 9, 3, 7, 3, 9, - 1],
     [7, 8, 0, 7, 0, 6, 6, 0, 2, - 1, - 1, - 1, - 1, - 1, - 1, - 1],
     [7, 3, 2, 6, 7, 2, - 1, - 1, - 1, - 1, - 1, - 1, - 1, - 1, - 1, - 1],
     [2, 3, 11, 10, 6, 8, 10, 8, 9, 8, 6, 7, - 1, - 1, - 1, - 1],
     [2, 0, 7, 2, 7, 11, 0, 9, 7, 6, 7, 10, 9, 10, 7, - 1],
     [1, 8, 0, 1, 7, 8, 1, 10, 7, 6, 7, 10, 2, 3, 11, - 1],
     [11, 2, 1, 11, 1, 7, 10, 6, 1, 6, 7, 1, - 1, - 1, - 1, - 1],
     [8, 9, 6, 8, 6, 7, 9, 1, 6, 11, 6, 3, 1, 3, 6, - 1],
     [0, 9, 1, 11, 6, 7, - 1, - 1, - 1, - 1, - 1, - 1, - 1, - 1, - 1, - 1],
     [7, 8, 0, 7, 0, 6, 3, 11, 0, 11, 6, 0, - 1, - 1, - 1, - 1],
     [7, 11, 6, - 1, - 1, - 1, - 1, - 1, - 1, - 1, - 1, - 1, - 1, - 1, - 1, - 1],
     [7, 6, 11, - 1, - 1, - 1, - 1, - 1, - 1, - 1, - 1, - 1, - 1, - 1, - 1, - 1],
     [3, 0, 8, 11, 7, 6, - 1, - 1, - 1, - 1, - 1, - 1, - 1, - 1, - 1, - 1],
     [0, 1, 9, 11, 7, 6, - 1, - 1, - 1, - 1, - 1, - 1, - 1, - 1, - 1, - 1],
     [8, 1, 9, 8, 3, 1, 11, 7, 6, - 1, - 1, - 1, - 1, - 1, - 1, - 1],
     [10, 1, 2, 6, 11, 7, - 1, - 1, - 1, - 1, - 1, - 1, - 1, - 1, - 1, - 1],
     [1, 2, 10, 3, 0, 8, 6, 11, 7, - 1, - 1, - 1, - 1, - 1, - 1, - 1],
     [2, 9, 0, 2, 10, 9, 6, 11, 7, - 1, - 1, - 1, - 1, - 1, - 1, - 1],
     [6, 11, 7, 2, 10, 3, 10, 8, 3, 10, 9, 8, - 1, - 1, - 1, - 1],
     [7, 2, 3, 6, 2, 7, - 1, - 1, - 1, - 1, - 1, - 1, - 1, - 1, - 1, - 1],
     [7, 0, 8, 7, 6, 0, 6, 2, 0, - 1, - 1, - 1, - 1, - 1, - 1, - 1],
     [2, 7, 6, 2, 3, 7, 0, 1, 9, - 1, - 1, - 1, - 1, - 1, - 1, - 1],
     [1, 6, 2, 1, 8, 6, 1, 9, 8, 8, 7, 6, - 1, - 1, - 1, - 1],
     [10, 7, 6, 10, 1, 7, 1, 3, 7, - 1, - 1, - 1, - 1, - 1, - 1, - 1],
     [10, 7, 6, 1, 7, 10, 1, 8, 7, 1, 0, 8, - 1, - 1, - 1, - 1],
     [0, 3, 7, 0, 7, 10, 0, 10, 9, 6, 10, 7, - 1, - 1, - 1, - 1],
     [7, 6, 10, 7, 10, 8, 8, 10, 9, - 1, - 1, - 1, - 1, - 1, - 1, - 1],
     [6, 8, 4, 11, 8, 6, - 1, - 1, - 1, - 1, - 1, - 1, - 1, - 1, - 1, - 1],
     [3, 6, 11, 3, 0, 6, 0, 4, 6, - 1, - 1, - 1, - 1, - 1, - 1, - 1],
     [8, 6, 11, 8, 4, 6, 9, 0, 1, - 1, - 1, - 1, - 1, - 1, - 1, - 1],
     [9, 4, 6, 9, 6, 3, 9, 3, 1, 11, 3, 6, - 1, - 1, - 1, - 1],
     [6, 8, 4, 6, 11, 8, 2, 10, 1, - 1, - 1, - 1, - 1, - 1, - 1, - 1],
     [1, 2, 10, 3, 0, 11, 0, 6, 11, 0, 4, 6, - 1, - 1, - 1, - 1],
     [4, 11, 8, 4, 6, 11, 0, 2, 9, 2, 10, 9, - 1, - 1, - 1, - 1],
     [10, 9, 3, 10, 3, 2, 9, 4, 3, 11, 3, 6, 4, 6, 3, - 1],
     [8, 2, 3, 8, 4, 2, 4, 6, 2, - 1, - 1, - 1, - 1, - 1, - 1, - 1],
     [0, 4, 2, 4, 6, 2, - 1, - 1, - 1, - 1, - 1, - 1, - 1, - 1, - 1, - 1],
     [1, 9, 0, 2, 3, 4, 2, 4, 6, 4, 3, 8, - 1, - 1, - 1, - 1],
     [1, 9, 4, 1, 4, 2, 2, 4, 6, - 1, - 1, - 1, - 1, - 1, - 1, - 1],
     [8, 1, 3, 8, 6, 1, 8, 4, 6, 6, 10, 1, - 1, - 1, - 1, - 1],
     [10, 1, 0, 10, 0, 6, 6, 0, 4, - 1, - 1, - 1, - 1, - 1, - 1, - 1],
     [4, 6, 3, 4, 3, 8, 6, 10, 3, 0, 3, 9, 10, 9, 3, - 1],
     [10, 9, 4, 6, 10, 4, - 1, - 1, - 1, - 1, - 1, - 1, - 1, - 1, - 1, - 1],
     [4, 9, 5, 7, 6, 11, - 1, - 1, - 1, - 1, - 1, - 1, - 1, - 1, - 1, - 1],
     [0, 8, 3, 4, 9, 5, 11, 7, 6, - 1, - 1, - 1, - 1, - 1, - 1, - 1],
     [5, 0, 1, 5, 4, 0, 7, 6, 11, - 1, - 1, - 1, - 1, - 1, - 1, - 1],
     [11, 7, 6, 8, 3, 4, 3, 5, 4, 3, 1, 5, - 1, - 1, - 1, - 1],
     [9, 5, 4, 10, 1, 2, 7, 6, 11, - 1, - 1, - 1, - 1, - 1, - 1, - 1],
     [6, 11, 7, 1, 2, 10, 0, 8, 3, 4, 9, 5, - 1, - 1, - 1, - 1],
     [7, 6, 11, 5, 4, 10, 4, 2, 10, 4, 0, 2, - 1, - 1, - 1, - 1],
     [3, 4, 8, 3, 5, 4, 3, 2, 5, 10, 5, 2, 11, 7, 6, - 1],
     [7, 2, 3, 7, 6, 2, 5, 4, 9, - 1, - 1, - 1, - 1, - 1, - 1, - 1],
     [9, 5, 4, 0, 8, 6, 0, 6, 2, 6, 8, 7, - 1, - 1, - 1, - 1],
     [3, 6, 2, 3, 7, 6, 1, 5, 0, 5, 4, 0, - 1, - 1, - 1, - 1],
     [6, 2, 8, 6, 8, 7, 2, 1, 8, 4, 8, 5, 1, 5, 8, - 1],
     [9, 5, 4, 10, 1, 6, 1, 7, 6, 1, 3, 7, - 1, - 1, - 1, - 1],
     [1, 6, 10, 1, 7, 6, 1, 0, 7, 8, 7, 0, 9, 5, 4, - 1],
     [4, 0, 10, 4, 10, 5, 0, 3, 10, 6, 10, 7, 3, 7, 10, - 1],
     [7, 6, 10, 7, 10, 8, 5, 4, 10, 4, 8, 10, - 1, - 1, - 1, - 1],
     [6, 9, 5, 6, 11, 9, 11, 8, 9, - 1, - 1, - 1, - 1, - 1, - 1, - 1],
     [3, 6, 11, 0, 6, 3, 0, 5, 6, 0, 9, 5, - 1, - 1, - 1, - 1],
     [0, 11, 8, 0, 5, 11, 0, 1, 5, 5, 6, 11, - 1, - 1, - 1, - 1],
     [6, 11, 3, 6, 3, 5, 5, 3, 1, - 1, - 1, - 1, - 1, - 1, - 1, - 1],
     [1, 2, 10, 9, 5, 11, 9, 11, 8, 11, 5, 6, - 1, - 1, - 1, - 1],
     [0, 11, 3, 0, 6, 11, 0, 9, 6, 5, 6, 9, 1, 2, 10, - 1],
     [11, 8, 5, 11, 5, 6, 8, 0, 5, 10, 5, 2, 0, 2, 5, - 1],
     [6, 11, 3, 6, 3, 5, 2, 10, 3, 10, 5, 3, - 1, - 1, - 1, - 1],
     [5, 8, 9, 5, 2, 8, 5, 6, 2, 3, 8, 2, - 1, - 1, - 1, - 1],
     [9, 5, 6, 9, 6, 0, 0, 6, 2, - 1, - 1, - 1, - 1, - 1, - 1, - 1],
     [1, 5, 8, 1, 8, 0, 5, 6, 8, 3, 8, 2, 6, 2, 8, - 1],
     [1, 5, 6, 2, 1, 6, - 1, - 1, - 1, - 1, - 1, - 1, - 1, - 1, - 1, - 1],
     [1, 3, 6, 1, 6, 10, 3, 8, 6, 5, 6, 9, 8, 9, 6, - 1],
     [10, 1, 0, 10, 0, 6, 9, 5, 0, 5, 6, 0, - 1, - 1, - 1, - 1],
     [0, 3, 8, 5, 6, 10, - 1, - 1, - 1, - 1, - 1, - 1, - 1, - 1, - 1, - 1],
     [10, 5, 6, - 1, - 1, - 1, - 1, - 1, - 1, - 1, - 1, - 1, - 1, - 1, - 1, - 1],
     [11, 5, 10, 7, 5, 11, - 1, - 1, - 1, - 1, - 1, - 1, - 1, - 1, - 1, - 1],
     [11, 5, 10, 11, 7, 5, 8, 3, 0, - 1, - 1, - 1, - 1, - 1, - 1, - 1],
     [5, 11, 7, 5, 10, 11, 1, 9, 0, - 1, - 1, - 1, - 1, - 1, - 1, - 1],
     [10, 7, 5, 10, 11, 7, 9, 8, 1, 8, 3, 1, - 1, - 1, - 1, - 1],
     [11, 1, 2, 11, 7, 1, 7, 5, 1, - 1, - 1, - 1, - 1, - 1, - 1, - 1],
     [0, 8, 3, 1, 2, 7, 1, 7, 5, 7, 2, 11, - 1, - 1, - 1, - 1],
     [9, 7, 5, 9, 2, 7, 9, 0, 2, 2, 11, 7, - 1, - 1, - 1, - 1],
     [7, 5, 2, 7, 2, 11, 5, 9, 2, 3, 2, 8, 9, 8, 2, - 1],
     [2, 5, 10, 2, 3, 5, 3, 7, 5, - 1, - 1, - 1, - 1, - 1, - 1, - 1],
     [8, 2, 0, 8, 5, 2, 8, 7, 5, 10, 2, 5, - 1, - 1, - 1, - 1],
     [9, 0, 1, 5, 10, 3, 5, 3, 7, 3, 10, 2, - 1, - 1, - 1, - 1],
     [9, 8, 2, 9, 2, 1, 8, 7, 2, 10, 2, 5, 7, 5, 2, - 1],
     [1, 3, 5, 3, 7, 5, - 1, - 1, - 1, - 1, - 1, - 1, - 1, - 1, - 1, - 1],
     [0, 8, 7, 0, 7, 1, 1, 7, 5, - 1, - 1, - 1, - 1, - 1, - 1, - 1],
     [9, 0, 3, 9, 3, 5, 5, 3, 7, - 1, - 1, - 1, - 1, - 1, - 1, - 1],
     [9, 8, 7, 5, 9, 7, - 1, - 1, - 1, - 1, - 1, - 1, - 1, - 1, - 1, - 1],
     [5, 8, 4, 5, 10, 8, 10, 11, 8, - 1, - 1, - 1, - 1, - 1, - 1, - 1],
     [5, 0, 4, 5, 11, 0, 5, 10, 11, 11, 3, 0, - 1, - 1, - 1, - 1],
     [0, 1, 9, 8, 4, 10, 8, 10, 11, 10, 4, 5, - 1, - 1, - 1, - 1],
     [10, 11, 4, 10, 4, 5, 11, 3, 4, 9, 4, 1, 3, 1, 4, - 1],
     [2, 5, 1, 2, 8, 5, 2, 11, 8, 4, 5, 8, - 1, - 1, - 1, - 1],
     [0, 4, 11, 0, 11, 3, 4, 5, 11, 2, 11, 1, 5, 1, 11, - 1],
     [0, 2, 5, 0, 5, 9, 2, 11, 5, 4, 5, 8, 11, 8, 5, - 1],
     [9, 4, 5, 2, 11, 3, - 1, - 1, - 1, - 1, - 1, - 1, - 1, - 1, - 1, - 1],
     [2, 5, 10, 3, 5, 2, 3, 4, 5, 3, 8, 4, - 1, - 1, - 1, - 1],
     [5, 10, 2, 5, 2, 4, 4, 2, 0, - 1, - 1, - 1, - 1, - 1, - 1, - 1],
     [3, 10, 2, 3, 5, 10, 3, 8, 5, 4, 5, 8, 0, 1, 9, - 1],
     [5, 10, 2, 5, 2, 4, 1, 9, 2, 9, 4, 2, - 1, - 1, - 1, - 1],
     [8, 4, 5, 8, 5, 3, 3, 5, 1, - 1, - 1, - 1, - 1, - 1, - 1, - 1],
     [0, 4, 5, 1, 0, 5, - 1, - 1, - 1, - 1, - 1, - 1, - 1, - 1, - 1, - 1],
     [8, 4, 5, 8, 5, 3, 9, 0, 5, 0, 3, 5, - 1, - 1, - 1, - 1],
     [9, 4, 5, - 1, - 1, - 1, - 1, - 1, - 1, - 1, - 1, - 1, - 1, - 1, - 1, - 1],
     [4, 11, 7, 4, 9, 11, 9, 10, 11, - 1, - 1, - 1, - 1, - 1, - 1, - 1],
     [0, 8, 3, 4, 9, 7, 9, 11, 7, 9, 10, 11, - 1, - 1, - 1, - 1],
     [1, 10, 11, 1, 11, 4, 1, 4, 0, 7, 4, 11, - 1, - 1, - 1, - 1],
     [3, 1, 4, 3, 4, 8, 1, 10, 4, 7, 4, 11, 10, 11, 4, - 1],
     [4, 11, 7, 9, 11, 4, 9, 2, 11, 9, 1, 2, - 1, - 1, - 1, - 1],
     [9, 7, 4, 9, 11, 7, 9, 1, 11, 2, 11, 1, 0, 8, 3, - 1],
     [11, 7, 4, 11, 4, 2, 2, 4, 0, - 1, - 1, - 1, - 1, - 1, - 1, - 1],
     [11, 7, 4, 11, 4, 2, 8, 3, 4, 3, 2, 4, - 1, - 1, - 1, - 1],
     [2, 9, 10, 2, 7, 9, 2, 3, 7, 7, 4, 9, - 1, - 1, - 1, - 1],
     [9, 10, 7, 9, 7, 4, 10, 2, 7, 8, 7, 0, 2, 0, 7, - 1],
     [3, 7, 10, 3, 10, 2, 7, 4, 10, 1, 10, 0, 4, 0, 10, - 1],
     [1, 10, 2, 8, 7, 4, - 1, - 1, - 1, - 1, - 1, - 1, - 1, - 1, - 1, - 1],
     [4, 9, 1, 4, 1, 7, 7, 1, 3, - 1, - 1, - 1, - 1, - 1, - 1, - 1],
     [4, 9, 1, 4, 1, 7, 0, 8, 1, 8, 7, 1, - 1, - 1, - 1, - 1],
     [4, 0, 3, 7, 4, 3, - 1, - 1, - 1, - 1, - 1, - 1, - 1, - 1, - 1, - 1],
     [4, 8, 7, - 1, - 1, - 1, - 1, - 1, - 1, - 1, - 1, - 1, - 1, - 1, - 1, - 1],
     [9, 10, 8, 10, 11, 8, - 1, - 1, - 1, - 1, - 1, - 1, - 1, - 1, - 1, - 1],
     [3, 0, 9, 3, 9, 11, 11, 9, 10, - 1, - 1, - 1, - 1, - 1, - 1, - 1],
     [0, 1, 10, 0, 10, 8, 8, 10, 11, - 1, - 1, - 1, - 1, - 1, - 1, - 1],
     [3, 1, 10, 11, 3, 10, - 1, - 1, - 1, - 1, - 1, - 1, - 1, - 1, - 1, - 1],
     [1, 2, 11, 1, 11, 9, 9, 11, 8, - 1, - 1, - 1, - 1, - 1, - 1, - 1],
     [3, 0, 9, 3, 9, 11, 1, 2, 9, 2, 11, 9, - 1, - 1, - 1, - 1],
     [0, 2, 11, 8, 0, 11, - 1, - 1, - 1, - 1, - 1, - 1, - 1, - 1, - 1, - 1],
     [3, 2, 11, - 1, - 1, - 1, - 1, - 1, - 1, - 1, - 1, - 1, - 1, - 1, - 1, - 1],
     [2, 3, 8, 2, 8, 10, 10, 8, 9, - 1, - 1, - 1, - 1, - 1, - 1, - 1],
     [9, 10, 2, 0, 9, 2, - 1, - 1, - 1, - 1, - 1, - 1, - 1, - 1, - 1, - 1],
     [2, 3, 8, 2, 8, 10, 0, 1, 8, 1, 10, 8, - 1, - 1, - 1, - 1],
     [1, 10, 2, - 1, - 1, - 1, - 1, - 1, - 1, - 1, - 1, - 1, - 1, - 1, - 1, - 1],
     [1, 3, 8, 9, 1, 8, - 1, - 1, - 1, - 1, - 1, - 1, - 1, - 1, - 1, - 1],
     [0, 9, 1, - 1, - 1, - 1, - 1, - 1, - 1, - 1, - 1, - 1, - 1, - 1, - 1, - 1],
     [0, 3, 8, - 1, - 1, - 1, - 1, - 1, - 1, - 1, - 1, - 1, - 1, - 1, - 1, - 1],
     [- 1, - 1, - 1, - 1, - 1, - 1, - 1, - 1, - 1, - 1, - 1, - 1, - 1, - 1, - 1, - 1]]"

subsection \<open>Notions used to state the properties\<close>

text \<open>A chunk coordinate lies within the bounds; the number of chunks of a world.\<close>

definition in_bounds :: "ChunkBounds \<Rightarrow> int \<Rightarrow> int \<Rightarrow> int \<Rightarrow> bool" where
  "in_bounds b cx cy cz =
     (xmin b \<le> cx \<and> cx \<le> xmax b \<and> ymin b \<le> cy \<and> cy \<le> ymax b \<and> zmin b \<le> cz \<and> cz \<le> zmax b)"

definition totalChunks :: "ChunkBounds \<Rightarrow> nat" where
  "totalChunks b =
     nat (xmax b - xmin b + 1) * nat (ymax b - ymin b + 1) * nat (zmax b - zmin b + 1)"

text \<open>
  What the C types guarantee of a world: the chunk array has one chunk per coordinate of
  the bounds, and every chunk has its 4096 densities and 12288 colour bytes.
\<close>

definition wf_chunk :: "VoxelChunk \<Rightarrow> bool" where
  "wf_chunk c =
     (length (chunk_value c) = CHUNK_VOXELS \<and> length (chunk_color c) = CHUNK_VOXELS * 3)"

definition wf_world :: "Voxels \<Rightarrow> bool" where
  "wf_world w = (length (chunks w) = totalChunks (bounds w) \<and> list_all wf_chunk (chunks w))"

text \<open>The sum of the stored densities of a chunk.\<close>

definition densitySum :: "VoxelChunk \<Rightarrow> int" where
  "densitySum c = sum_list (map uint (chunk_value c))"

text \<open>A finite sequence of edits, as the bindings allow them.\<close>

datatype edit =
    SetVoxel int int int byte byte byte byte
  | GenerateChunk int int int int int int int

fun applyEdit :: "Voxels \<Rightarrow> edit \<Rightarrow> Voxels" where
  "applyEdit w (SetVoxel wx wy wz val r g b) = setVoxel w wx wy wz val r g b"
| "applyEdit w (GenerateChunk px py pz cx cy cz seed) = generateChunkAt w px py pz cx cy cz seed"

definition applyEdits :: "Voxels \<Rightarrow> edit list \<Rightarrow> Voxels" where
  "applyEdits w es = foldl applyEdit w es"

text \<open>\<^verbatim>\<open>isChunkDirty(getChunkAt(world, cx, cy, cz))\<close>, \<open>None\<close> for an absent chunk.\<close>

definition chunkDirtyAt :: "Voxels \<Rightarrow> int \<Rightarrow> int \<Rightarrow> int \<Rightarrow> bool option" where
  "chunkDirtyAt w cx cy cz = map_option isChunkDirty (getChunkAt w cx cy cz)"

text \<open>
  A local offset on a boundary plane of the chunk, and the direction of the neighbour
  chunk across that plane (0 for an interior offset).
\<close>

definition onBoundary :: "int \<Rightarrow> bool" where
  "onBoundary l = (l = 0 \<or> l = CHUNK_SIZE - 1)"

definition faceStep :: "int \<Rightarrow> int" where
  "faceStep l = (if l = 0 then - 1 else if l = CHUNK_SIZE - 1 then 1 else 0)"

definition pureFace :: "int \<Rightarrow> int \<Rightarrow> int \<Rightarrow> bool" where
  "pureFace lx ly lz =
     ((onBoundary lx \<and> \<not> onBoundary ly \<and> \<not> onBoundary lz) \<or>
      (\<not> onBoundary lx \<and> onBoundary ly \<and> \<not> onBoundary lz) \<or>
      (\<not> onBoundary lx \<and> \<not> onBoundary ly \<and> onBoundary lz))"

text \<open>A result record before the call: \<^verbatim>\<open>RaycastResult()\<close> of the bindings.\<close>

definition emptyResult :: RaycastResult where
  "emptyResult =
     \<lparr> hit = False, positionX = 0, positionY = 0, positionZ = 0,
       normalX = 0, normalY = 0, normalZ = 0,
       hitValue = 0, hitR = 0, hitG = 0, hitB = 0, hitDistance = 0,
       voxelX = 0, voxelY = 0, voxelZ = 0 \<rparr>"

text \<open>
  The effect of a sequence of \<^verbatim>\<open>markChunkDirty\<close> calls: \<open>marks w S w'\<close> says that \<open>w'\<close> is
  \<open>w\<close> with the dirty flag set on the present chunks whose coordinate is in \<open>S\<close>, and
  nothing else changed.
\<close>

definition marks :: "Voxels \<Rightarrow> (int \<times> int \<times> int) set \<Rightarrow> Voxels \<Rightarrow> bool" where
  "marks w S w' =
     (bounds w' = bounds w \<and> length (chunks w') = length (chunks w) \<and>
      map clearChunkDirty (chunks w') = map clearChunkDirty (chunks w) \<and>
      (\<forall>i < length (chunks w).
         dirtyMesh (chunks w' ! i) =
           (dirtyMesh (chunks w ! i) \<or>
            (\<exists>p \<in> S. case p of (x, y, z) \<Rightarrow> chunkCoordinateToIndex x y z (bounds w) = Some i))))"

text \<open>Two chunks with arrays of the same lengths and the same dirty flag.\<close>

definition same_shape :: "VoxelChunk \<Rightarrow> VoxelChunk \<Rightarrow> bool" where
  "same_shape c c' =
     (length (chunk_value c') = length (chunk_value c) \<and>
      length (chunk_color c') = length (chunk_color c) \<and> dirtyMesh c' = dirtyMesh c)"

text \<open>The invariant of an edit sequence: well-formed, and every sum is the density sum.\<close>

definition sums_ok :: "Voxels \<Rightarrow> bool" where
  "sums_ok w =
     (wf_world w \<and>
      (\<forall>i < length (chunks w). chunk_sum (chunks w ! i) = densitySum (chunks w ! i)))"

text \<open>The chunk coordinates whose tests in \<open>markNeighbours\<close> succeed.\<close>

definition markedNeighbours :: "int \<Rightarrow> int \<Rightarrow> int \<Rightarrow> int \<Rightarrow> int \<Rightarrow> int \<Rightarrow> (int \<times> int \<times> int) set" where
  "markedNeighbours cx cy cz lx ly lz =
     (if lx = 0 then {(cx - 1, cy, cz)} else if lx = CHUNK_SIZE - 1 then {(cx + 1, cy, cz)} else {}) \<union>
     (if ly = 0 then {(cx, cy - 1, cz)} else if ly = CHUNK_SIZE - 1 then {(cx, cy + 1, cz)} else {}) \<union>
     (if lz = 0 then {(cx, cy, cz - 1)} else if lz = CHUNK_SIZE - 1 then {(cx, cy, cz + 1)} else {}) \<union>
     {(x, y, z). (True, x, y, z) \<in> set (diagonalTests cx cy cz lx ly lz)}"



subsection \<open>The chunk index in machine arithmetic\<close>

text \<open>
  \<^verbatim>\<open>size_t\<close> is an unsigned integer of \<open>w\<close> bits: 32 on wasm32, the default target of the
  Emscripten toolchain this module is written for, 64 on wasm64 and on a 64-bit host. The
  source does not fix \<open>w\<close>, so the machine versions of the index functions take it as a
  parameter. \<^verbatim>\<open>static_cast<size_t>\<close> of an \<^verbatim>\<open>int\<close> reduces modulo \<open>2 ^ w\<close> (a negative value
  becomes a large one), products and sums of \<^verbatim>\<open>size_t\<close> wrap modulo \<open>2 ^ w\<close>, and
  \<^verbatim>\<open>static_cast<int>\<close> of a \<^verbatim>\<open>size_t\<close> keeps the low 32 bits, read as a signed number.
\<close>

definition INT_MAX :: int where "INT_MAX = 2 ^ 31 - 1"

definition to_size_t :: "nat \<Rightarrow> int \<Rightarrow> nat" where
  "to_size_t w i = nat (i mod 2 ^ w)"

definition size_mul :: "nat \<Rightarrow> nat \<Rightarrow> nat \<Rightarrow> nat" where
  "size_mul w a b = (a * b) mod 2 ^ w"

definition size_add :: "nat \<Rightarrow> nat \<Rightarrow> nat \<Rightarrow> nat" where
  "size_add w a b = (a + b) mod 2 ^ w"

definition to_int :: "nat \<Rightarrow> int" where
  "to_int n = (let v = int (n mod 2 ^ 32) in if v < 2 ^ 31 then v else v - 2 ^ 32)"

text \<open>\<^verbatim>\<open>chunkCoordinateToIndex\<close> with the \<^verbatim>\<open>size_t\<close> arithmetic of the source written out.\<close>

definition chunkCoordinateToIndexW ::
  "nat \<Rightarrow> int \<Rightarrow> int \<Rightarrow> int \<Rightarrow> ChunkBounds \<Rightarrow> nat option" where
  "chunkCoordinateToIndexW w cx cy cz b =
     (if cx < xmin b \<or> cx > xmax b \<or> cy < ymin b \<or> cy > ymax b \<or> cz < zmin b \<or> cz > zmax b
      then None
      else let xs = to_size_t w (xmax b - xmin b + 1);
               ys = to_size_t w (ymax b - ymin b + 1);
               zs = to_size_t w (zmax b - zmin b + 1);
               ox = to_size_t w (cx - xmin b);
               oy = to_size_t w (cy - ymin b);
               oz = to_size_t w (cz - zmin b)
           in Some (size_add w (size_mul w (size_add w (size_mul w ox ys) oy) zs) oz))"

text \<open>
  \<^verbatim>\<open>chunkIndexToCoordinate\<close> in machine arithmetic. The divisions by \<^verbatim>\<open>plane\<close> and by \<^verbatim>\<open>zs\<close>
  trap when the divisor is zero: the result is \<open>None\<close>.
\<close>

definition chunkIndexToCoordinateW ::
  "nat \<Rightarrow> nat \<Rightarrow> ChunkBounds \<Rightarrow> (int \<times> int \<times> int) option" where
  "chunkIndexToCoordinateW w index b =
     (let xs = to_size_t w (xmax b - xmin b + 1);
          ys = to_size_t w (ymax b - ymin b + 1);
          zs = to_size_t w (zmax b - zmin b + 1);
          plane = size_mul w ys zs
      in if plane = 0 \<or> zs = 0 then None
         else let ox = index div plane;
                  rem = index mod plane;
                  oy = rem div zs;
                  oz = rem mod zs
              in Some (to_int ox + xmin b, to_int oy + ymin b, to_int oz + zmin b))"

text \<open>
  \<^verbatim>\<open>initVoxels\<close> in machine arithmetic. \<^verbatim>\<open>new VoxelChunk *[totalChunks]\<close> throws when the byte
  size of the pointer array (\<open>w div 8\<close> bytes per pointer) is not representable in
  \<^verbatim>\<open>size_t\<close>, and a trap in \<^verbatim>\<open>chunkIndexToCoordinate\<close> ends the loop: both are the result
  \<open>None\<close>. An allocation of a representable size is taken to succeed.
\<close>

definition newChunkW :: "nat \<Rightarrow> ChunkBounds \<Rightarrow> nat \<Rightarrow> VoxelChunk option" where
  "newChunkW w b i =
     (case chunkIndexToCoordinateW w i b of
        None \<Rightarrow> None
      | Some (cx, cy, cz) \<Rightarrow>
          Some \<lparr> chunk_id = to_int i, chunk_x = cx, chunk_y = cy, chunk_z = cz,
                 chunk_value = replicate CHUNK_VOXELS 0,
                 chunk_color = replicate (CHUNK_VOXELS * 3) 0,
                 chunk_sum = 0, dirtyMesh = False \<rparr>)"

definition initVoxelsW ::
  "nat \<Rightarrow> int \<Rightarrow> int \<Rightarrow> int \<Rightarrow> int \<Rightarrow> int \<Rightarrow> int \<Rightarrow> Voxels option" where
  "initVoxelsW w chunkXMin chunkXMax chunkYMin chunkYMax chunkZMin chunkZMax =
     (let b = \<lparr> xmin = chunkXMin, xmax = chunkXMax, ymin = chunkYMin, ymax = chunkYMax,
                zmin = chunkZMin, zmax = chunkZMax \<rparr>;
          chunkCountX = to_size_t w (chunkXMax - chunkXMin + 1);
          chunkCountY = to_size_t w (chunkYMax - chunkYMin + 1);
          chunkCountZ = to_size_t w (chunkZMax - chunkZMin + 1);
          totalChunks = size_mul w (size_mul w chunkCountX chunkCountY) chunkCountZ
      in if 2 ^ w \<le> totalChunks * (w div 8) then None
         else case those (map (newChunkW w b) [0..<totalChunks]) of
                None \<Rightarrow> None
              | Some cs \<Rightarrow> Some \<lparr> bounds = b, chunks = cs \<rparr>)"

text \<open>
  Bounds whose world the machine can hold: no axis is inverted, the number of chunks is an
  \<^verbatim>\<open>int\<close> (the chunk \<^verbatim>\<open>id\<close> is one) and fits \<^verbatim>\<open>size_t\<close>, and so does the byte size of the
  pointer array.
\<close>

definition allocatable :: "nat \<Rightarrow> ChunkBounds \<Rightarrow> bool" where
  "allocatable w b =
     (xmin b \<le> xmax b \<and> ymin b \<le> ymax b \<and> zmin b \<le> zmax b \<and>
      int (totalChunks b) \<le> INT_MAX \<and> totalChunks b < 2 ^ w \<and> totalChunks b * (w div 8) < 2 ^ w)"

subsection \<open>Meshing\<close>

text \<open>
  The caller's output buffer. Each list is the allocated array, so its length is the
  allocated size. A write \<^verbatim>\<open>buf[count++] = v\<close> is a list update at index \<open>count\<close>. The source
  does no bounds check: a write at an index outside the array is undefined behaviour and
  can change any other object, so the model has no result (\<open>None\<close>) there.
  \<^verbatim>\<open>allocateChunkGeometry\<close> allocates every array for the worst case of 15 vertices per
  voxel.
\<close>

definition CHUNK_GEOMETRY_WORST_CASE_VERTICES :: nat where
  "CHUNK_GEOMETRY_WORST_CASE_VERTICES = CHUNK_VOXELS * 15"

definition CHUNK_GEOMETRY_WORST_CASE_COMPONENTS :: nat where
  "CHUNK_GEOMETRY_WORST_CASE_COMPONENTS = CHUNK_GEOMETRY_WORST_CASE_VERTICES * 3"

record ChunkGeometry =
  positions :: "real list"
  positionsCount :: nat
  normals :: "real list"
  normalsCount :: nat
  colors :: "real list"
  colorsCount :: nat

definition pushPosition :: "real \<Rightarrow> ChunkGeometry \<Rightarrow> ChunkGeometry option" where
  "pushPosition v out =
     (if positionsCount out < length (positions out)
      then Some (out\<lparr>positions := (positions out)[positionsCount out := v],
                     positionsCount := positionsCount out + 1\<rparr>)
      else None)"

definition pushNormal :: "real \<Rightarrow> ChunkGeometry \<Rightarrow> ChunkGeometry option" where
  "pushNormal v out =
     (if normalsCount out < length (normals out)
      then Some (out\<lparr>normals := (normals out)[normalsCount out := v],
                     normalsCount := normalsCount out + 1\<rparr>)
      else None)"

definition pushColor :: "real \<Rightarrow> ChunkGeometry \<Rightarrow> ChunkGeometry option" where
  "pushColor v out =
     (if colorsCount out < length (colors out)
      then Some (out\<lparr>colors := (colors out)[colorsCount out := v],
                     colorsCount := colorsCount out + 1\<rparr>)
      else None)"

text \<open>A sequence of statements, or a loop over a list, that stops at the first failure.\<close>

primrec foldOpt :: "('a \<Rightarrow> 's \<Rightarrow> 's option) \<Rightarrow> 'a list \<Rightarrow> 's \<Rightarrow> 's option" where
  "foldOpt f [] s = Some s"
| "foldOpt f (x # xs) s = (case f x s of None \<Rightarrow> None | Some s' \<Rightarrow> foldOpt f xs s')"

text \<open>The body of the triangle loop for one triangle \<open>(p0, p1, p2)\<close>: 27 writes.\<close>

definition emitTriangle ::
  "EdgePoint \<Rightarrow> EdgePoint \<Rightarrow> EdgePoint \<Rightarrow> ChunkGeometry \<Rightarrow> ChunkGeometry option" where
  "emitTriangle p0 p1 p2 out =
     (case (e_position p0, e_position p1, e_position p2) of
        ((p0x, p0y, p0z), (p1x, p1y, p1z), (p2x, p2y, p2z)) \<Rightarrow>
          (case computeNormal (e_position p0) (e_position p1) (e_position p2) of
             (nx, ny, nz) \<Rightarrow>
               (case foldOpt pushPosition [p0x, p0y, p0z, p1x, p1y, p1z, p2x, p2y, p2z] out of
                  None \<Rightarrow> None
                | Some out \<Rightarrow>
                    (case foldOpt pushNormal [nx, ny, nz, nx, ny, nz, nx, ny, nz] out of
                       None \<Rightarrow> None
                     | Some out \<Rightarrow>
                         foldOpt pushColor
                           [e_r p0, e_g p0, e_b p0, e_r p1, e_g p1, e_b p1, e_r p2, e_g p2, e_b p2]
                           out))))"

text \<open>\<^verbatim>\<open>for (int i = 0; i < 16; i += 3)\<close> over one row of \<^verbatim>\<open>triTable\<close>, with its \<^verbatim>\<open>break\<close>.\<close>

function emitTriangles ::
  "int list \<Rightarrow> EdgePoint list \<Rightarrow> nat \<Rightarrow> ChunkGeometry \<Rightarrow> ChunkGeometry option" where
  "emitTriangles tri edgePoints i out =
     (if i < 16 then
        (if tri ! i = - 1 then Some out
         else case emitTriangle (edgePoints ! nat (tri ! i)) (edgePoints ! nat (tri ! (i + 1)))
                     (edgePoints ! nat (tri ! (i + 2))) out of
                None \<Rightarrow> None
              | Some out \<Rightarrow> emitTriangles tri edgePoints (i + 3) out)
      else Some out)"
  by pat_completeness auto
termination
  by (relation "measure (\<lambda>(tri, edgePoints, i, out). 16 - i)") auto

declare emitTriangles.simps [simp del]

text \<open>
  The memory a \<^verbatim>\<open>mesh\<close> call can reach: the world with its chunks, the caller's geometry
  buffer, and the module's scratch globals \<^verbatim>\<open>gridBuffer\<close> (indexed \<open>[ly][lz][lx]\<close>),
  \<^verbatim>\<open>samples\<close> and \<^verbatim>\<open>edgePoints\<close>. Every statement of \<^verbatim>\<open>mesh\<close> is a function on this memory.
  The \<^verbatim>\<open>chunk\<close> pointer is the position \<open>ci\<close> of the chunk in the world's chunk array.
\<close>

record Engine =
  eng_world :: Voxels
  eng_geometry :: ChunkGeometry
  eng_gridBuffer :: "nat \<times> nat \<times> nat \<Rightarrow> byte \<times> byte \<times> byte \<times> byte"
  eng_samples :: "Sample list"
  eng_edgePoints :: "EdgePoint list"

text \<open>The body of the pre-sampling loop: one entry of \<^verbatim>\<open>gridBuffer\<close>.\<close>

definition presample :: "nat \<Rightarrow> nat \<Rightarrow> nat \<Rightarrow> nat \<Rightarrow> Engine \<Rightarrow> Engine" where
  "presample ci ly lz lx e =
     e\<lparr>eng_gridBuffer := (eng_gridBuffer e)
          ((ly, lz, lx) :=
             getVoxelRelative (eng_world e) (chunks (eng_world e) ! ci) (int lx) (int ly) (int lz))\<rparr>"

text \<open>The sample built from the grid entry \<open>[ly][lz][lx]\<close>.\<close>

definition gridSample :: "Engine \<Rightarrow> nat \<Rightarrow> nat \<Rightarrow> nat \<Rightarrow> Sample" where
  "gridSample e lx ly lz =
     (case eng_gridBuffer e (ly, lz, lx) of
        (v, r, g, b) \<Rightarrow>
          \<lparr> s_position = (real lx, real ly, real lz), s_value = v, s_r = r, s_g = g, s_b = b \<rparr>)"

text \<open>The eight assignments to \<^verbatim>\<open>samples\<close> for the cell at \<open>(lx, ly, lz)\<close>, in the source's order.\<close>

definition loadSamples :: "nat \<Rightarrow> nat \<Rightarrow> nat \<Rightarrow> Engine \<Rightarrow> Engine" where
  "loadSamples lx ly lz e =
     e\<lparr>eng_samples :=
         [gridSample e lx ly lz,
          gridSample e lx (ly + 1) lz,
          gridSample e (lx + 1) (ly + 1) lz,
          gridSample e (lx + 1) ly lz,
          gridSample e lx ly (lz + 1),
          gridSample e lx (ly + 1) (lz + 1),
          gridSample e (lx + 1) (ly + 1) (lz + 1),
          gridSample e (lx + 1) ly (lz + 1)]\<rparr>"

definition solidBit :: "Sample \<Rightarrow> nat \<Rightarrow> nat" where
  "solidBit smp k = push_bit k (if uint (s_value smp) \<ge> ISOLEVEL then 1 else 0)"

definition cubeIndexOf :: "Sample list \<Rightarrow> nat" where
  "cubeIndexOf samples =
     solidBit (samples ! 0) 0 OR solidBit (samples ! 1) 1 OR solidBit (samples ! 2) 2 OR
     solidBit (samples ! 3) 3 OR solidBit (samples ! 4) 4 OR solidBit (samples ! 5) 5 OR
     solidBit (samples ! 6) 6 OR solidBit (samples ! 7) 7"

text \<open>
  \<^verbatim>\<open>if (edges & bit) interpolate(&edgePoints[k], samples[i], samples[j]);\<close>
  \<^verbatim>\<open>interpolate\<close> never fails (see \<open>interpolateStep_total\<close>), so the \<open>None\<close> case is never taken.
\<close>

definition buildEdge :: "int \<Rightarrow> Sample list \<Rightarrow> nat \<times> nat \<times> nat \<Rightarrow> EdgePoint list \<Rightarrow> EdgePoint list" where
  "buildEdge edges samples e edgePoints =
     (case e of (k, i, j) \<Rightarrow>
        if edges AND (2 ^ k) \<noteq> 0
        then (case interpolate (samples ! i) (samples ! j) of
                Some p \<Rightarrow> edgePoints[k := p]
              | None \<Rightarrow> edgePoints)
        else edgePoints)"

text \<open>Edge \<open>k\<close> joins the corners \<open>i\<close> and \<open>j\<close>: the twelve \<^verbatim>\<open>interpolate\<close> calls, in order.\<close>

definition cubeEdges :: "(nat \<times> nat \<times> nat) list" where
  "cubeEdges =
     [(0, 0, 1), (1, 1, 2), (2, 2, 3), (3, 3, 0), (4, 4, 5), (5, 5, 6),
      (6, 6, 7), (7, 7, 4), (8, 0, 4), (9, 1, 5), (10, 2, 6), (11, 3, 7)]"

text \<open>The body of the marching loop for the cell \<open>(lx, ly, lz)\<close>.\<close>

definition meshCell :: "nat \<Rightarrow> nat \<Rightarrow> nat \<Rightarrow> Engine \<Rightarrow> Engine option" where
  "meshCell ly lz lx e =
     (let e = loadSamples lx ly lz e;
          cubeIndex = cubeIndexOf (eng_samples e);
          edges = edgeTable ! cubeIndex
      in if edges = 0 then Some e
         else let e = e\<lparr>eng_edgePoints :=
                          fold (buildEdge edges (eng_samples e)) cubeEdges (eng_edgePoints e)\<rparr>
              in case emitTriangles (triTable ! cubeIndex) (eng_edgePoints e) 0 (eng_geometry e) of
                   None \<Rightarrow> None
                 | Some out \<Rightarrow> Some (e\<lparr>eng_geometry := out\<rparr>))"

text \<open>
  \<^verbatim>\<open>mesh(voxels, chunk, out)\<close> on the memory \<open>e\<close> that holds \<^verbatim>\<open>*voxels\<close> and \<^verbatim>\<open>*out\<close>: reset
  the three counters, fill the \<open>17 \<times> 17 \<times> 17\<close> grid, then march the cells (\<open>ly\<close> outermost,
  \<open>lx\<close> innermost).
\<close>

definition SAMPLE_GRID_SIZE :: nat where "SAMPLE_GRID_SIZE = nat CHUNK_SIZE + 1"

definition mesh :: "Engine \<Rightarrow> nat \<Rightarrow> Engine option" where
  "mesh e ci =
     (let e = e\<lparr>eng_geometry :=
                 (eng_geometry e)\<lparr>positionsCount := 0, normalsCount := 0, colorsCount := 0\<rparr>\<rparr>;
          g = SAMPLE_GRID_SIZE;
          e = fold (\<lambda>ly. fold (\<lambda>lz. fold (presample ci ly lz) [0..<g]) [0..<g]) [0..<g] e;
          n = nat CHUNK_SIZE
      in foldOpt (\<lambda>ly. foldOpt (\<lambda>lz. foldOpt (meshCell ly lz) [0..<n]) [0..<n]) [0..<n] e)"

subsection \<open>Notions used to state the frame of mesh\<close>

text \<open>
  The corner samples of the cell \<open>(lx, ly, lz)\<close> of a chunk, read from the world: a corner
  inside the chunk from the chunk itself, a corner on the high faces from the neighbour
  chunk (zero where there is none).
\<close>

definition cornerSample :: "Voxels \<Rightarrow> VoxelChunk \<Rightarrow> nat \<Rightarrow> nat \<Rightarrow> nat \<Rightarrow> Sample" where
  "cornerSample w c lx ly lz =
     (case getVoxelRelative w c (int lx) (int ly) (int lz) of
        (v, r, g, b) \<Rightarrow>
          \<lparr> s_position = (real lx, real ly, real lz), s_value = v, s_r = r, s_g = g, s_b = b \<rparr>)"

definition cellSamples :: "Voxels \<Rightarrow> VoxelChunk \<Rightarrow> nat \<Rightarrow> nat \<Rightarrow> nat \<Rightarrow> Sample list" where
  "cellSamples w c lx ly lz =
     [cornerSample w c lx ly lz,
      cornerSample w c lx (ly + 1) lz,
      cornerSample w c (lx + 1) (ly + 1) lz,
      cornerSample w c (lx + 1) ly lz,
      cornerSample w c lx ly (lz + 1),
      cornerSample w c lx (ly + 1) (lz + 1),
      cornerSample w c (lx + 1) (ly + 1) (lz + 1),
      cornerSample w c (lx + 1) ly (lz + 1)]"

text \<open>
  The number of triangles a row of \<^verbatim>\<open>triTable\<close> lists from position \<open>i\<close> on: the entries at
  \<open>i, i + 3, \<dots>\<close> before the first \<open>-1\<close>.
\<close>

function rowTriangles :: "int list \<Rightarrow> nat \<Rightarrow> nat" where
  "rowTriangles tri i =
     (if i < 16 then (if tri ! i = - 1 then 0 else 1 + rowTriangles tri (i + 3)) else 0)"
  by pat_completeness auto
termination
  by (relation "measure (\<lambda>(tri, i). 16 - i)") auto

declare rowTriangles.simps [simp del]

text \<open>The number of triangles of a cell and of a chunk, from the tables.\<close>

definition cellTriangles :: "Voxels \<Rightarrow> VoxelChunk \<Rightarrow> nat \<Rightarrow> nat \<Rightarrow> nat \<Rightarrow> nat" where
  "cellTriangles w c ly lz lx =
     (let cubeIndex = cubeIndexOf (cellSamples w c lx ly lz)
      in if edgeTable ! cubeIndex = 0 then 0 else rowTriangles (triTable ! cubeIndex) 0)"

definition meshTriangles :: "Voxels \<Rightarrow> VoxelChunk \<Rightarrow> nat" where
  "meshTriangles w c =
     (\<Sum>ly\<leftarrow>[0..<16]. \<Sum>lz\<leftarrow>[0..<16]. \<Sum>lx\<leftarrow>[0..<16]. cellTriangles w c ly lz lx)"

text \<open>
  The buffer \<open>g\<close> is the buffer \<open>g0\<close> with the entries below its counters written: the
  arrays have their lengths, the three counters are equal, and every entry at or above the
  counter is the entry of \<open>g0\<close>.
\<close>

definition appendedTo :: "ChunkGeometry \<Rightarrow> ChunkGeometry \<Rightarrow> bool" where
  "appendedTo g0 g =
     (length (positions g) = length (positions g0) \<and>
      length (normals g) = length (normals g0) \<and>
      length (colors g) = length (colors g0) \<and>
      normalsCount g = positionsCount g \<and> colorsCount g = positionsCount g \<and>
      (\<forall>j < length (positions g0). positionsCount g \<le> j \<longrightarrow> positions g ! j = positions g0 ! j) \<and>
      (\<forall>j < length (normals g0). positionsCount g \<le> j \<longrightarrow> normals g ! j = normals g0 ! j) \<and>
      (\<forall>j < length (colors g0). positionsCount g \<le> j \<longrightarrow> colors g ! j = colors g0 ! j))"

text \<open>
  The state of the marching loop of \<open>mesh\<close> on the world \<open>w\<close>, the chunk \<open>c\<close> and the caller's
  buffer \<open>g0\<close>: the world is \<open>w\<close>, the grid holds the corner samples of \<open>c\<close>, and the buffer
  is \<open>g0\<close> with the entries below the counters written.
\<close>

definition marching :: "Voxels \<Rightarrow> VoxelChunk \<Rightarrow> ChunkGeometry \<Rightarrow> Engine \<Rightarrow> bool" where
  "marching w c g0 e =
     (eng_world e = w \<and>
      (\<forall>ly \<le> 16. \<forall>lz \<le> 16. \<forall>lx \<le> 16.
         eng_gridBuffer e (ly, lz, lx) = getVoxelRelative w c (int lx) (int ly) (int lz)) \<and>
      appendedTo g0 (eng_geometry e))"

section \<open>Verification\<close>

subsection \<open>Flat chunk index\<close>

lemma flat_index_decode:
  fixes ox oy oz ys zs :: nat
  assumes "oy < ys" "oz < zs"
  shows "((ox * ys + oy) * zs + oz) div (ys * zs) = ox"
    and "((ox * ys + oy) * zs + oz) mod (ys * zs) div zs = oy"
    and "((ox * ys + oy) * zs + oz) mod (ys * zs) mod zs = oz"
proof -
  have lt: "oy * zs + oz < ys * zs"
  proof -
    have "oy * zs + oz < oy * zs + zs" using assms by simp
    also have "\<dots> = (oy + 1) * zs" by simp
    also have "\<dots> \<le> ys * zs"
    proof -
      have "oy + 1 \<le> ys" using assms by simp
      then show ?thesis by (rule mult_le_mono1)
    qed
    finally show ?thesis .
  qed
  have pos: "0 < ys * zs" using lt by (cases "ys * zs") simp_all
  have eq: "(ox * ys + oy) * zs + oz = ox * (ys * zs) + (oy * zs + oz)"
    by (simp add: algebra_simps)
  show "((ox * ys + oy) * zs + oz) div (ys * zs) = ox"
    unfolding eq using lt pos by simp
  have m: "((ox * ys + oy) * zs + oz) mod (ys * zs) = oy * zs + oz"
    unfolding eq using lt by simp
  show "((ox * ys + oy) * zs + oz) mod (ys * zs) div zs = oy"
    unfolding m using assms by simp
  show "((ox * ys + oy) * zs + oz) mod (ys * zs) mod zs = oz"
    unfolding m using assms by simp
qed

lemma index_in_bounds:
  "in_bounds b cx cy cz \<Longrightarrow>
   chunkCoordinateToIndex cx cy cz b =
     Some ((nat (cx - xmin b) * nat (ymax b - ymin b + 1) + nat (cy - ymin b))
             * nat (zmax b - zmin b + 1) + nat (cz - zmin b))"
  by (auto simp: in_bounds_def chunkCoordinateToIndex_def Let_def)

lemma index_out_of_bounds:
  "\<not> in_bounds b cx cy cz \<Longrightarrow> chunkCoordinateToIndex cx cy cz b = None"
  by (auto simp: in_bounds_def chunkCoordinateToIndex_def)

lemma index_Some_iff:
  "(\<exists>i. chunkCoordinateToIndex cx cy cz b = Some i) = in_bounds b cx cy cz"
  by (cases "in_bounds b cx cy cz") (simp_all add: index_in_bounds index_out_of_bounds)

lemma coordinate_of_index:
  assumes "in_bounds b cx cy cz" and "chunkCoordinateToIndex cx cy cz b = Some i"
  shows "chunkIndexToCoordinate i b = (cx, cy, cz)"
proof -
  let ?ys = "nat (ymax b - ymin b + 1)" and ?zs = "nat (zmax b - zmin b + 1)"
  let ?ox = "nat (cx - xmin b)" and ?oy = "nat (cy - ymin b)" and ?oz = "nat (cz - zmin b)"
  have i: "i = (?ox * ?ys + ?oy) * ?zs + ?oz"
    using assms by (simp add: index_in_bounds)
  have lt: "?oy < ?ys" "?oz < ?zs"
    using assms(1) by (auto simp: in_bounds_def)
  have nn: "int ?ox = cx - xmin b" "int ?oy = cy - ymin b" "int ?oz = cz - zmin b"
    using assms(1) by (auto simp: in_bounds_def)
  show ?thesis
    unfolding chunkIndexToCoordinate_def Let_def i
    by (simp only: flat_index_decode[OF lt] nn) simp
qed

lemma index_lt_total:
  assumes "chunkCoordinateToIndex cx cy cz b = Some i"
  shows "i < totalChunks b"
proof -
  have ib: "in_bounds b cx cy cz" using assms index_Some_iff by blast
  let ?xs = "nat (xmax b - xmin b + 1)"
  let ?ys = "nat (ymax b - ymin b + 1)" and ?zs = "nat (zmax b - zmin b + 1)"
  let ?ox = "nat (cx - xmin b)" and ?oy = "nat (cy - ymin b)" and ?oz = "nat (cz - zmin b)"
  have i: "i = (?ox * ?ys + ?oy) * ?zs + ?oz"
    using assms ib by (simp add: index_in_bounds)
  have lt: "?ox < ?xs" "?oy < ?ys" "?oz < ?zs"
    using ib by (auto simp: in_bounds_def)
  have "?ox * ?ys + ?oy < ?ox * ?ys + ?ys" using lt by simp
  also have "\<dots> = (?ox + 1) * ?ys" by simp
  also have "\<dots> \<le> ?xs * ?ys"
  proof -
    have "?ox + 1 \<le> ?xs" using lt(1) by linarith
    then show ?thesis by (rule mult_le_mono1)
  qed
  finally have a: "?ox * ?ys + ?oy + 1 \<le> ?xs * ?ys" by simp
  have "i < (?ox * ?ys + ?oy) * ?zs + ?zs" unfolding i using lt by simp
  also have "\<dots> = (?ox * ?ys + ?oy + 1) * ?zs" by simp
  also have "\<dots> \<le> (?xs * ?ys) * ?zs" using a by (intro mult_le_mono1)
  finally show ?thesis by (simp add: totalChunks_def)
qed

lemma offset_le: "n < nat (h - l + 1) \<Longrightarrow> int n + l \<le> h"
  by linarith

lemma index_of_coordinate:
  assumes "i < totalChunks b"
  shows "case chunkIndexToCoordinate i b of (cx, cy, cz) \<Rightarrow>
           in_bounds b cx cy cz \<and> chunkCoordinateToIndex cx cy cz b = Some i"
proof -
  let ?xs = "nat (xmax b - xmin b + 1)"
  let ?ys = "nat (ymax b - ymin b + 1)" and ?zs = "nat (zmax b - zmin b + 1)"
  let ?plane = "?ys * ?zs"
  let ?ox = "i div ?plane" and ?oy = "i mod ?plane div ?zs" and ?oz = "i mod ?plane mod ?zs"
  have "0 < ?xs * ?ys * ?zs"
    using assms unfolding totalChunks_def by linarith
  then have pos: "0 < ?xs" "0 < ?ys" "0 < ?zs"
    by simp_all
  have ox: "?ox < ?xs"
    using assms pos by (simp add: totalChunks_def less_mult_imp_div_less mult.assoc)
  have oy: "?oy < ?ys"
    using pos by (simp add: less_mult_imp_div_less mult.commute)
  have oz: "?oz < ?zs" using pos by simp
  have ib: "in_bounds b (int ?ox + xmin b) (int ?oy + ymin b) (int ?oz + zmin b)"
    using ox oy oz by (simp add: in_bounds_def offset_le)
  have recomp: "(?ox * ?ys + ?oy) * ?zs + ?oz = i"
  proof -
    have "(?ox * ?ys + ?oy) * ?zs + ?oz = ?ox * ?plane + (?oy * ?zs + ?oz)"
      by (simp add: algebra_simps)
    also have "?oy * ?zs + ?oz = i mod ?plane" by simp
    also have "?ox * ?plane + i mod ?plane = i"
      by (rule div_mult_mod_eq)
    finally show ?thesis .
  qed
  have "chunkCoordinateToIndex (int ?ox + xmin b) (int ?oy + ymin b) (int ?oz + zmin b) b = Some i"
    using recomp by (simp add: index_in_bounds[OF ib])
  with ib show ?thesis
    by (simp add: chunkIndexToCoordinate_def Let_def)
qed

subsection \<open>World initialisation\<close>

lemma bounds_initVoxels:
  "bounds (initVoxels x0 x1 y0 y1 z0 z1) =
     \<lparr> xmin = x0, xmax = x1, ymin = y0, ymax = y1, zmin = z0, zmax = z1 \<rparr>"
  by (simp add: initVoxels_def Let_def)

lemma length_initVoxels:
  "length (chunks (initVoxels x0 x1 y0 y1 z0 z1)) = totalChunks (bounds (initVoxels x0 x1 y0 y1 z0 z1))"
  by (simp add: initVoxels_def Let_def totalChunks_def)

lemma nth_initVoxels:
  "i < length (chunks (initVoxels x0 x1 y0 y1 z0 z1)) \<Longrightarrow>
   chunks (initVoxels x0 x1 y0 y1 z0 z1) ! i = newChunk (bounds (initVoxels x0 x1 y0 y1 z0 z1)) i"
  by (simp add: initVoxels_def Let_def)

lemma newChunk_fields:
  "chunk_value (newChunk b i) = replicate CHUNK_VOXELS 0"
  "chunk_color (newChunk b i) = replicate (CHUNK_VOXELS * 3) 0"
  "chunk_sum (newChunk b i) = 0"
  "dirtyMesh (newChunk b i) = False"
  "chunk_id (newChunk b i) = int i"
  "(chunk_x (newChunk b i), chunk_y (newChunk b i), chunk_z (newChunk b i)) = chunkIndexToCoordinate i b"
  by (simp_all add: newChunk_def Let_def split: prod.split)

lemma wf_newChunk: "wf_chunk (newChunk b i)"
  by (simp add: wf_chunk_def newChunk_fields)

lemma wf_initVoxels: "wf_world (initVoxels x0 x1 y0 y1 z0 z1)"
  unfolding wf_world_def
proof
  show "length (chunks (initVoxels x0 x1 y0 y1 z0 z1)) = totalChunks (bounds (initVoxels x0 x1 y0 y1 z0 z1))"
    by (rule length_initVoxels)
  show "list_all wf_chunk (chunks (initVoxels x0 x1 y0 y1 z0 z1))"
    by (simp add: initVoxels_def Let_def list_all_iff wf_newChunk)
qed

subsection \<open>setVoxel outside the bounds\<close>

text \<open>
  C8. A \<open>setVoxel\<close> whose owning chunk coordinate lies outside the bounds returns the
  world it was given: no density, colour, sum or dirty flag of any chunk changes.
\<close>

theorem setVoxel_out_of_bounds:
  assumes "worldPositionToChunkCoordinates wx wy wz = (cx, cy, cz)"
    and "\<not> in_bounds (bounds world) cx cy cz"
  shows "setVoxel world wx wy wz val r g b = world"
  using assms by (simp add: setVoxel_def index_out_of_bounds split: prod.split)

theorem setVoxel_out_of_bounds_witness:
  "worldPositionToChunkCoordinates 16 0 (- 1) = (1, 0, - 1)
   \<and> \<not> in_bounds (bounds (initVoxels 0 0 0 0 0 0)) 1 0 (- 1)
   \<and> setVoxel (initVoxels 0 0 0 0 0 0) 16 0 (- 1) 200 1 2 3 = initVoxels 0 0 0 0 0 0"
proof -
  have a: "worldPositionToChunkCoordinates 16 0 (- 1) = (1, 0, - 1)"
    by (simp add: worldPositionToChunkCoordinates_def CHUNK_BITS_def)
  have b: "\<not> in_bounds (bounds (initVoxels 0 0 0 0 0 0)) 1 0 (- 1)"
    by (simp add: in_bounds_def bounds_initVoxels)
  from setVoxel_out_of_bounds[OF a b] a b show ?thesis by simp
qed

subsection \<open>Dirty marking\<close>

lemma marks_refl: "marks w {} w"
  by (simp add: marks_def)

lemma marks_trans:
  assumes "marks w S w'" and "marks w' T w''"
  shows "marks w (S \<union> T) w''"
proof -
  let ?P = "\<lambda>S i. \<exists>p \<in> S. case p of (x, y, z) \<Rightarrow> chunkCoordinateToIndex x y z (bounds w) = Some i"
  have b: "bounds w' = bounds w" "bounds w'' = bounds w"
    and l: "length (chunks w') = length (chunks w)" "length (chunks w'') = length (chunks w)"
    and e: "map clearChunkDirty (chunks w'') = map clearChunkDirty (chunks w)"
    using assms by (simp_all add: marks_def)
  have d: "dirtyMesh (chunks w'' ! i) = (dirtyMesh (chunks w ! i) \<or> ?P (S \<union> T) i)"
    if i: "i < length (chunks w)" for i
  proof -
    have "dirtyMesh (chunks w'' ! i) = (dirtyMesh (chunks w' ! i) \<or> ?P T i)"
      using assms(2) i l b by (simp add: marks_def)
    also have "dirtyMesh (chunks w' ! i) = (dirtyMesh (chunks w ! i) \<or> ?P S i)"
      using assms(1) i by (simp add: marks_def)
    finally show ?thesis by blast
  qed
  show ?thesis
    unfolding marks_def using b l e d by blast
qed

lemma marks_markChunkDirty: "marks w {(x, y, z)} (markChunkDirty w x y z)"
proof (cases "chunkCoordinateToIndex x y z (bounds w)")
  case None
  then show ?thesis by (simp add: markChunkDirty_def marks_def)
next
  case (Some k)
  let ?xs = "chunks w"
  let ?c = "(?xs ! k)\<lparr>dirtyMesh := True\<rparr>"
  have w': "markChunkDirty w x y z = w\<lparr>chunks := ?xs[k := ?c]\<rparr>"
    using Some by (simp add: markChunkDirty_def)
  have erase: "map clearChunkDirty (?xs[k := ?c]) = map clearChunkDirty ?xs"
  proof (cases "k < length ?xs")
    case True
    have "map clearChunkDirty (?xs[k := ?c]) = (map clearChunkDirty ?xs)[k := clearChunkDirty ?c]"
      by (rule map_update)
    also have "clearChunkDirty ?c = map clearChunkDirty ?xs ! k"
      using True by (simp add: clearChunkDirty_def)
    also have "(map clearChunkDirty ?xs)[k := map clearChunkDirty ?xs ! k] = map clearChunkDirty ?xs"
      by (rule list_update_id)
    finally show ?thesis .
  next
    case False
    then have "length ?xs \<le> k" by simp
    then show ?thesis by (simp only: list_update_beyond)
  qed
  have dirty: "dirtyMesh (?xs[k := ?c] ! i) = (dirtyMesh (?xs ! i) \<or> k = i)" if "i < length ?xs" for i
    using that by (cases "k = i") simp_all
  show ?thesis
    unfolding marks_def w' using erase dirty Some by auto
qed

lemma marks_markIf: "marks w (if cond then {(x, y, z)} else {}) (markIf cond w x y z)"
  by (simp add: markIf_def marks_refl marks_markChunkDirty)

lemma marks_markFace:
  "marks w (if l = 0 then {lo} else if l = CHUNK_SIZE - 1 then {hi} else {}) (markFace l w lo hi)"
  by (cases lo; cases hi) (simp add: markFace_def marks_refl marks_markChunkDirty)

lemma marks_fold_markIf:
  "marks w {(x, y, z). (True, x, y, z) \<in> set tests}
     (fold (\<lambda>(cond, x, y, z) w. markIf cond w x y z) tests w)"
proof (induction tests arbitrary: w)
  case Nil
  then show ?case by (simp add: marks_refl)
next
  case (Cons t tests)
  obtain cond x y z where t: "t = (cond, x, y, z)" by (cases t) auto
  let ?w1 = "markIf cond w x y z"
  have "marks w ((if cond then {(x, y, z)} else {}) \<union> {(x, y, z). (True, x, y, z) \<in> set tests})
          (fold (\<lambda>(cond, x, y, z) w. markIf cond w x y z) tests ?w1)"
    using marks_markIf Cons.IH by (rule marks_trans)
  moreover have "(if cond then {(x, y, z)} else {}) \<union> {(x, y, z). (True, x, y, z) \<in> set tests}
      = {(x', y', z'). (True, x', y', z') \<in> set (t # tests)}"
    by (auto simp: t)
  ultimately show ?case by (simp add: t)
qed

text \<open>The set of chunk coordinates that \<open>markNeighbours\<close> marks.\<close>

lemma marks_markNeighbours:
  "marks w
     ((if lx = 0 then {(cx - 1, cy, cz)} else if lx = CHUNK_SIZE - 1 then {(cx + 1, cy, cz)} else {}) \<union>
      (if ly = 0 then {(cx, cy - 1, cz)} else if ly = CHUNK_SIZE - 1 then {(cx, cy + 1, cz)} else {}) \<union>
      (if lz = 0 then {(cx, cy, cz - 1)} else if lz = CHUNK_SIZE - 1 then {(cx, cy, cz + 1)} else {}) \<union>
      {(x, y, z). (True, x, y, z) \<in> set (diagonalTests cx cy cz lx ly lz)})
     (markNeighbours w cx cy cz lx ly lz)"
  unfolding markNeighbours_def
  by (rule marks_trans[OF marks_trans[OF marks_trans[OF marks_markFace marks_markFace]
            marks_markFace] marks_fold_markIf])

lemma marks_data:
  assumes "marks w S w'" and "i < length (chunks w)"
  shows "chunk_value (chunks w' ! i) = chunk_value (chunks w ! i)"
    and "chunk_color (chunks w' ! i) = chunk_color (chunks w ! i)"
    and "chunk_sum (chunks w' ! i) = chunk_sum (chunks w ! i)"
    and "chunk_x (chunks w' ! i) = chunk_x (chunks w ! i)"
    and "chunk_y (chunks w' ! i) = chunk_y (chunks w ! i)"
    and "chunk_z (chunks w' ! i) = chunk_z (chunks w ! i)"
    and "chunk_id (chunks w' ! i) = chunk_id (chunks w ! i)"
proof -
  have len: "i < length (chunks w')" using assms by (simp add: marks_def)
  have "map clearChunkDirty (chunks w') ! i = map clearChunkDirty (chunks w) ! i"
    using assms(1) by (simp add: marks_def)
  then have eq: "clearChunkDirty (chunks w' ! i) = clearChunkDirty (chunks w ! i)"
    using len assms(2) by simp
  have f: "chunk_value c = chunk_value (clearChunkDirty c)"
    "chunk_color c = chunk_color (clearChunkDirty c)"
    "chunk_sum c = chunk_sum (clearChunkDirty c)"
    "chunk_x c = chunk_x (clearChunkDirty c)"
    "chunk_y c = chunk_y (clearChunkDirty c)"
    "chunk_z c = chunk_z (clearChunkDirty c)"
    "chunk_id c = chunk_id (clearChunkDirty c)" for c
    by (simp_all add: clearChunkDirty_def)
  show "chunk_value (chunks w' ! i) = chunk_value (chunks w ! i)"
    by (subst f(1), subst (2) f(1), simp add: eq)
  show "chunk_color (chunks w' ! i) = chunk_color (chunks w ! i)"
    by (subst f(2), subst (2) f(2), simp add: eq)
  show "chunk_sum (chunks w' ! i) = chunk_sum (chunks w ! i)"
    by (subst f(3), subst (2) f(3), simp add: eq)
  show "chunk_x (chunks w' ! i) = chunk_x (chunks w ! i)"
    by (subst f(4), subst (2) f(4), simp add: eq)
  show "chunk_y (chunks w' ! i) = chunk_y (chunks w ! i)"
    by (subst f(5), subst (2) f(5), simp add: eq)
  show "chunk_z (chunks w' ! i) = chunk_z (chunks w ! i)"
    by (subst f(6), subst (2) f(6), simp add: eq)
  show "chunk_id (chunks w' ! i) = chunk_id (chunks w ! i)"
    by (subst f(7), subst (2) f(7), simp add: eq)
qed

subsection \<open>The write of setVoxel\<close>

lemma local_offset_range:
  "worldPositionToChunkPosition wx wy wz = (lx, ly, lz) \<Longrightarrow>
   0 \<le> lx \<and> lx < 16 \<and> 0 \<le> ly \<and> ly < 16 \<and> 0 \<le> lz \<and> lz < 16"
  by (auto simp: worldPositionToChunkPosition_def CHUNK_MASK_def CHUNK_SIZE_def CHUNK_BITS_def)

lemma getVoxelIndex_lt:
  assumes "0 \<le> lx" "lx < 16" "0 \<le> ly" "ly < 16" "0 \<le> lz" "lz < 16"
  shows "getVoxelIndex lx ly lz < CHUNK_VOXELS"
proof -
  have "nat lx \<le> 15" "nat ly \<le> 15" "nat lz \<le> 15" using assms by linarith+
  then have "nat lx + nat lz * 16 + nat ly * 256 \<le> 15 + 15 * 16 + 15 * 256"
    by linarith
  then show ?thesis
    by (simp add: getVoxelIndex_def CHUNK_VOXELS_def CHUNK_SIZE_def CHUNK_BITS_def)
qed

text \<open>What \<open>setVoxel\<close> does when the owning chunk is present.\<close>

lemma setVoxel_in_bounds:
  assumes "worldPositionToChunkCoordinates wx wy wz = (cx, cy, cz)"
    and "worldPositionToChunkPosition wx wy wz = (lx, ly, lz)"
    and "chunkCoordinateToIndex cx cy cz (bounds w) = Some k"
  shows "setVoxel w wx wy wz val r g b =
           markNeighbours
             (w\<lparr>chunks := (chunks w)[k := writeVoxel (chunks w ! k) (getVoxelIndex lx ly lz) val r g b]\<rparr>)
             cx cy cz lx ly lz"
  using assms by (simp add: setVoxel_def Let_def)

lemma wf_world_nth:
  "wf_world w \<Longrightarrow> i < length (chunks w) \<Longrightarrow> wf_chunk (chunks w ! i)"
  by (simp add: wf_world_def list_all_length)

lemma index_lt_length:
  "wf_world w \<Longrightarrow> chunkCoordinateToIndex cx cy cz (bounds w) = Some k \<Longrightarrow> k < length (chunks w)"
  by (simp add: wf_world_def index_lt_total)

lemma writeVoxel_fields:
  "chunk_value (writeVoxel c vi val r g b) = (chunk_value c)[vi := val]"
  "chunk_color (writeVoxel c vi val r g b) = (chunk_color c)[vi * 3 := r, vi * 3 + 1 := g, vi * 3 + 2 := b]"
  "chunk_sum (writeVoxel c vi val r g b) = chunk_sum c + (uint val - uint (chunk_value c ! vi))"
  "dirtyMesh (writeVoxel c vi val r g b) = True"
  "chunk_x (writeVoxel c vi val r g b) = chunk_x c"
  "chunk_y (writeVoxel c vi val r g b) = chunk_y c"
  "chunk_z (writeVoxel c vi val r g b) = chunk_z c"
  "chunk_id (writeVoxel c vi val r g b) = chunk_id c"
  by (simp_all add: writeVoxel_def Let_def)

lemma wf_writeVoxel: "wf_chunk c \<Longrightarrow> wf_chunk (writeVoxel c vi val r g b)"
  by (simp add: wf_chunk_def writeVoxel_fields)

text \<open>The world after an in-bounds \<open>setVoxel\<close>, chunk by chunk.\<close>

lemma setVoxel_effect:
  fixes val r g b :: byte
  assumes wf: "wf_world w"
    and c: "worldPositionToChunkCoordinates wx wy wz = (cx, cy, cz)"
    and l: "worldPositionToChunkPosition wx wy wz = (lx, ly, lz)"
    and k: "chunkCoordinateToIndex cx cy cz (bounds w) = Some k"
  defines "w0 \<equiv> w\<lparr>chunks := (chunks w)[k := writeVoxel (chunks w ! k) (getVoxelIndex lx ly lz) val r g b]\<rparr>"
  shows "\<exists>S. marks w0 S (setVoxel w wx wy wz val r g b)"
    and "bounds (setVoxel w wx wy wz val r g b) = bounds w"
    and "length (chunks (setVoxel w wx wy wz val r g b)) = length (chunks w)"
    and "chunk_value (chunks (setVoxel w wx wy wz val r g b) ! k)
           = (chunk_value (chunks w ! k))[getVoxelIndex lx ly lz := val]"
    and "chunk_color (chunks (setVoxel w wx wy wz val r g b) ! k)
           = (chunk_color (chunks w ! k))[getVoxelIndex lx ly lz * 3 := r,
                getVoxelIndex lx ly lz * 3 + 1 := g, getVoxelIndex lx ly lz * 3 + 2 := b]"
    and "chunk_sum (chunks (setVoxel w wx wy wz val r g b) ! k)
           = chunk_sum (chunks w ! k) + (uint val - uint (chunk_value (chunks w ! k) ! getVoxelIndex lx ly lz))"
    and "\<And>i. i < length (chunks w) \<Longrightarrow> i \<noteq> k \<Longrightarrow>
           chunk_value (chunks (setVoxel w wx wy wz val r g b) ! i) = chunk_value (chunks w ! i) \<and>
           chunk_color (chunks (setVoxel w wx wy wz val r g b) ! i) = chunk_color (chunks w ! i) \<and>
           chunk_sum (chunks (setVoxel w wx wy wz val r g b) ! i) = chunk_sum (chunks w ! i)"
proof -
  let ?w' = "setVoxel w wx wy wz val r g b"
  have kl: "k < length (chunks w)" using wf k by (rule index_lt_length)
  have eq: "?w' = markNeighbours w0 cx cy cz lx ly lz"
    unfolding w0_def using c l k by (rule setVoxel_in_bounds)
  obtain S where m: "marks w0 S ?w'"
    unfolding eq using marks_markNeighbours by blast
  show "\<exists>S. marks w0 S ?w'" using m by blast
  have len0: "length (chunks w0) = length (chunks w)" by (simp add: w0_def)
  show "bounds ?w' = bounds w" using m by (simp add: marks_def w0_def)
  show "length (chunks ?w') = length (chunks w)" using m len0 by (simp add: marks_def)
  have k0: "chunks w0 ! k = writeVoxel (chunks w ! k) (getVoxelIndex lx ly lz) val r g b"
    using kl by (simp add: w0_def)
  have kl0: "k < length (chunks w0)" using kl len0 by simp
  show "chunk_value (chunks ?w' ! k) = (chunk_value (chunks w ! k))[getVoxelIndex lx ly lz := val]"
    using marks_data(1)[OF m kl0] by (simp add: k0 writeVoxel_fields)
  show "chunk_color (chunks ?w' ! k)
           = (chunk_color (chunks w ! k))[getVoxelIndex lx ly lz * 3 := r,
                getVoxelIndex lx ly lz * 3 + 1 := g, getVoxelIndex lx ly lz * 3 + 2 := b]"
    using marks_data(2)[OF m kl0] by (simp add: k0 writeVoxel_fields)
  show "chunk_sum (chunks ?w' ! k)
           = chunk_sum (chunks w ! k) + (uint val - uint (chunk_value (chunks w ! k) ! getVoxelIndex lx ly lz))"
    using marks_data(3)[OF m kl0] by (simp add: k0 writeVoxel_fields)
  fix i assume i: "i < length (chunks w)" "i \<noteq> k"
  then have i0: "i < length (chunks w0)" "chunks w0 ! i = chunks w ! i"
    by (simp_all add: w0_def)
  show "chunk_value (chunks ?w' ! i) = chunk_value (chunks w ! i) \<and>
        chunk_color (chunks ?w' ! i) = chunk_color (chunks w ! i) \<and>
        chunk_sum (chunks ?w' ! i) = chunk_sum (chunks w ! i)"
    using marks_data(1-3)[OF m i0(1)] i0(2) by simp
qed

lemma wf_setVoxel:
  assumes "wf_world w"
  shows "wf_world (setVoxel w wx wy wz val r g b)"
proof -
  obtain cx cy cz where c: "worldPositionToChunkCoordinates wx wy wz = (cx, cy, cz)"
    by (cases "worldPositionToChunkCoordinates wx wy wz") auto
  obtain lx ly lz where l: "worldPositionToChunkPosition wx wy wz = (lx, ly, lz)"
    by (cases "worldPositionToChunkPosition wx wy wz") auto
  show ?thesis
  proof (cases "chunkCoordinateToIndex cx cy cz (bounds w)")
    case None
    then have "setVoxel w wx wy wz val r g b = w"
      using c by (simp add: setVoxel_def)
    then show ?thesis using assms by simp
  next
    case (Some k)
    let ?w' = "setVoxel w wx wy wz val r g b"
    note eff = setVoxel_effect[OF assms c l Some, where val = val and r = r and g = g and b = b]
    have kl: "k < length (chunks w)" using assms Some by (rule index_lt_length)
    have "wf_chunk (chunks ?w' ! i)" if i: "i < length (chunks w)" for i
    proof (cases "i = k")
      case True
      have "wf_chunk (chunks w ! k)" using assms kl by (rule wf_world_nth)
      then show ?thesis
        unfolding True wf_chunk_def using eff(4,5) by simp
    next
      case False
      have "wf_chunk (chunks w ! i)" using assms i by (rule wf_world_nth)
      then show ?thesis
        unfolding wf_chunk_def using eff(7)[OF i False] by simp
    qed
    then show ?thesis
      using assms eff(2,3) by (simp add: wf_world_def list_all_length)
  qed
qed

lemma getVoxel_setVoxel_same:
  assumes wf: "wf_world w"
    and c: "worldPositionToChunkCoordinates wx wy wz = (cx, cy, cz)"
    and ib: "in_bounds (bounds w) cx cy cz"
  shows "getVoxel (setVoxel w wx wy wz d r g b) wx wy wz = (d, r, g, b)"
proof -
  let ?w' = "setVoxel w wx wy wz d r g b"
  obtain lx ly lz where l: "worldPositionToChunkPosition wx wy wz = (lx, ly, lz)"
    by (cases "worldPositionToChunkPosition wx wy wz") auto
  obtain k where k: "chunkCoordinateToIndex cx cy cz (bounds w) = Some k"
    using ib index_Some_iff by blast
  note eff = setVoxel_effect[OF wf c l k, where val = d and r = r and g = g and b = b]
  have kl: "k < length (chunks w)" using wf k by (rule index_lt_length)
  have wfc: "wf_chunk (chunks w ! k)" using wf kl by (rule wf_world_nth)
  let ?vi = "getVoxelIndex lx ly lz"
  have vi: "?vi < CHUNK_VOXELS"
    using local_offset_range[OF l] by (intro getVoxelIndex_lt) simp_all
  have lv: "?vi < length (chunk_value (chunks w ! k))"
    and lc: "?vi * 3 + 2 < length (chunk_color (chunks w ! k))"
    using wfc vi by (simp_all add: wf_chunk_def)
  have "getVoxel ?w' wx wy wz =
          (chunk_value (chunks ?w' ! k) ! ?vi, chunk_color (chunks ?w' ! k) ! (?vi * 3 + 0),
           chunk_color (chunks ?w' ! k) ! (?vi * 3 + 1), chunk_color (chunks ?w' ! k) ! (?vi * 3 + 2))"
    using c l k eff(2) by (simp add: getVoxel_def Let_def)
  also have "\<dots> = (d, r, g, b)"
    using lv lc by (simp add: eff(4,5))
  finally show ?thesis .
qed

text \<open>
  C4. After \<open>setVoxel\<close> at a coordinate whose owning chunk lies within the bounds,
  \<open>getVoxel\<close> at that coordinate returns exactly the density and colour that were written.
\<close>

theorem getVoxel_after_setVoxel:
  assumes "wf_world w"
    and "worldPositionToChunkCoordinates wx wy wz = (cx, cy, cz)"
    and "in_bounds (bounds w) cx cy cz"
  shows "getVoxel (setVoxel w wx wy wz d r g b) wx wy wz = (d, r, g, b)"
  using assms by (rule getVoxel_setVoxel_same)

theorem getVoxel_after_setVoxel_witness:
  "wf_world (initVoxels (- 1) 0 0 0 0 0)
   \<and> worldPositionToChunkCoordinates (- 3) 7 15 = (- 1, 0, 0)
   \<and> in_bounds (bounds (initVoxels (- 1) 0 0 0 0 0)) (- 1) 0 0
   \<and> getVoxel (setVoxel (initVoxels (- 1) 0 0 0 0 0) (- 3) 7 15 200 10 20 30) (- 3) 7 15
       = (200, 10, 20, 30)"
proof -
  have a: "worldPositionToChunkCoordinates (- 3) 7 15 = (- 1, 0, 0)"
    by (simp add: worldPositionToChunkCoordinates_def CHUNK_BITS_def)
  have b: "in_bounds (bounds (initVoxels (- 1) 0 0 0 0 0)) (- 1) 0 0"
    by (simp add: in_bounds_def bounds_initVoxels)
  from getVoxel_after_setVoxel[OF wf_initVoxels a b] a b wf_initVoxels
  show ?thesis by blast
qed

subsection \<open>The running density sum\<close>

lemma fold_add_upt:
  "fold (\<lambda>i s. s + f i) [0..<n] (a::int) = a + sum_list (map f [0..<n])"
  by (induction n arbitrary: a) simp_all

lemma recomputeChunkSum_densitySum:
  assumes "wf_chunk c"
  shows "snd (recomputeChunkSum c) = densitySum c"
proof -
  have len: "length (chunk_value c) = CHUNK_VOXELS" using assms by (simp add: wf_chunk_def)
  have "map (\<lambda>i. uint (chunk_value c ! i)) [0..<length (chunk_value c)] = map uint (chunk_value c)"
    by (rule nth_equalityI) simp_all
  then show ?thesis
    by (simp add: recomputeChunkSum_def Let_def fold_add_upt densitySum_def len[symmetric])
qed

lemma recomputeChunkSum_fields:
  "chunk_value (fst (recomputeChunkSum c)) = chunk_value c"
  "chunk_color (fst (recomputeChunkSum c)) = chunk_color c"
  "chunk_sum (fst (recomputeChunkSum c)) = snd (recomputeChunkSum c)"
  "dirtyMesh (fst (recomputeChunkSum c)) = dirtyMesh c"
  by (simp_all add: recomputeChunkSum_def Let_def)

lemma sum_list_uint_update:
  "vi < length xs \<Longrightarrow>
   sum_list (map uint (xs[vi := v])) = sum_list (map uint xs) + (uint v - uint (xs ! vi))"
proof (induction xs arbitrary: vi)
  case Nil
  then show ?case by simp
next
  case (Cons x xs)
  then show ?case by (cases vi) simp_all
qed

lemma sum_list_uint_bounds:
  fixes xs :: "byte list"
  shows "0 \<le> sum_list (map uint xs) \<and> sum_list (map uint xs) \<le> 255 * int (length xs)"
proof (induction xs)
  case Nil
  then show ?case by simp
next
  case (Cons x xs)
  have "uint x < 2 ^ 8" using uint_lt2p[of x] by simp
  moreover have "0 \<le> uint x" by simp
  ultimately show ?case using Cons by simp
qed

lemma densitySum_range:
  "wf_chunk c \<Longrightarrow> 0 \<le> densitySum c \<and> densitySum c \<le> 1044480"
  using sum_list_uint_bounds[of "chunk_value c"]
  by (simp add: densitySum_def wf_chunk_def CHUNK_VOXELS_def CHUNK_SIZE_def CHUNK_BITS_def)

subsection \<open>Chunk generation\<close>

lemma generateVoxel_frame:
  "length (chunk_value (generateVoxel cx cy cz seed lz ly lx c)) = length (chunk_value c)"
  "length (chunk_color (generateVoxel cx cy cz seed lz ly lx c)) = length (chunk_color c)"
  "dirtyMesh (generateVoxel cx cy cz seed lz ly lx c) = dirtyMesh c"
  by (simp_all add: generateVoxel_def Let_def split: prod.split)

lemma same_shape_fold:
  assumes "\<And>x c. same_shape c (f x c)"
  shows "same_shape c (fold f xs c)"
proof (induction xs arbitrary: c)
  case Nil
  then show ?case by (simp add: same_shape_def)
next
  case (Cons x xs)
  have "same_shape c (f x c)" by (rule assms)
  moreover have "same_shape (f x c) (fold f xs (f x c))" by (rule Cons.IH)
  ultimately show ?case by (simp add: same_shape_def)
qed

lemma generateChunk_shape: "same_shape c (generateChunk c cx cy cz seed)"
proof -
  have "same_shape c (fold (\<lambda>lz. fold (\<lambda>ly. fold (generateVoxel cx cy cz seed lz ly) [0..<n]) [0..<n]) [0..<n] c)"
    for n
    by (intro same_shape_fold) (simp add: same_shape_def generateVoxel_frame)
  then show ?thesis
    by (simp add: generateChunk_def Let_def same_shape_def recomputeChunkSum_fields)
qed

lemma wf_generateChunk: "wf_chunk c \<Longrightarrow> wf_chunk (generateChunk c cx cy cz seed)"
  using generateChunk_shape[of c cx cy cz seed] by (simp add: wf_chunk_def same_shape_def)

lemma generateChunk_sum:
  assumes "wf_chunk c"
  shows "chunk_sum (generateChunk c cx cy cz seed) = densitySum (generateChunk c cx cy cz seed)"
proof -
  let ?n = "nat CHUNK_SIZE"
  let ?filled = "fold (\<lambda>lz. fold (\<lambda>ly. fold (generateVoxel cx cy cz seed lz ly) [0..<?n]) [0..<?n]) [0..<?n] c"
  have "same_shape c ?filled"
    by (intro same_shape_fold) (simp add: same_shape_def generateVoxel_frame)
  then have wf: "wf_chunk ?filled" using assms by (simp add: wf_chunk_def same_shape_def)
  have g: "generateChunk c cx cy cz seed = fst (recomputeChunkSum ?filled)"
    by (simp add: generateChunk_def Let_def)
  show ?thesis
    unfolding g
    by (simp add: recomputeChunkSum_fields recomputeChunkSum_densitySum[OF wf] densitySum_def)
qed

lemma sums_ok_initVoxels: "sums_ok (initVoxels x0 x1 y0 y1 z0 z1)"
  by (simp add: sums_ok_def wf_initVoxels nth_initVoxels newChunk_fields densitySum_def
        sum_list_replicate)

lemma sums_ok_setVoxel:
  assumes "sums_ok w"
  shows "sums_ok (setVoxel w wx wy wz val r g b)"
proof -
  have wf: "wf_world w" using assms by (simp add: sums_ok_def)
  obtain cx cy cz where c: "worldPositionToChunkCoordinates wx wy wz = (cx, cy, cz)"
    by (cases "worldPositionToChunkCoordinates wx wy wz") auto
  obtain lx ly lz where l: "worldPositionToChunkPosition wx wy wz = (lx, ly, lz)"
    by (cases "worldPositionToChunkPosition wx wy wz") auto
  show ?thesis
  proof (cases "chunkCoordinateToIndex cx cy cz (bounds w)")
    case None
    then have "setVoxel w wx wy wz val r g b = w"
      using c by (simp add: setVoxel_def)
    then show ?thesis using assms by simp
  next
    case (Some k)
    let ?w' = "setVoxel w wx wy wz val r g b"
    let ?vi = "getVoxelIndex lx ly lz"
    note eff = setVoxel_effect[OF wf c l Some, where val = val and r = r and g = g and b = b]
    have kl: "k < length (chunks w)" using wf Some by (rule index_lt_length)
    have wfc: "wf_chunk (chunks w ! k)" using wf kl by (rule wf_world_nth)
    have vi: "?vi < length (chunk_value (chunks w ! k))"
      using getVoxelIndex_lt[of lx ly lz] local_offset_range[OF l] wfc by (simp add: wf_chunk_def)
    have "chunk_sum (chunks ?w' ! i) = densitySum (chunks ?w' ! i)" if i: "i < length (chunks w)" for i
    proof (cases "i = k")
      case True
      have "densitySum (chunks ?w' ! k) = densitySum (chunks w ! k) + (uint val - uint (chunk_value (chunks w ! k) ! ?vi))"
        unfolding densitySum_def eff(4) using vi by (rule sum_list_uint_update)
      moreover have "chunk_sum (chunks w ! k) = densitySum (chunks w ! k)"
        using assms kl by (simp add: sums_ok_def)
      ultimately show ?thesis unfolding True using eff(6) by simp
    next
      case False
      have "chunk_sum (chunks w ! i) = densitySum (chunks w ! i)"
        using assms i by (simp add: sums_ok_def)
      then show ?thesis using eff(7)[OF i False] by (simp add: densitySum_def)
    qed
    then show ?thesis
      using wf_setVoxel[OF wf] eff(3) by (simp add: sums_ok_def)
  qed
qed

lemma sums_ok_generateChunkAt:
  assumes "sums_ok w"
  shows "sums_ok (generateChunkAt w px py pz cx cy cz seed)"
proof (cases "chunkCoordinateToIndex px py pz (bounds w)")
  case None
  then show ?thesis using assms by (simp add: generateChunkAt_def)
next
  case (Some k)
  have wf: "wf_world w" using assms by (simp add: sums_ok_def)
  have kl: "k < length (chunks w)" using wf Some by (rule index_lt_length)
  let ?g = "generateChunk (chunks w ! k) cx cy cz seed"
  have w': "generateChunkAt w px py pz cx cy cz seed = w\<lparr>chunks := (chunks w)[k := ?g]\<rparr>"
    using Some by (simp add: generateChunkAt_def)
  have wfc: "wf_chunk (chunks w ! k)" using wf kl by (rule wf_world_nth)
  have wfg: "wf_chunk ?g" using wfc by (rule wf_generateChunk)
  have sg: "chunk_sum ?g = densitySum ?g" using wfc by (rule generateChunk_sum)
  have a: "wf_chunk ((chunks w)[k := ?g] ! i) \<and>
           chunk_sum ((chunks w)[k := ?g] ! i) = densitySum ((chunks w)[k := ?g] ! i)"
    if i: "i < length (chunks w)" for i
  proof (cases "i = k")
    case True
    then show ?thesis using kl wfg sg by simp
  next
    case False
    then show ?thesis using assms i wf_world_nth[OF wf i] by (simp add: sums_ok_def)
  qed
  have len: "length (chunks w) = totalChunks (bounds w)" using wf by (simp add: wf_world_def)
  show ?thesis
    unfolding w' sums_ok_def wf_world_def list_all_length
    using a len by simp
qed

lemma sums_ok_applyEdits: "sums_ok w \<Longrightarrow> sums_ok (applyEdits w es)"
  unfolding applyEdits_def
proof (induction es arbitrary: w)
  case Nil
  then show ?case by simp
next
  case (Cons e es)
  have "sums_ok (applyEdit w e)"
    using Cons.prems by (cases e) (simp_all add: sums_ok_setVoxel sums_ok_generateChunkAt)
  then show ?case using Cons.IH by simp
qed

lemma bounds_applyEdits: "sums_ok w \<Longrightarrow> bounds (applyEdits w es) = bounds w"
  unfolding applyEdits_def
proof (induction es arbitrary: w)
  case Nil
  then show ?case by simp
next
  case (Cons e es)
  have ok: "sums_ok (applyEdit w e)"
    using Cons.prems by (cases e) (simp_all add: sums_ok_setVoxel sums_ok_generateChunkAt)
  have wf: "wf_world w" using Cons.prems by (simp add: sums_ok_def)
  have "bounds (applyEdit w e) = bounds w"
  proof (cases e)
    case (SetVoxel wx wy wz val r g b)
    obtain cx cy cz where c: "worldPositionToChunkCoordinates wx wy wz = (cx, cy, cz)"
      by (cases "worldPositionToChunkCoordinates wx wy wz") auto
    obtain lx ly lz where l: "worldPositionToChunkPosition wx wy wz = (lx, ly, lz)"
      by (cases "worldPositionToChunkPosition wx wy wz") auto
    show ?thesis
    proof (cases "chunkCoordinateToIndex cx cy cz (bounds w)")
      case None
      then show ?thesis using c SetVoxel by (simp add: setVoxel_def)
    next
      case (Some k)
      show ?thesis using setVoxel_effect(2)[OF wf c l Some] SetVoxel by simp
    qed
  next
    case (GenerateChunk px py pz cx cy cz seed)
    then show ?thesis by (simp add: generateChunkAt_def split: option.split)
  qed
  then show ?case using Cons.IH[OF ok] by simp
qed

lemma length_applyEdits:
  "length (chunks (applyEdits (initVoxels x0 x1 y0 y1 z0 z1) es)) = length (chunks (initVoxels x0 x1 y0 y1 z0 z1))"
proof -
  let ?w = "initVoxels x0 x1 y0 y1 z0 z1"
  have "wf_world (applyEdits ?w es)"
    using sums_ok_applyEdits[OF sums_ok_initVoxels] by (simp add: sums_ok_def)
  then have "length (chunks (applyEdits ?w es)) = totalChunks (bounds (applyEdits ?w es))"
    by (simp add: wf_world_def)
  also have "\<dots> = totalChunks (bounds ?w)"
    by (simp add: bounds_applyEdits[OF sums_ok_initVoxels])
  finally show ?thesis by (simp add: length_initVoxels)
qed

text \<open>
  C3. After any finite sequence of \<open>setVoxel\<close> and \<open>generateChunk\<close> calls on a world made by
  \<open>initVoxels\<close>, every chunk holds 4096 densities and its \<open>sum\<close> field is their sum, which
  is the value \<open>recomputeChunkSum\<close> returns; the sum stays within \<open>0 .. 4096 * 255\<close>, so the
  C \<open>int\<close> never overflows.
\<close>

theorem chunk_sum_invariant:
  assumes "w = applyEdits (initVoxels x0 x1 y0 y1 z0 z1) es"
    and "i < length (chunks w)"
  shows "length (chunk_value (chunks w ! i)) = 4096
       \<and> chunk_sum (chunks w ! i) = sum_list (map uint (chunk_value (chunks w ! i)))
       \<and> snd (recomputeChunkSum (chunks w ! i)) = chunk_sum (chunks w ! i)
       \<and> 0 \<le> chunk_sum (chunks w ! i) \<and> chunk_sum (chunks w ! i) \<le> 4096 * 255"
proof -
  have ok: "sums_ok w"
    unfolding assms(1) by (intro sums_ok_applyEdits sums_ok_initVoxels)
  then have wfc: "wf_chunk (chunks w ! i)"
    using assms(2) by (simp add: sums_ok_def wf_world_nth)
  have s: "chunk_sum (chunks w ! i) = densitySum (chunks w ! i)"
    using ok assms(2) by (simp add: sums_ok_def)
  have len: "length (chunk_value (chunks w ! i)) = 4096"
    using wfc by (simp add: wf_chunk_def CHUNK_VOXELS_def CHUNK_SIZE_def CHUNK_BITS_def)
  have r: "snd (recomputeChunkSum (chunks w ! i)) = chunk_sum (chunks w ! i)"
    using recomputeChunkSum_densitySum[OF wfc] s by simp
  have rng: "0 \<le> chunk_sum (chunks w ! i) \<and> chunk_sum (chunks w ! i) \<le> 4096 * 255"
    using densitySum_range[OF wfc] s by simp
  have d: "chunk_sum (chunks w ! i) = sum_list (map uint (chunk_value (chunks w ! i)))"
    using s by (simp only: densitySum_def)
  show ?thesis
    using len d r rng by blast
qed


theorem chunk_sum_invariant_witness:
  "0 < length (chunks (applyEdits (initVoxels 0 0 0 0 0 0)
                         [SetVoxel 1 2 3 200 9 8 7, GenerateChunk 0 0 0 5 0 0 7]))
   \<and> chunk_sum (chunks (applyEdits (initVoxels 0 0 0 0 0 0)
                         [SetVoxel 1 2 3 200 9 8 7, GenerateChunk 0 0 0 5 0 0 7]) ! 0)
       = sum_list (map uint (chunk_value (chunks (applyEdits (initVoxels 0 0 0 0 0 0)
                         [SetVoxel 1 2 3 200 9 8 7, GenerateChunk 0 0 0 5 0 0 7]) ! 0)))"
proof -
  let ?w = "applyEdits (initVoxels 0 0 0 0 0 0) [SetVoxel 1 2 3 200 9 8 7, GenerateChunk 0 0 0 5 0 0 7]"
  have len: "0 < length (chunks ?w)"
    by (simp add: length_applyEdits length_initVoxels totalChunks_def bounds_initVoxels)
  from chunk_sum_invariant[OF refl len] len show ?thesis by blast
qed

subsection \<open>Dirty propagation of setVoxel\<close>

lemma index_inj:
  assumes "chunkCoordinateToIndex x y z b = Some i"
    and "chunkCoordinateToIndex x' y' z' b = Some i"
  shows "(x', y', z') = (x, y, z)"
proof -
  have "in_bounds b x y z" "in_bounds b x' y' z'"
    using assms index_Some_iff by blast+
  then have "chunkIndexToCoordinate i b = (x, y, z)" "chunkIndexToCoordinate i b = (x', y', z')"
    using assms coordinate_of_index by blast+
  then show ?thesis by simp
qed

lemma setVoxel_dirty:
  fixes val r g b :: byte
  assumes wf: "wf_world w"
    and c: "worldPositionToChunkCoordinates wx wy wz = (cx, cy, cz)"
    and l: "worldPositionToChunkPosition wx wy wz = (lx, ly, lz)"
    and ib: "in_bounds (bounds w) cx cy cz"
  shows "chunkDirtyAt (setVoxel w wx wy wz val r g b) x y z =
           map_option (\<lambda>d. d \<or> (x, y, z) = (cx, cy, cz) \<or> (x, y, z) \<in> markedNeighbours cx cy cz lx ly lz)
             (chunkDirtyAt w x y z)"
proof -
  let ?w' = "setVoxel w wx wy wz val r g b"
  let ?S = "markedNeighbours cx cy cz lx ly lz"
  obtain k where k: "chunkCoordinateToIndex cx cy cz (bounds w) = Some k"
    using ib index_Some_iff by blast
  define w0 where "w0 = w\<lparr>chunks := (chunks w)[k := writeVoxel (chunks w ! k) (getVoxelIndex lx ly lz) val r g b]\<rparr>"
  have eq: "?w' = markNeighbours w0 cx cy cz lx ly lz"
    unfolding w0_def using c l k by (rule setVoxel_in_bounds)
  have m: "marks w0 ?S ?w'"
    unfolding eq markedNeighbours_def by (rule marks_markNeighbours)
  have b0: "bounds w0 = bounds w" and len0: "length (chunks w0) = length (chunks w)"
    by (simp_all add: w0_def)
  have b': "bounds ?w' = bounds w" using m b0 by (simp add: marks_def)
  show ?thesis
  proof (cases "chunkCoordinateToIndex x y z (bounds w)")
    case None
    then show ?thesis by (simp add: chunkDirtyAt_def getChunkAt_def b')
  next
    case (Some i)
    have il: "i < length (chunks w)" using wf Some by (rule index_lt_length)
    have kl: "k < length (chunks w)" using wf k by (rule index_lt_length)
    have d0: "dirtyMesh (chunks w0 ! i) = (dirtyMesh (chunks w ! i) \<or> i = k)"
      using il kl by (cases "i = k") (simp_all add: w0_def writeVoxel_fields)
    have ik: "(i = k) = ((x, y, z) = (cx, cy, cz))"
    proof
      assume "i = k"
      then have "chunkCoordinateToIndex cx cy cz (bounds w) = Some i" using k by simp
      with Some have "(cx, cy, cz) = (x, y, z)" by (rule index_inj)
      then show "(x, y, z) = (cx, cy, cz)" by simp
    next
      assume "(x, y, z) = (cx, cy, cz)"
      then show "i = k" using Some k by simp
    qed
    have ex: "(\<exists>p \<in> ?S. case p of (x', y', z') \<Rightarrow> chunkCoordinateToIndex x' y' z' (bounds w0) = Some i)
              = ((x, y, z) \<in> ?S)"
    proof
      assume "\<exists>p \<in> ?S. case p of (x', y', z') \<Rightarrow> chunkCoordinateToIndex x' y' z' (bounds w0) = Some i"
      then obtain x' y' z' where p: "(x', y', z') \<in> ?S"
          and "chunkCoordinateToIndex x' y' z' (bounds w0) = Some i"
        by blast
      then have "chunkCoordinateToIndex x' y' z' (bounds w) = Some i" by (simp add: b0)
      with Some have "(x', y', z') = (x, y, z)" by (rule index_inj)
      with p show "(x, y, z) \<in> ?S" by simp
    next
      assume "(x, y, z) \<in> ?S"
      moreover have "chunkCoordinateToIndex x y z (bounds w0) = Some i" using Some by (simp add: b0)
      ultimately show "\<exists>p \<in> ?S. case p of (x', y', z') \<Rightarrow> chunkCoordinateToIndex x' y' z' (bounds w0) = Some i"
        by blast
    qed
    have "dirtyMesh (chunks ?w' ! i) =
            (dirtyMesh (chunks w0 ! i) \<or>
             (\<exists>p \<in> ?S. case p of (x', y', z') \<Rightarrow> chunkCoordinateToIndex x' y' z' (bounds w0) = Some i))"
      using m il len0 by (simp add: marks_def)
    then have "dirtyMesh (chunks ?w' ! i) =
            (dirtyMesh (chunks w ! i) \<or> (x, y, z) = (cx, cy, cz) \<or> (x, y, z) \<in> ?S)"
      unfolding ex d0 ik by blast
    then show ?thesis
      using Some by (simp add: chunkDirtyAt_def getChunkAt_def b' isChunkDirty_def)
  qed
qed

lemma diagonal_corner:
  "{(x, y, z). (True, x, y, z) \<in> set (diagonalTests cx cy cz 0 0 0)} =
     {(cx - 1, cy - 1, cz), (cx - 1, cy, cz - 1), (cx, cy - 1, cz - 1), (cx - 1, cy - 1, cz - 1)}"
proof -
  have mem: "((True, x, y, z) \<in> set (diagonalTests cx cy cz 0 0 0)) =
          ((x, y, z) \<in> {(cx - 1, cy - 1, cz), (cx - 1, cy, cz - 1), (cx, cy - 1, cz - 1),
                        (cx - 1, cy - 1, cz - 1)})" for x y z
    by (simp add: diagonalTests_def CHUNK_SIZE_def CHUNK_BITS_def Let_def)
  show ?thesis unfolding mem by blast
qed

lemma markedNeighbours_corner:
  "markedNeighbours cx cy cz 0 0 0 =
     {(cx - 1, cy, cz), (cx, cy - 1, cz), (cx, cy, cz - 1),
      (cx - 1, cy - 1, cz), (cx - 1, cy, cz - 1), (cx, cy - 1, cz - 1),
      (cx - 1, cy - 1, cz - 1)}"
  unfolding markedNeighbours_def diagonal_corner by auto

lemma diagonal_none:
  assumes "(\<not> onBoundary lx \<and> \<not> onBoundary ly) \<or> (\<not> onBoundary lx \<and> \<not> onBoundary lz)
           \<or> (\<not> onBoundary ly \<and> \<not> onBoundary lz)"
  shows "{(x, y, z). (True, x, y, z) \<in> set (diagonalTests cx cy cz lx ly lz)} = {}"
  using assms
proof (elim disjE conjE)
  assume "\<not> onBoundary lx" "\<not> onBoundary ly"
  then have "lx \<noteq> 0" "lx \<noteq> 15" "ly \<noteq> 0" "ly \<noteq> 15"
    by (simp_all add: onBoundary_def CHUNK_SIZE_def CHUNK_BITS_def)
  then show ?thesis
    by (simp add: diagonalTests_def CHUNK_SIZE_def CHUNK_BITS_def Let_def)
next
  assume "\<not> onBoundary lx" "\<not> onBoundary lz"
  then have "lx \<noteq> 0" "lx \<noteq> 15" "lz \<noteq> 0" "lz \<noteq> 15"
    by (simp_all add: onBoundary_def CHUNK_SIZE_def CHUNK_BITS_def)
  then show ?thesis
    by (simp add: diagonalTests_def CHUNK_SIZE_def CHUNK_BITS_def Let_def)
next
  assume "\<not> onBoundary ly" "\<not> onBoundary lz"
  then have "ly \<noteq> 0" "ly \<noteq> 15" "lz \<noteq> 0" "lz \<noteq> 15"
    by (simp_all add: onBoundary_def CHUNK_SIZE_def CHUNK_BITS_def)
  then show ?thesis
    by (simp add: diagonalTests_def CHUNK_SIZE_def CHUNK_BITS_def Let_def)
qed

lemma face_set:
  "(if l = 0 then {lo} else if l = CHUNK_SIZE - 1 then {hi} else {}) =
     (if onBoundary l then {if faceStep l = - 1 then lo else hi} else {})"
  by (simp add: onBoundary_def faceStep_def CHUNK_SIZE_def CHUNK_BITS_def)

lemma markedNeighbours_face:
  assumes "pureFace lx ly lz"
  shows "markedNeighbours cx cy cz lx ly lz = {(cx + faceStep lx, cy + faceStep ly, cz + faceStep lz)}"
proof -
  have none: "{(x, y, z). (True, x, y, z) \<in> set (diagonalTests cx cy cz lx ly lz)} = {}"
    using assms by (intro diagonal_none) (auto simp: pureFace_def)
  have fs: "\<not> onBoundary l \<Longrightarrow> faceStep l = 0"
    "onBoundary l \<Longrightarrow> faceStep l = - 1 \<or> faceStep l = 1" for l
    by (auto simp: onBoundary_def faceStep_def)
  from assms consider
      (X) "onBoundary lx" "\<not> onBoundary ly" "\<not> onBoundary lz"
    | (Y) "\<not> onBoundary lx" "onBoundary ly" "\<not> onBoundary lz"
    | (Z) "\<not> onBoundary lx" "\<not> onBoundary ly" "onBoundary lz"
    by (auto simp: pureFace_def)
  then show ?thesis
  proof cases
    case X
    have "markedNeighbours cx cy cz lx ly lz =
            {if faceStep lx = - 1 then (cx - 1, cy, cz) else (cx + 1, cy, cz)}"
      unfolding markedNeighbours_def none face_set using X by simp
    then show ?thesis
      using fs(2)[OF X(1)] fs(1)[OF X(2)] fs(1)[OF X(3)] by auto
  next
    case Y
    have "markedNeighbours cx cy cz lx ly lz =
            {if faceStep ly = - 1 then (cx, cy - 1, cz) else (cx, cy + 1, cz)}"
      unfolding markedNeighbours_def none face_set using Y by simp
    then show ?thesis
      using fs(2)[OF Y(2)] fs(1)[OF Y(1)] fs(1)[OF Y(3)] by auto
  next
    case Z
    have "markedNeighbours cx cy cz lx ly lz =
            {if faceStep lz = - 1 then (cx, cy, cz - 1) else (cx, cy, cz + 1)}"
      unfolding markedNeighbours_def none face_set using Z by simp
    then show ?thesis
      using fs(2)[OF Z(3)] fs(1)[OF Z(1)] fs(1)[OF Z(2)] by auto
  qed
qed


lemma chunkDirtyAt_initVoxels:
  assumes "in_bounds (bounds (initVoxels x0 x1 y0 y1 z0 z1)) x y z"
  shows "chunkDirtyAt (initVoxels x0 x1 y0 y1 z0 z1) x y z = Some False"
proof -
  let ?w = "initVoxels x0 x1 y0 y1 z0 z1"
  obtain i where i: "chunkCoordinateToIndex x y z (bounds ?w) = Some i"
    using assms index_Some_iff by blast
  then have "i < length (chunks ?w)"
    using wf_initVoxels by (rule index_lt_length[rotated])
  then have "dirtyMesh (chunks ?w ! i) = False"
    by (simp add: nth_initVoxels newChunk_fields)
  then show ?thesis
    using i by (simp add: chunkDirtyAt_def getChunkAt_def isChunkDirty_def)
qed

text \<open>
  C2. For an edit whose owning chunk \<open>C = (cx, cy, cz)\<close> is within the bounds: the dirty
  flag of a present chunk after \<open>setVoxel\<close> is its flag before, or true if the chunk is
  one of the marked ones; absent chunks stay absent. At local offset \<open>(0, 0, 0)\<close> the
  marked chunks are \<open>C\<close>, its three face neighbours, three edge neighbours and the corner
  neighbour on the low side; at an offset on exactly one boundary plane they are \<open>C\<close> and
  the face neighbour across that plane.
\<close>

theorem setVoxel_dirty_propagation:
  fixes val r g b :: byte
  assumes wf: "wf_world w"
    and c: "worldPositionToChunkCoordinates wx wy wz = (cx, cy, cz)"
    and l: "worldPositionToChunkPosition wx wy wz = (lx, ly, lz)"
    and ib: "in_bounds (bounds w) cx cy cz"
  shows "(lx = 0 \<and> ly = 0 \<and> lz = 0 \<longrightarrow>
           (\<forall>x y z. chunkDirtyAt (setVoxel w wx wy wz val r g b) x y z =
              map_option
                (\<lambda>d. d \<or> (x, y, z) \<in>
                   {(cx, cy, cz),
                    (cx - 1, cy, cz), (cx, cy - 1, cz), (cx, cy, cz - 1),
                    (cx - 1, cy - 1, cz), (cx - 1, cy, cz - 1), (cx, cy - 1, cz - 1),
                    (cx - 1, cy - 1, cz - 1)})
                (chunkDirtyAt w x y z)))
       \<and> (pureFace lx ly lz \<longrightarrow>
           (\<forall>x y z. chunkDirtyAt (setVoxel w wx wy wz val r g b) x y z =
              map_option
                (\<lambda>d. d \<or> (x, y, z) \<in>
                   {(cx, cy, cz), (cx + faceStep lx, cy + faceStep ly, cz + faceStep lz)})
                (chunkDirtyAt w x y z)))"
proof (intro conjI impI allI)
  fix x y z
  assume "lx = 0 \<and> ly = 0 \<and> lz = 0"
  then have l0: "worldPositionToChunkPosition wx wy wz = (0, 0, 0)" using l by simp
  show "chunkDirtyAt (setVoxel w wx wy wz val r g b) x y z =
          map_option
            (\<lambda>d. d \<or> (x, y, z) \<in>
               {(cx, cy, cz),
                (cx - 1, cy, cz), (cx, cy - 1, cz), (cx, cy, cz - 1),
                (cx - 1, cy - 1, cz), (cx - 1, cy, cz - 1), (cx, cy - 1, cz - 1),
                (cx - 1, cy - 1, cz - 1)})
            (chunkDirtyAt w x y z)"
    unfolding setVoxel_dirty[OF wf c l0 ib] markedNeighbours_corner by simp
next
  fix x y z
  assume "pureFace lx ly lz"
  then have m: "markedNeighbours cx cy cz lx ly lz = {(cx + faceStep lx, cy + faceStep ly, cz + faceStep lz)}"
    by (rule markedNeighbours_face)
  show "chunkDirtyAt (setVoxel w wx wy wz val r g b) x y z =
          map_option
            (\<lambda>d. d \<or> (x, y, z) \<in>
               {(cx, cy, cz), (cx + faceStep lx, cy + faceStep ly, cz + faceStep lz)})
            (chunkDirtyAt w x y z)"
    unfolding setVoxel_dirty[OF wf c l ib] m by simp
qed

theorem setVoxel_dirty_propagation_witness:
  "wf_world (initVoxels (- 1) 0 (- 1) 0 (- 1) 0)
   \<and> worldPositionToChunkCoordinates 0 0 0 = (0, 0, 0)
   \<and> worldPositionToChunkPosition 0 0 0 = (0, 0, 0)
   \<and> worldPositionToChunkCoordinates 0 5 5 = (0, 0, 0)
   \<and> worldPositionToChunkPosition 0 5 5 = (0, 5, 5)
   \<and> in_bounds (bounds (initVoxels (- 1) 0 (- 1) 0 (- 1) 0)) 0 0 0
   \<and> pureFace 0 5 5
   \<and> chunkDirtyAt (setVoxel (initVoxels (- 1) 0 (- 1) 0 (- 1) 0) 0 0 0 200 1 2 3) (- 1) (- 1) (- 1)
       = Some True
   \<and> chunkDirtyAt (setVoxel (initVoxels (- 1) 0 (- 1) 0 (- 1) 0) 0 5 5 200 1 2 3) (- 1) 0 0
       = Some True
   \<and> chunkDirtyAt (setVoxel (initVoxels (- 1) 0 (- 1) 0 (- 1) 0) 0 5 5 200 1 2 3) 0 (- 1) 0
       = Some False"
proof -
  let ?w = "initVoxels (- 1) 0 (- 1) 0 (- 1) 0"
  have c0: "worldPositionToChunkCoordinates 0 0 0 = (0, 0, 0)"
    and c5: "worldPositionToChunkCoordinates 0 5 5 = (0, 0, 0)"
    by (simp_all add: worldPositionToChunkCoordinates_def CHUNK_BITS_def)
  have l0: "worldPositionToChunkPosition 0 0 0 = (0, 0, 0)"
    and l5: "worldPositionToChunkPosition 0 5 5 = (0, 5, 5)"
    by (simp_all add: worldPositionToChunkPosition_def CHUNK_MASK_def CHUNK_SIZE_def CHUNK_BITS_def)
  have ib: "in_bounds (bounds ?w) 0 0 0"
    by (simp add: in_bounds_def bounds_initVoxels)
  have pf: "pureFace 0 5 5"
    by (simp add: pureFace_def onBoundary_def CHUNK_SIZE_def CHUNK_BITS_def)
  have fs: "faceStep 0 = - 1" "faceStep 5 = 0"
    by (simp_all add: faceStep_def CHUNK_SIZE_def CHUNK_BITS_def)
  have d: "chunkDirtyAt ?w (- 1) (- 1) (- 1) = Some False" "chunkDirtyAt ?w (- 1) 0 0 = Some False"
    "chunkDirtyAt ?w 0 (- 1) 0 = Some False"
    by (rule chunkDirtyAt_initVoxels, simp add: in_bounds_def bounds_initVoxels)+
  have a: "chunkDirtyAt (setVoxel ?w 0 0 0 200 1 2 3) (- 1) (- 1) (- 1) = Some True"
    using setVoxel_dirty_propagation[OF wf_initVoxels c0 l0 ib, of 200 1 2 3] d(1) by simp
  have b: "chunkDirtyAt (setVoxel ?w 0 5 5 200 1 2 3) (- 1) 0 0 = Some True"
    using setVoxel_dirty_propagation[OF wf_initVoxels c5 l5 ib, of 200 1 2 3] pf d(2) fs by simp
  have e: "chunkDirtyAt (setVoxel ?w 0 5 5 200 1 2 3) 0 (- 1) 0 = Some False"
    using setVoxel_dirty_propagation[OF wf_initVoxels c5 l5 ib, of 200 1 2 3] pf d(3) fs by simp
  show ?thesis
    using wf_initVoxels c0 l0 c5 l5 ib pf a b e by blast
qed

subsection \<open>Edge interpolation\<close>

lemma interpolateStep_total:
  "\<exists>step. interpolateStep a b = Some step \<and> 0 \<le> step \<and> step \<le> 1"
proof (cases "s_value b = s_value a")
  case True
  then have "interpolateStep a b = Some (1/2)" by (simp add: interpolateStep_def)
  moreover have "(0::real) \<le> 1/2" "(1/2::real) \<le> 1" by simp_all
  ultimately show ?thesis by blast
next
  case False
  define na nb where "na = unat (s_value a)" and "nb = unat (s_value b)"
  have "nb \<noteq> na" using False unfolding na_def nb_def by (simp add: word_unat_eq_iff)
  then have nz: "real nb - real na \<noteq> 0" by simp
  have "\<exists>step. (case fdiv (of_int ISOLEVEL - real na) (real nb - real na) of
                    None \<Rightarrow> None
                  | Some q \<Rightarrow> let q = (if q < 0 then 0 else q); q = (if q > 1 then 1 else q) in Some q)
               = Some step \<and> 0 \<le> step \<and> step \<le> 1"
    using nz by (simp add: fdiv_def Let_def)
  then show ?thesis
    using False unfolding interpolateStep_def na_def nb_def by simp
qed

lemma interpolateStep_crossing:
  assumes "(uint (s_value a) < ISOLEVEL \<and> ISOLEVEL \<le> uint (s_value b)) \<or>
           (uint (s_value b) < ISOLEVEL \<and> ISOLEVEL \<le> uint (s_value a))"
  shows "interpolateStep a b =
           Some ((of_int ISOLEVEL - real (unat (s_value a))) /
                 (real (unat (s_value b)) - real (unat (s_value a))))"
proof -
  define na nb where "na = unat (s_value a)" and "nb = unat (s_value b)"
  have ua: "uint (s_value a) = int na" and ub: "uint (s_value b) = int nb"
    by (simp_all add: na_def nb_def)
  from assms consider (up) "na < 128" "128 \<le> nb" | (down) "nb < 128" "128 \<le> na"
    unfolding ISOLEVEL_def ua ub by auto
  then have "(case fdiv (of_int ISOLEVEL - real na) (real nb - real na) of
                    None \<Rightarrow> None
                  | Some q \<Rightarrow> let q = (if q < 0 then 0 else q); q = (if q > 1 then 1 else q) in Some q)
               = Some ((of_int ISOLEVEL - real na) / (real nb - real na))"
  proof cases
    case up
    have d: "0 < real nb - real na" using up by simp
    have q0: "0 \<le> (128 - real na) / (real nb - real na)" using up d by simp
    have q1: "(128 - real na) / (real nb - real na) \<le> 1" using up d by (simp add: divide_le_eq)
    show ?thesis
      using d q0 q1 by (simp add: fdiv_def Let_def ISOLEVEL_def)
  next
    case down
    have d: "real nb - real na < 0" using down by simp
    have q0: "0 \<le> (128 - real na) / (real nb - real na)"
      using down d by (simp add: zero_le_divide_iff)
    have q1: "(128 - real na) / (real nb - real na) \<le> 1" using down d by (simp add: divide_le_eq)
    show ?thesis
      using d q0 q1 by (simp add: fdiv_def Let_def ISOLEVEL_def)
  qed
  moreover have "s_value b \<noteq> s_value a" using assms by (auto simp: ISOLEVEL_def)
  ultimately show ?thesis
    unfolding interpolateStep_def na_def nb_def by simp
qed

text \<open>
  C6. \<open>interpolate\<close> always returns a point (no division by zero, hence no infinity or
  NaN): \<open>a + step * (b - a)\<close> on the segment between the two corner positions, with
  \<open>0 \<le> step \<le> 1\<close>. Equal densities give \<open>step = 1/2\<close>; densities on opposite sides of
  \<open>ISOLEVEL\<close> give the unclamped crossing \<open>(ISOLEVEL - a) / (b - a)\<close>.
\<close>

theorem interpolate_on_segment:
  "\<exists>step p. interpolateStep a b = Some step \<and> interpolate a b = Some p
     \<and> 0 \<le> step \<and> step \<le> 1
     \<and> (case (s_position a, s_position b) of
          ((ax, ay, az), (bx, by, bz)) \<Rightarrow>
            e_position p = (ax + step * (bx - ax), ay + step * (by - ay), az + step * (bz - az)))
     \<and> (s_value b = s_value a \<longrightarrow> step = 1/2)
     \<and> ((uint (s_value a) < ISOLEVEL \<and> ISOLEVEL \<le> uint (s_value b)) \<or>
         (uint (s_value b) < ISOLEVEL \<and> ISOLEVEL \<le> uint (s_value a)) \<longrightarrow>
          step = (of_int ISOLEVEL - real (unat (s_value a))) /
                 (real (unat (s_value b)) - real (unat (s_value a))))"
proof -
  obtain step where s: "interpolateStep a b = Some step" "0 \<le> step" "step \<le> 1"
    using interpolateStep_total by blast
  obtain ax ay az bx "by" bz where pa: "s_position a = (ax, ay, az)" and pb: "s_position b = (bx, by, bz)"
    by (cases "s_position a"; cases "s_position b") auto
  obtain p where p: "interpolate a b = Some p"
      and pos: "e_position p = (ax + step * (bx - ax), ay + step * (by - ay), az + step * (bz - az))"
    using s(1) by (simp add: interpolate_def pa pb Let_def)
  have eq: "s_value b = s_value a \<longrightarrow> step = 1/2"
    using s(1) by (auto simp: interpolateStep_def)
  have cr: "(uint (s_value a) < ISOLEVEL \<and> ISOLEVEL \<le> uint (s_value b)) \<or>
         (uint (s_value b) < ISOLEVEL \<and> ISOLEVEL \<le> uint (s_value a)) \<longrightarrow>
          step = (of_int ISOLEVEL - real (unat (s_value a))) /
                 (real (unat (s_value b)) - real (unat (s_value a)))"
    using s(1) interpolateStep_crossing[of a b] by auto
  show ?thesis
    using s p pos eq cr by (simp add: pa pb)
qed


theorem interpolate_on_segment_witness:
  "uint (100 :: byte) < ISOLEVEL \<and> ISOLEVEL \<le> uint (200 :: byte)
   \<and> interpolateStep \<lparr> s_position = (3, 4, 5), s_value = 100, s_r = 10, s_g = 20, s_b = 30 \<rparr>
                       \<lparr> s_position = (3, 5, 5), s_value = 200, s_r = 40, s_g = 50, s_b = 60 \<rparr>
       = Some (7/25)
   \<and> (\<exists>p. interpolate \<lparr> s_position = (3, 4, 5), s_value = 100, s_r = 10, s_g = 20, s_b = 30 \<rparr>
                        \<lparr> s_position = (3, 5, 5), s_value = 200, s_r = 40, s_g = 50, s_b = 60 \<rparr>
              = Some p \<and> e_position p = (3, 107/25, 5))"
proof -
  let ?a = "\<lparr> s_position = (3, 4, 5), s_value = 100 :: byte, s_r = 10, s_g = 20, s_b = 30 \<rparr>"
  let ?b = "\<lparr> s_position = (3, 5, 5), s_value = 200 :: byte, s_r = 40, s_g = 50, s_b = 60 \<rparr>"
  have sides: "uint (100 :: byte) < ISOLEVEL \<and> ISOLEVEL \<le> uint (200 :: byte)"
    by (simp add: ISOLEVEL_def)
  from interpolate_on_segment[of ?a ?b] obtain step p where
    s: "interpolateStep ?a ?b = Some step" and p: "interpolate ?a ?b = Some p"
    and pos: "e_position p = (3 + step * (3 - 3), 4 + step * (5 - 4), 5 + step * (5 - 5))"
    and cr: "(uint (100 :: byte) < ISOLEVEL \<and> ISOLEVEL \<le> uint (200 :: byte)) \<or>
             (uint (200 :: byte) < ISOLEVEL \<and> ISOLEVEL \<le> uint (100 :: byte)) \<longrightarrow>
             step = (of_int ISOLEVEL - real (unat (100 :: byte))) /
                    (real (unat (200 :: byte)) - real (unat (100 :: byte)))"
    by auto
  from cr sides have "step = 7/25" by (simp add: ISOLEVEL_def)
  with s p pos sides show ?thesis by simp
qed

subsection \<open>Worlds with a single edited voxel\<close>

lemma base16_inj:
  fixes a b c a' b' c' :: nat
  assumes "a < 16" "c < 16" "a' < 16" "c' < 16"
    and "a + c * 16 + b * 256 = a' + c' * 16 + b' * 256"
  shows "a = a' \<and> b = b' \<and> c = c'"
proof -
  have dec: "(x + y * 16 + z * 256) mod 16 = x \<and> (x + y * 16 + z * 256) div 16 mod 16 = y
      \<and> (x + y * 16 + z * 256) div 16 div 16 = z" if "x < 16" "y < 16" for x y z :: nat
  proof -
    define n where "n = y + 16 * z"
    have e: "x + y * 16 + z * 256 = x + 16 * n" by (simp add: n_def)
    have "(x + 16 * n) mod 16 = x" "(x + 16 * n) div 16 = n" using that(1) by simp_all
    moreover have "n mod 16 = y" "n div 16 = z" using that(2) by (simp_all add: n_def)
    ultimately show ?thesis unfolding e by simp
  qed
  have "a = (a + c * 16 + b * 256) mod 16" "c = (a + c * 16 + b * 256) div 16 mod 16"
    "b = (a + c * 16 + b * 256) div 16 div 16"
    using dec[OF assms(1,2), of b] by simp_all
  moreover have "a' = (a' + c' * 16 + b' * 256) mod 16" "c' = (a' + c' * 16 + b' * 256) div 16 mod 16"
    "b' = (a' + c' * 16 + b' * 256) div 16 div 16"
    using dec[OF assms(3,4), of b'] by simp_all
  ultimately show ?thesis using assms(5) by metis
qed

lemma getVoxelIndex_inj:
  assumes "0 \<le> lx" "lx < 16" "0 \<le> ly" "ly < 16" "0 \<le> lz" "lz < 16"
    and "0 \<le> lx'" "lx' < 16" "0 \<le> ly'" "ly' < 16" "0 \<le> lz'" "lz' < 16"
    and "getVoxelIndex lx ly lz = getVoxelIndex lx' ly' lz'"
  shows "lx = lx' \<and> ly = ly' \<and> lz = lz'"
proof -
  have e: "nat lx + nat lz * 16 + nat ly * 256 = nat lx' + nat lz' * 16 + nat ly' * 256"
    using assms(13) by (simp add: getVoxelIndex_def CHUNK_SIZE_def CHUNK_BITS_def)
  have "nat lx < 16" "nat lz < 16" "nat lx' < 16" "nat lz' < 16"
    using assms by linarith+
  then have "nat lx = nat lx' \<and> nat ly = nat ly' \<and> nat lz = nat lz'"
    using e by (rule base16_inj)
  then show ?thesis using assms by linarith
qed

lemma div_mod_16_eq:
  fixes v w :: int
  assumes "v div 16 = w div 16" "v mod 16 = w mod 16"
  shows "v = w"
proof -
  have "v = v div 16 * 16 + v mod 16" by simp
  also have "\<dots> = w div 16 * 16 + w mod 16" using assms by simp
  also have "\<dots> = w" by simp
  finally show ?thesis .
qed

lemma world_position_split:
  assumes "worldPositionToChunkCoordinates wx wy wz = worldPositionToChunkCoordinates x y z"
    and "worldPositionToChunkPosition wx wy wz = worldPositionToChunkPosition x y z"
  shows "(x, y, z) = (wx, wy, wz)"
proof -
  have d: "wx div 16 = x div 16" "wy div 16 = y div 16" "wz div 16 = z div 16"
    using assms(1) by (simp_all add: worldPositionToChunkCoordinates_def CHUNK_BITS_def)
  have m: "wx mod 16 = x mod 16" "wy mod 16 = y mod 16" "wz mod 16 = z mod 16"
    using assms(2)
    by (simp_all add: worldPositionToChunkPosition_def CHUNK_MASK_def CHUNK_SIZE_def CHUNK_BITS_def)
  have "wx = x" using d(1) m(1) by (rule div_mod_16_eq)
  moreover have "wy = y" using d(2) m(2) by (rule div_mod_16_eq)
  moreover have "wz = z" using d(3) m(3) by (rule div_mod_16_eq)
  ultimately show ?thesis by simp
qed

text \<open>
  The world \<open>initVoxels\<close> makes, after one \<open>setVoxel\<close> at a coordinate within the bounds:
  \<open>getVoxel\<close> returns the written sample there and the zero sample everywhere else.
\<close>

lemma getVoxel_single:
  fixes d r g b :: byte
  assumes c: "worldPositionToChunkCoordinates wx wy wz = (cx, cy, cz)"
    and ib: "in_bounds (bounds (initVoxels x0 x1 y0 y1 z0 z1)) cx cy cz"
  shows "getVoxel (setVoxel (initVoxels x0 x1 y0 y1 z0 z1) wx wy wz d r g b) x y z =
           (if (x, y, z) = (wx, wy, wz) then (d, r, g, b) else (0, 0, 0, 0))"
proof (cases "(x, y, z) = (wx, wy, wz)")
  case True
  then show ?thesis
    using getVoxel_setVoxel_same[OF wf_initVoxels c ib] by simp
next
  case False
  let ?w = "initVoxels x0 x1 y0 y1 z0 z1"
  let ?w' = "setVoxel ?w wx wy wz d r g b"
  obtain lx ly lz where l: "worldPositionToChunkPosition wx wy wz = (lx, ly, lz)"
    by (cases "worldPositionToChunkPosition wx wy wz") auto
  obtain k where k: "chunkCoordinateToIndex cx cy cz (bounds ?w) = Some k"
    using ib index_Some_iff by blast
  note eff = setVoxel_effect[OF wf_initVoxels c l k, where val = d and r = r and g = g and b = b]
  obtain cx' cy' cz' where c': "worldPositionToChunkCoordinates x y z = (cx', cy', cz')"
    by (cases "worldPositionToChunkCoordinates x y z") auto
  obtain lx' ly' lz' where l': "worldPositionToChunkPosition x y z = (lx', ly', lz')"
    by (cases "worldPositionToChunkPosition x y z") auto
  let ?vi = "getVoxelIndex lx ly lz" and ?vi' = "getVoxelIndex lx' ly' lz'"
  have r: "0 \<le> lx \<and> lx < 16 \<and> 0 \<le> ly \<and> ly < 16 \<and> 0 \<le> lz \<and> lz < 16"
    and r': "0 \<le> lx' \<and> lx' < 16 \<and> 0 \<le> ly' \<and> ly' < 16 \<and> 0 \<le> lz' \<and> lz' < 16"
    using local_offset_range[OF l] local_offset_range[OF l'] by simp_all
  have vi': "?vi' < CHUNK_VOXELS" using r' by (intro getVoxelIndex_lt) simp_all
  have "getVoxel ?w' x y z = (0, 0, 0, 0)"
  proof (cases "chunkCoordinateToIndex cx' cy' cz' (bounds ?w)")
    case None
    then show ?thesis using c' eff(2) by (simp add: getVoxel_def)
  next
    case (Some i)
    have il: "i < length (chunks ?w)" using wf_initVoxels Some by (rule index_lt_length)
    have g: "getVoxel ?w' x y z =
          (chunk_value (chunks ?w' ! i) ! ?vi', chunk_color (chunks ?w' ! i) ! (?vi' * 3 + 0),
           chunk_color (chunks ?w' ! i) ! (?vi' * 3 + 1), chunk_color (chunks ?w' ! i) ! (?vi' * 3 + 2))"
      using c' l' Some eff(2) by (simp add: getVoxel_def Let_def)
    have init: "chunk_value (chunks ?w ! j) = replicate CHUNK_VOXELS 0"
      "chunk_color (chunks ?w ! j) = replicate (CHUNK_VOXELS * 3) 0" if "j < length (chunks ?w)" for j
      using that by (simp_all add: nth_initVoxels newChunk_fields)
    show ?thesis
    proof (cases "i = k")
      case ne: False
      show ?thesis
        unfolding g using eff(7)[OF il ne] init[OF il] vi' by simp
    next
      case True
      have "(cx', cy', cz') = (cx, cy, cz)"
        using index_inj[OF k, of cx' cy' cz'] Some True by simp
      then have same_chunk: "worldPositionToChunkCoordinates wx wy wz = worldPositionToChunkCoordinates x y z"
        using c c' by simp
      have "(lx', ly', lz') \<noteq> (lx, ly, lz)"
        using world_position_split[OF same_chunk] l l' False by auto
      then have ne: "?vi' \<noteq> ?vi"
        using getVoxelIndex_inj[of lx ly lz lx' ly' lz'] r r' by auto
      have kl: "k < length (chunks ?w)" using il True by simp
      show ?thesis
        unfolding g True eff(4,5) init[OF kl] using vi' ne by simp
    qed
  qed
  then show ?thesis using False by auto
qed


lemma chunk_sum_single:
  fixes d r g b :: byte
  assumes c: "worldPositionToChunkCoordinates wx wy wz = (cx, cy, cz)"
    and ib: "in_bounds (bounds (initVoxels x0 x1 y0 y1 z0 z1)) cx cy cz"
    and i: "chunkCoordinateToIndex cx' cy' cz' (bounds (initVoxels x0 x1 y0 y1 z0 z1)) = Some i"
  shows "chunk_sum (chunks (setVoxel (initVoxels x0 x1 y0 y1 z0 z1) wx wy wz d r g b) ! i) =
           (if (cx', cy', cz') = (cx, cy, cz) then uint d else 0)"
proof -
  let ?w = "initVoxels x0 x1 y0 y1 z0 z1"
  obtain lx ly lz where l: "worldPositionToChunkPosition wx wy wz = (lx, ly, lz)"
    by (cases "worldPositionToChunkPosition wx wy wz") auto
  obtain k where k: "chunkCoordinateToIndex cx cy cz (bounds ?w) = Some k"
    using ib index_Some_iff by blast
  note eff = setVoxel_effect[OF wf_initVoxels c l k, where val = d and r = r and g = g and b = b]
  have il: "i < length (chunks ?w)" using wf_initVoxels i by (rule index_lt_length)
  have kl: "k < length (chunks ?w)" using wf_initVoxels k by (rule index_lt_length)
  have vi: "getVoxelIndex lx ly lz < CHUNK_VOXELS"
    using local_offset_range[OF l] by (intro getVoxelIndex_lt) simp_all
  show ?thesis
  proof (cases "i = k")
    case True
    then have "(cx', cy', cz') = (cx, cy, cz)"
      using index_inj[OF k, of cx' cy' cz'] i by simp
    moreover have "chunk_sum (chunks (setVoxel ?w wx wy wz d r g b) ! k) = uint d"
      unfolding eff(6) using kl vi by (simp add: nth_initVoxels newChunk_fields)
    ultimately show ?thesis using True by simp
  next
    case False
    then have "(cx', cy', cz') \<noteq> (cx, cy, cz)" using i k by auto
    moreover have "chunk_sum (chunks (setVoxel ?w wx wy wz d r g b) ! i) = 0"
      using eff(7)[OF il False] il by (simp add: nth_initVoxels newChunk_fields)
    ultimately show ?thesis by auto
  qed
qed

subsection \<open>Raycasting\<close>

lemma raycastLoop_continue:
  "distance c < maxDistance ray \<Longrightarrow> raycastStep out voxels ray c = Inr c' \<Longrightarrow>
   raycastLoop out voxels ray c = raycastLoop out voxels ray c'"
  by (subst raycastLoop.simps) simp

lemma raycastLoop_return:
  "distance c < maxDistance ray \<Longrightarrow> raycastStep out voxels ray c = Inl res \<Longrightarrow>
   raycastLoop out voxels ray c = Some res"
  by (subst raycastLoop.simps) simp

lemma naiveLoop_continue:
  "distance c < maxDistance ray \<Longrightarrow> testVoxel out voxels ray c = Inr c' \<Longrightarrow>
   naiveLoop out voxels ray c = naiveLoop out voxels ray c'"
  by (subst naiveLoop.simps) simp

lemma naiveLoop_return:
  "distance c < maxDistance ray \<Longrightarrow> testVoxel out voxels ray c = Inl res \<Longrightarrow>
   naiveLoop out voxels ray c = Some res"
  by (subst naiveLoop.simps) simp

text \<open>The loop body on a world with a single edited voxel.\<close>

lemma raycastStep_single:
  fixes d r g b :: byte
  assumes c: "worldPositionToChunkCoordinates wx wy wz = (cx, cy, cz)"
    and ib: "in_bounds (bounds (initVoxels x0 x1 y0 y1 z0 z1)) cx cy cz"
    and p: "worldPositionToChunkCoordinates (posX cur) (posY cur) (posZ cur) = (cx', cy', cz')"
  shows "raycastStep out (setVoxel (initVoxels x0 x1 y0 y1 z0 z1) wx wy wz d r g b) ray cur =
           (if (cx', cy', cz') \<noteq> (cx, cy, cz) \<or> d = 0 then skipChunk out ray cx' cy' cz' cur
            else testVoxel out (setVoxel (initVoxels x0 x1 y0 y1 z0 z1) wx wy wz d r g b) ray cur)"
proof -
  let ?w = "initVoxels x0 x1 y0 y1 z0 z1"
  let ?w' = "setVoxel ?w wx wy wz d r g b"
  obtain lx ly lz where l: "worldPositionToChunkPosition wx wy wz = (lx, ly, lz)"
    by (cases "worldPositionToChunkPosition wx wy wz") auto
  obtain k where k: "chunkCoordinateToIndex cx cy cz (bounds ?w) = Some k"
    using ib index_Some_iff by blast
  have b': "bounds ?w' = bounds ?w"
    by (rule setVoxel_effect(2)[OF wf_initVoxels c l k])
  have "(case chunkCoordinateToIndex cx' cy' cz' (bounds ?w') of
           None \<Rightarrow> True
         | Some chunkIndex \<Rightarrow> chunk_sum (chunks ?w' ! chunkIndex) = 0)
        = ((cx', cy', cz') \<noteq> (cx, cy, cz) \<or> d = 0)"
  proof (cases "chunkCoordinateToIndex cx' cy' cz' (bounds ?w)")
    case None
    then have "(cx', cy', cz') \<noteq> (cx, cy, cz)" using k by auto
    then show ?thesis using None by (simp add: b')
  next
    case (Some i)
    have "(uint d = 0) = (d = 0)" by (simp add: uint_0_iff)
    then show ?thesis
      using Some chunk_sum_single[OF c ib Some, of d r g b] by (simp add: b')
  qed
  then show ?thesis
    by (simp add: raycastStep_def p)
qed

subsection \<open>The ray of the raycast case\<close>


lemma ray_z_fields:
  "initRay 5 5 (- 10) 0 0 1 100 =
     \<lparr> tOriginX = 11/2, tOriginY = 11/2, tOriginZ = - 19/2, dirX = 0, dirY = 0, dirZ = 1,
       stepX = 1, stepY = 1, stepZ = 1, tDeltaX = FLT_MAX, tDeltaY = FLT_MAX, tDeltaZ = 1,
       maxDistance = 100 \<rparr>"
  by (simp add: initRay_def stepOf_def tDeltaOf_def)

lemma cursor_z_fields:
  "initCursor (initRay 5 5 (- 10) 0 0 1 100) =
     \<lparr> posX = 5, posY = 5, posZ = - 10, tMaxX = PInf, tMaxY = PInf, tMaxZ = Fin (1/2),
       hitNormalX = 0, hitNormalY = 0, hitNormalZ = 0, distance = 0 \<rparr>"
  by (simp add: ray_z_fields initCursor_def tMaxInit_def divPos_def)

lemma flt_max_large: "100 < FLT_MAX" "19/2 < FLT_MAX" "FLT_MAX \<noteq> 19/2"
  by (simp_all add: FLT_MAX_def)

text \<open>The skip out of the chunk below the origin: one jump from \<open>z = -10\<close> to \<open>z = 0\<close>.\<close>

lemma skip_below:
  "skipChunk out (initRay 5 5 (- 10) 0 0 1 100) 0 0 (- 1)
     \<lparr> posX = 5, posY = 5, posZ = - 10, tMaxX = PInf, tMaxY = PInf, tMaxZ = Fin (1/2),
       hitNormalX = 0, hitNormalY = 0, hitNormalZ = 0, distance = 0 \<rparr>
   = Inr \<lparr> posX = 5, posY = 5, posZ = 0, tMaxX = PInf, tMaxY = PInf, tMaxZ = Fin (21/2),
           hitNormalX = 0, hitNormalY = 0, hitNormalZ = - 1, distance = 19/2 \<rparr>"
  using flt_max_large
  by (simp add: skipChunk_def ray_z_fields exitDistance_def recalcTMax_def Let_def
        CHUNK_SIZE_def CHUNK_BITS_def)


text \<open>A step of the DDA along \<open>+z\<close> past a voxel below the iso level.\<close>

lemma advance_z:
  assumes "getVoxel voxels 5 5 z = (v, r, g, b)" and "uint v < ISOLEVEL"
  shows "testVoxel out voxels (initRay 5 5 (- 10) 0 0 1 100)
           \<lparr> posX = 5, posY = 5, posZ = z, tMaxX = PInf, tMaxY = PInf, tMaxZ = Fin (t + 1),
             hitNormalX = 0, hitNormalY = 0, hitNormalZ = - 1, distance = t \<rparr>
         = Inr \<lparr> posX = 5, posY = 5, posZ = z + 1, tMaxX = PInf, tMaxY = PInf,
                 tMaxZ = Fin (t + 1 + 1),
                 hitNormalX = 0, hitNormalY = 0, hitNormalZ = - 1, distance = t + 1 \<rparr>"
  using assms by (simp add: testVoxel_def ray_z_fields)

lemma hit_z:
  assumes "getVoxel voxels 5 5 z = (v, r, g, b)" and "ISOLEVEL \<le> uint v"
  shows "testVoxel out voxels (initRay 5 5 (- 10) 0 0 1 100)
           \<lparr> posX = 5, posY = 5, posZ = z, tMaxX = PInf, tMaxY = PInf, tMaxZ = Fin (t + 1),
             hitNormalX = 0, hitNormalY = 0, hitNormalZ = - 1, distance = t \<rparr>
         = Inl (out\<lparr> hit := True, positionX := 5, positionY := 5, positionZ := t - 10,
                      normalX := 0, normalY := 0, normalZ := - 1,
                      hitValue := v, hitR := r, hitG := g, hitB := b,
                      hitDistance := t, voxelX := 5, voxelY := 5, voxelZ := z \<rparr>)"
  using assms by (simp add: testVoxel_def ray_z_fields)

lemma raycast_case:
  fixes r g b :: byte
  assumes ib: "in_bounds (bounds (initVoxels x0 x1 y0 y1 z0 z1)) 0 0 0"
  shows "raycastVoxels out (setVoxel (initVoxels x0 x1 y0 y1 z0 z1) 5 5 5 255 r g b)
           5 5 (- 10) 0 0 1 100
         = Some (out\<lparr> hit := True, positionX := 5, positionY := 5, positionZ := 9/2,
                      normalX := 0, normalY := 0, normalZ := - 1,
                      hitValue := 255, hitR := r, hitG := g, hitB := b,
                      hitDistance := 29/2, voxelX := 5, voxelY := 5, voxelZ := 5 \<rparr>)"
proof -
  let ?w = "setVoxel (initVoxels x0 x1 y0 y1 z0 z1) 5 5 5 255 r g b"
  let ?ray = "initRay 5 5 (- 10) 0 0 1 100"
  let ?at = "\<lambda>z t. \<lparr> posX = 5, posY = 5, posZ = z, tMaxX = PInf, tMaxY = PInf, tMaxZ = Fin (t + 1),
             hitNormalX = 0, hitNormalY = 0, hitNormalZ = - 1, distance = t \<rparr>"
  have c: "worldPositionToChunkCoordinates 5 5 5 = (0, 0, 0)"
    by (simp add: worldPositionToChunkCoordinates_def CHUNK_BITS_def)
  have md: "maxDistance ?ray = 100" by (simp add: ray_z_fields)
  have gv: "getVoxel ?w 5 5 z = (if z = 5 then (255, r, g, b) else (0, 0, 0, 0))" for z
    using getVoxel_single[OF c ib, of 255 r g b 5 5 z] by simp
  have inside: "raycastStep out ?w ?ray (?at z t) = testVoxel out ?w ?ray (?at z t)"
    if "0 \<le> z" "z < 16" for z t
  proof -
    have "worldPositionToChunkCoordinates (posX (?at z t)) (posY (?at z t)) (posZ (?at z t)) = (0, 0, 0)"
      using that by (simp add: worldPositionToChunkCoordinates_def CHUNK_BITS_def)
    from raycastStep_single[OF c ib this, of out 255 r g b ?ray] show ?thesis by simp
  qed
  have adv: "raycastLoop out ?w ?ray (?at z t) = raycastLoop out ?w ?ray (?at (z + 1) (t + 1))"
    if "0 \<le> z" "z < 5" "t < 100" for z t
  proof (rule raycastLoop_continue)
    show "distance (?at z t) < maxDistance ?ray" using that md by simp
    have "getVoxel ?w 5 5 z = (0, 0, 0, 0)" using that gv by simp
    then have "testVoxel out ?w ?ray (?at z t) = Inr (?at (z + 1) (t + 1))"
      by (rule advance_z) (simp add: ISOLEVEL_def)
    then show "raycastStep out ?w ?ray (?at z t) = Inr (?at (z + 1) (t + 1))"
      using inside[of z t] that by simp
  qed
  have "raycastVoxels out ?w 5 5 (- 10) 0 0 1 100 = raycastLoop out ?w ?ray (initCursor ?ray)"
    by (simp add: raycastVoxels_def Let_def)
  also have "\<dots> = raycastLoop out ?w ?ray (?at 0 (19/2))"
  proof (rule raycastLoop_continue)
    show "distance (initCursor ?ray) < maxDistance ?ray"
      by (simp add: cursor_z_fields md)
    have "worldPositionToChunkCoordinates (posX (initCursor ?ray)) (posY (initCursor ?ray))
            (posZ (initCursor ?ray)) = (0, 0, - 1)"
      by (simp add: cursor_z_fields worldPositionToChunkCoordinates_def CHUNK_BITS_def)
    from raycastStep_single[OF c ib this, of out 255 r g b ?ray]
    show "raycastStep out ?w ?ray (initCursor ?ray) = Inr (?at 0 (19/2))"
      by (simp add: cursor_z_fields skip_below)
  qed
  also have "\<dots> = raycastLoop out ?w ?ray (?at 1 (21/2))" using adv[of 0 "19/2"] by simp
  also have "\<dots> = raycastLoop out ?w ?ray (?at 2 (23/2))" using adv[of 1 "21/2"] by simp
  also have "\<dots> = raycastLoop out ?w ?ray (?at 3 (25/2))" using adv[of 2 "23/2"] by simp
  also have "\<dots> = raycastLoop out ?w ?ray (?at 4 (27/2))" using adv[of 3 "25/2"] by simp
  also have "\<dots> = raycastLoop out ?w ?ray (?at 5 (29/2))" using adv[of 4 "27/2"] by simp
  also have "\<dots> = Some (out\<lparr> hit := True, positionX := 5, positionY := 5, positionZ := 9/2,
                      normalX := 0, normalY := 0, normalZ := - 1,
                      hitValue := 255, hitR := r, hitG := g, hitB := b,
                      hitDistance := 29/2, voxelX := 5, voxelY := 5, voxelZ := 5 \<rparr>)"
  proof (rule raycastLoop_return)
    show "distance (?at 5 (29/2)) < maxDistance ?ray" using md by simp
    have "getVoxel ?w 5 5 5 = (255, r, g, b)" using gv by simp
    then have "testVoxel out ?w ?ray (?at 5 (29/2)) =
        Inl (out\<lparr> hit := True, positionX := 5, positionY := 5, positionZ := 29/2 - 10,
                      normalX := 0, normalY := 0, normalZ := - 1,
                      hitValue := 255, hitR := r, hitG := g, hitB := b,
                      hitDistance := 29/2, voxelX := 5, voxelY := 5, voxelZ := 5 \<rparr>)"
      by (rule hit_z) (simp add: ISOLEVEL_def)
    then show "raycastStep out ?w ?ray (?at 5 (29/2)) =
        Inl (out\<lparr> hit := True, positionX := 5, positionY := 5, positionZ := 9/2,
                      normalX := 0, normalY := 0, normalZ := - 1,
                      hitValue := 255, hitR := r, hitG := g, hitB := b,
                      hitDistance := 29/2, voxelX := 5, voxelY := 5, voxelZ := 5 \<rparr>)"
      using inside[of 5 "29/2"] by simp
  qed
  finally show ?thesis .
qed


text \<open>
  C7, as the code has it. In a world whose only non-zero voxel is \<open>(5, 5, 5)\<close> with density
  255 (whatever the bounds, as long as chunk \<open>(0, 0, 0)\<close> exists; the chunk below it is
  skipped whether it is absent or empty), the ray from \<open>(5, 5, -10)\<close> towards \<open>(0, 0, 1)\<close>
  with \<open>maxDistance = 100\<close> returns a hit of voxel \<open>(5, 5, 5)\<close> with face normal
  \<open>(0, 0, -1)\<close>. The reported distance is exactly \<open>14.5\<close>: the hit position is
  \<open>(5, 5, 4.5)\<close>, on the entry face \<open>z = 4.5\<close> of the cell that the half-voxel shift of
  \<open>raycastVoxels\<close> centres on the voxel's integer coordinate.
\<close>

theorem raycast_single_voxel:
  fixes r g b :: byte
  assumes "in_bounds (bounds (initVoxels x0 x1 y0 y1 z0 z1)) 0 0 0"
  shows "\<exists>res. raycastVoxels out (setVoxel (initVoxels x0 x1 y0 y1 z0 z1) 5 5 5 255 r g b)
                  5 5 (- 10) 0 0 1 100 = Some res
       \<and> hit res
       \<and> (voxelX res, voxelY res, voxelZ res) = (5, 5, 5)
       \<and> (normalX res, normalY res, normalZ res) = (0, 0, - 1)
       \<and> hitDistance res = 29/2
       \<and> (positionX res, positionY res, positionZ res) = (5, 5, 9/2)
       \<and> (hitValue res, hitR res, hitG res, hitB res) = (255, r, g, b)"
  unfolding raycast_case[OF assms] by simp

theorem raycast_single_voxel_witness:
  "in_bounds (bounds (initVoxels 0 0 0 0 0 0)) 0 0 0
   \<and> (\<exists>res. raycastVoxels emptyResult (setVoxel (initVoxels 0 0 0 0 0 0) 5 5 5 255 10 20 30)
                  5 5 (- 10) 0 0 1 100 = Some res
       \<and> hit res \<and> (voxelX res, voxelY res, voxelZ res) = (5, 5, 5)
       \<and> (normalX res, normalY res, normalZ res) = (0, 0, - 1) \<and> hitDistance res = 29/2)"
proof -
  have ib: "in_bounds (bounds (initVoxels 0 0 0 0 0 0)) 0 0 0"
    by (simp add: in_bounds_def bounds_initVoxels)
  from raycast_single_voxel[OF ib, of emptyResult 10 20 30] ib show ?thesis by blast
qed

text \<open>
  C7, the claim as stated, fails in the distance: in the one-chunk world with the single
  voxel \<open>(5, 5, 5)\<close> the ray returns the hit, the voxel and the normal of the claim, but the
  distance it reports is \<open>14.5\<close>, half a voxel short of 15. The offset is not rounding: every
  operation on this ray is exact, and the distance is measured to the face \<open>z = 4.5\<close>.
\<close>

theorem raycast_distance_half_voxel_short:
  "raycastVoxels emptyResult (setVoxel (initVoxels 0 0 0 0 0 0) 5 5 5 255 10 20 30)
       5 5 (- 10) 0 0 1 100
     = Some (emptyResult\<lparr> hit := True, positionX := 5, positionY := 5, positionZ := 9/2,
                          normalX := 0, normalY := 0, normalZ := - 1,
                          hitValue := 255, hitR := 10, hitG := 20, hitB := 30,
                          hitDistance := 29/2, voxelX := 5, voxelY := 5, voxelZ := 5 \<rparr>)
   \<and> map_option hitDistance
        (raycastVoxels emptyResult (setVoxel (initVoxels 0 0 0 0 0 0) 5 5 5 255 10 20 30)
           5 5 (- 10) 0 0 1 100) = Some (15 - 1/2)
   \<and> map_option hitDistance
        (raycastVoxels emptyResult (setVoxel (initVoxels 0 0 0 0 0 0) 5 5 5 255 10 20 30)
           5 5 (- 10) 0 0 1 100) \<noteq> Some 15"
proof -
  have ib: "in_bounds (bounds (initVoxels 0 0 0 0 0 0)) 0 0 0"
    by (simp add: in_bounds_def bounds_initVoxels)
  show ?thesis
    unfolding raycast_case[OF ib, of emptyResult 10 20 30] by simp
qed

subsection \<open>A ray that starts on a chunk boundary\<close>

lemma ray_x_fields:
  "initRay (31/2) 5 5 (- 1) 0 0 100 =
     \<lparr> tOriginX = 16, tOriginY = 11/2, tOriginZ = 11/2, dirX = - 1, dirY = 0, dirZ = 0,
       stepX = - 1, stepY = 1, stepZ = 1, tDeltaX = 1, tDeltaY = FLT_MAX, tDeltaZ = FLT_MAX,
       maxDistance = 100 \<rparr>"
  by (simp add: initRay_def stepOf_def tDeltaOf_def)

lemma cursor_x_fields:
  "initCursor (initRay (31/2) 5 5 (- 1) 0 0 100) =
     \<lparr> posX = 16, posY = 5, posZ = 5, tMaxX = Fin 0, tMaxY = PInf, tMaxZ = PInf,
       hitNormalX = 0, hitNormalY = 0, hitNormalZ = 0, distance = 0 \<rparr>"
  by (simp add: ray_x_fields initCursor_def tMaxInit_def divPos_def)

text \<open>
  The skip at the start: the exit distance along \<open>x\<close> is \<open>0\<close>, which is not beyond the
  distance travelled, so no axis has an exit and the function returns no hit.
\<close>

lemma skip_at_boundary:
  "skipChunk out (initRay (31/2) 5 5 (- 1) 0 0 100) 1 0 0
     \<lparr> posX = 16, posY = 5, posZ = 5, tMaxX = Fin 0, tMaxY = PInf, tMaxZ = PInf,
       hitNormalX = 0, hitNormalY = 0, hitNormalZ = 0, distance = 0 \<rparr>
   = Inl (out\<lparr>hit := False\<rparr>)"
  by (simp add: skipChunk_def ray_x_fields exitDistance_def Let_def CHUNK_SIZE_def CHUNK_BITS_def)

lemma advance_x:
  assumes "getVoxel voxels x 5 5 = (v, r, g, b)" and "uint v < ISOLEVEL"
  shows "testVoxel out voxels (initRay (31/2) 5 5 (- 1) 0 0 100)
           \<lparr> posX = x, posY = 5, posZ = 5, tMaxX = Fin t, tMaxY = PInf, tMaxZ = PInf,
             hitNormalX = nx, hitNormalY = 0, hitNormalZ = 0, distance = d \<rparr>
         = Inr \<lparr> posX = x - 1, posY = 5, posZ = 5, tMaxX = Fin (t + 1), tMaxY = PInf, tMaxZ = PInf,
                 hitNormalX = 1, hitNormalY = 0, hitNormalZ = 0, distance = t \<rparr>"
  using assms by (simp add: testVoxel_def ray_x_fields)

lemma hit_x:
  assumes "getVoxel voxels x 5 5 = (v, r, g, b)" and "ISOLEVEL \<le> uint v"
  shows "testVoxel out voxels (initRay (31/2) 5 5 (- 1) 0 0 100)
           \<lparr> posX = x, posY = 5, posZ = 5, tMaxX = Fin t, tMaxY = PInf, tMaxZ = PInf,
             hitNormalX = 1, hitNormalY = 0, hitNormalZ = 0, distance = d \<rparr>
         = Inl (out\<lparr> hit := True, positionX := 31/2 - d, positionY := 5, positionZ := 5,
                      normalX := 1, normalY := 0, normalZ := 0,
                      hitValue := v, hitR := r, hitG := g, hitB := b,
                      hitDistance := d, voxelX := x, voxelY := 5, voxelZ := 5 \<rparr>)"
  using assms by (simp add: testVoxel_def ray_x_fields)

text \<open>
  C1, at the failing input. The world has the single chunk \<open>(0, 0, 0)\<close> with the solid
  voxel \<open>(10, 5, 5)\<close>; the ray starts at \<open>(15.5, 5, 5)\<close>, on the face between chunk
  \<open>(0, 0, 0)\<close> and the absent chunk \<open>(1, 0, 0)\<close>, and points towards \<open>(-1, 0, 0)\<close>.
  Every float operation on these values is exact. \<open>raycastVoxels\<close> reports no hit; the
  per-voxel traversal hits voxel \<open>(10, 5, 5)\<close> at distance 5.
\<close>

theorem skip_misses_boundary_start:
  "raycastVoxels emptyResult (setVoxel (initVoxels 0 0 0 0 0 0) 10 5 5 255 10 20 30)
      (31/2) 5 5 (- 1) 0 0 100 = Some (emptyResult\<lparr>hit := False\<rparr>)
   \<and> naiveRaycast emptyResult (setVoxel (initVoxels 0 0 0 0 0 0) 10 5 5 255 10 20 30)
      (31/2) 5 5 (- 1) 0 0 100
     = Some (emptyResult\<lparr> hit := True, positionX := 21/2, positionY := 5, positionZ := 5,
                      normalX := 1, normalY := 0, normalZ := 0,
                      hitValue := 255, hitR := 10, hitG := 20, hitB := 30,
                      hitDistance := 5, voxelX := 10, voxelY := 5, voxelZ := 5 \<rparr>)"
proof
  let ?w = "setVoxel (initVoxels 0 0 0 0 0 0) 10 5 5 255 10 20 30"
  let ?ray = "initRay (31/2) 5 5 (- 1) 0 0 100"
  let ?out = emptyResult
  let ?at = "\<lambda>x t d. \<lparr> posX = x, posY = 5, posZ = 5, tMaxX = Fin t, tMaxY = PInf, tMaxZ = PInf,
             hitNormalX = 1, hitNormalY = 0, hitNormalZ = 0, distance = d \<rparr>"
  have c: "worldPositionToChunkCoordinates 10 5 5 = (0, 0, 0)"
    by (simp add: worldPositionToChunkCoordinates_def CHUNK_BITS_def)
  have ib: "in_bounds (bounds (initVoxels 0 0 0 0 0 0)) 0 0 0"
    by (simp add: in_bounds_def bounds_initVoxels)
  have md: "maxDistance ?ray = 100" by (simp add: ray_x_fields)
  have gv: "getVoxel ?w x 5 5 = (if x = 10 then (255, 10, 20, 30) else (0, 0, 0, 0))" for x
    using getVoxel_single[OF c ib, of 255 10 20 30 x 5 5] by simp
  show "raycastVoxels ?out ?w (31/2) 5 5 (- 1) 0 0 100 = Some (?out\<lparr>hit := False\<rparr>)"
  proof -
    have "raycastVoxels ?out ?w (31/2) 5 5 (- 1) 0 0 100 = raycastLoop ?out ?w ?ray (initCursor ?ray)"
      by (simp add: raycastVoxels_def Let_def)
    also have "\<dots> = Some (?out\<lparr>hit := False\<rparr>)"
    proof (rule raycastLoop_return)
      show "distance (initCursor ?ray) < maxDistance ?ray" by (simp add: cursor_x_fields md)
      have "worldPositionToChunkCoordinates (posX (initCursor ?ray)) (posY (initCursor ?ray))
              (posZ (initCursor ?ray)) = (1, 0, 0)"
        by (simp add: cursor_x_fields worldPositionToChunkCoordinates_def CHUNK_BITS_def)
      from raycastStep_single[OF c ib this, of ?out 255 10 20 30 ?ray]
      show "raycastStep ?out ?w ?ray (initCursor ?ray) = Inl (?out\<lparr>hit := False\<rparr>)"
        by (simp add: cursor_x_fields skip_at_boundary)
    qed
    finally show ?thesis .
  qed
  have adv: "naiveLoop ?out ?w ?ray (?at x t d) = naiveLoop ?out ?w ?ray (?at (x - 1) (t + 1) t)"
    if "x \<noteq> 10" "d < 100" for x t d
  proof (rule naiveLoop_continue)
    show "distance (?at x t d) < maxDistance ?ray" using that md by simp
    have "getVoxel ?w x 5 5 = (0, 0, 0, 0)" using that gv by simp
    then show "testVoxel ?out ?w ?ray (?at x t d) = Inr (?at (x - 1) (t + 1) t)"
      by (rule advance_x) (simp add: ISOLEVEL_def)
  qed
  show "naiveRaycast ?out ?w (31/2) 5 5 (- 1) 0 0 100
     = Some (?out\<lparr> hit := True, positionX := 21/2, positionY := 5, positionZ := 5,
                      normalX := 1, normalY := 0, normalZ := 0,
                      hitValue := 255, hitR := 10, hitG := 20, hitB := 30,
                      hitDistance := 5, voxelX := 10, voxelY := 5, voxelZ := 5 \<rparr>)"
  proof -
    have "naiveRaycast ?out ?w (31/2) 5 5 (- 1) 0 0 100 = naiveLoop ?out ?w ?ray (initCursor ?ray)"
      by (simp add: naiveRaycast_def Let_def)
    also have "\<dots> = naiveLoop ?out ?w ?ray (?at 15 1 0)"
    proof (rule naiveLoop_continue)
      show "distance (initCursor ?ray) < maxDistance ?ray" by (simp add: cursor_x_fields md)
      have "getVoxel ?w 16 5 5 = (0, 0, 0, 0)" using gv by simp
      then have "testVoxel ?out ?w ?ray
           \<lparr> posX = 16, posY = 5, posZ = 5, tMaxX = Fin 0, tMaxY = PInf, tMaxZ = PInf,
             hitNormalX = 0, hitNormalY = 0, hitNormalZ = 0, distance = 0 \<rparr>
         = Inr \<lparr> posX = 16 - 1, posY = 5, posZ = 5, tMaxX = Fin (0 + 1), tMaxY = PInf, tMaxZ = PInf,
                 hitNormalX = 1, hitNormalY = 0, hitNormalZ = 0, distance = 0 \<rparr>"
        by (rule advance_x) (simp add: ISOLEVEL_def)
      then show "testVoxel ?out ?w ?ray (initCursor ?ray) = Inr (?at 15 1 0)"
        by (simp add: cursor_x_fields)
    qed
    also have "\<dots> = naiveLoop ?out ?w ?ray (?at 14 2 1)" using adv[of 15 0 1] by simp
    also have "\<dots> = naiveLoop ?out ?w ?ray (?at 13 3 2)" using adv[of 14 1 2] by simp
    also have "\<dots> = naiveLoop ?out ?w ?ray (?at 12 4 3)" using adv[of 13 2 3] by simp
    also have "\<dots> = naiveLoop ?out ?w ?ray (?at 11 5 4)" using adv[of 12 3 4] by simp
    also have "\<dots> = naiveLoop ?out ?w ?ray (?at 10 6 5)" using adv[of 11 4 5] by simp
    also have "\<dots> = Some (?out\<lparr> hit := True, positionX := 21/2, positionY := 5, positionZ := 5,
                      normalX := 1, normalY := 0, normalZ := 0,
                      hitValue := 255, hitR := 10, hitG := 20, hitB := 30,
                      hitDistance := 5, voxelX := 10, voxelY := 5, voxelZ := 5 \<rparr>)"
    proof (rule naiveLoop_return)
      show "distance (?at 10 6 5) < maxDistance ?ray" using md by simp
      have "getVoxel ?w 10 5 5 = (255, 10, 20, 30)" using gv by simp
      then have "testVoxel ?out ?w ?ray (?at 10 6 5) =
          Inl (?out\<lparr> hit := True, positionX := 31/2 - 5, positionY := 5, positionZ := 5,
                      normalX := 1, normalY := 0, normalZ := 0,
                      hitValue := 255, hitR := 10, hitG := 20, hitB := 30,
                      hitDistance := 5, voxelX := 10, voxelY := 5, voxelZ := 5 \<rparr>)"
        by (rule hit_x) (simp add: ISOLEVEL_def)
      then show "testVoxel ?out ?w ?ray (?at 10 6 5) =
          Inl (?out\<lparr> hit := True, positionX := 21/2, positionY := 5, positionZ := 5,
                      normalX := 1, normalY := 0, normalZ := 0,
                      hitValue := 255, hitR := 10, hitG := 20, hitB := 30,
                      hitDistance := 5, voxelX := 10, voxelY := 5, voxelZ := 5 \<rparr>)"
        by simp
    qed
    finally show ?thesis .
  qed
qed

subsection \<open>What generateChunk writes\<close>

lemma fold_upt_pointwise:
  assumes step: "\<And>k c. k < n \<Longrightarrow> good c \<Longrightarrow>
                   good (F k c) \<and> obs (F k c) = (if sel k then T (obs c) else obs c)"
    and idem: "\<And>v. T (T v) = T v"
    and "good c"
  shows "good (fold F [0..<n] c) \<and>
         obs (fold F [0..<n] c) = (if \<exists>k<n. sel k then T (obs c) else obs c)"
proof -
  have "m \<le> n \<Longrightarrow> good (fold F [0..<m] c) \<and>
         obs (fold F [0..<m] c) = (if \<exists>k<m. sel k then T (obs c) else obs c)" for m
  proof (induction m)
    case 0
    then show ?case using assms(3) by simp
  next
    case (Suc m)
    let ?c = "fold F [0..<m] c"
    have i: "good ?c" and o: "obs ?c = (if \<exists>k<m. sel k then T (obs c) else obs c)"
      using Suc by simp_all
    have "m < n" using Suc.prems by simp
    then have s: "good (F m ?c)" "obs (F m ?c) = (if sel m then T (obs ?c) else obs ?c)"
      using step[OF _ i] by simp_all
    have ex: "(\<exists>k<Suc m. sel k) = (sel m \<or> (\<exists>k<m. sel k))"
      using less_Suc_eq by auto
    show ?case
      unfolding ex using s o idem by auto
  qed
  then show ?thesis by simp
qed











subsection \<open>The noise at world voxel (80, 0, 0) for seed 0\<close>















subsection \<open>Machine arithmetic on bounds that fit\<close>

lemma to_size_t_fit: "0 \<le> i \<Longrightarrow> nat i < 2 ^ w \<Longrightarrow> to_size_t w i = nat i"
proof -
  assume a: "0 \<le> i" "nat i < 2 ^ w"
  have "int (nat i) < int (2 ^ w)" using a(2) by (rule iffD2[OF of_nat_less_iff])
  then have "i < 2 ^ w" using a(1) by simp
  then show ?thesis using a(1) by (simp add: to_size_t_def)
qed

lemma size_mul_fit: "a * b < 2 ^ w \<Longrightarrow> size_mul w a b = a * b"
  by (simp add: size_mul_def)

lemma size_add_fit: "a + b < 2 ^ w \<Longrightarrow> size_add w a b = a + b"
  by (simp add: size_add_def)

lemma to_int_fit: "int n \<le> INT_MAX \<Longrightarrow> to_int n = int n"
  by (simp add: to_int_def INT_MAX_def Let_def)

lemma extent_le_total:
  assumes "xmin b \<le> xmax b" "ymin b \<le> ymax b" "zmin b \<le> zmax b"
  shows "nat (xmax b - xmin b + 1) \<le> totalChunks b"
    and "nat (ymax b - ymin b + 1) \<le> totalChunks b"
    and "nat (zmax b - zmin b + 1) \<le> totalChunks b"
    and "nat (ymax b - ymin b + 1) * nat (zmax b - zmin b + 1) \<le> totalChunks b"
proof -
  let ?xs = "nat (xmax b - xmin b + 1)"
  let ?ys = "nat (ymax b - ymin b + 1)" and ?zs = "nat (zmax b - zmin b + 1)"
  have p: "1 \<le> ?xs" "1 \<le> ?ys" "1 \<le> ?zs" using assms by simp_all
  have t: "totalChunks b = ?xs * ?ys * ?zs" by (simp add: totalChunks_def)
  have "?xs * 1 * 1 \<le> ?xs * ?ys * ?zs" using p by (intro mult_le_mono) simp_all
  then show "?xs \<le> totalChunks b" unfolding t by simp
  have "1 * ?ys * 1 \<le> ?xs * ?ys * ?zs" using p by (intro mult_le_mono) simp_all
  then show "?ys \<le> totalChunks b" unfolding t by simp
  have "1 * 1 * ?zs \<le> ?xs * ?ys * ?zs" using p by (intro mult_le_mono) simp_all
  then show "?zs \<le> totalChunks b" unfolding t by simp
  have "1 * ?ys * ?zs \<le> ?xs * ?ys * ?zs" using p by (intro mult_le_mono) simp_all
  then show "?ys * ?zs \<le> totalChunks b" unfolding t by simp
qed

lemma extents_fit:
  assumes "allocatable w b"
  shows "to_size_t w (xmax b - xmin b + 1) = nat (xmax b - xmin b + 1)"
    and "to_size_t w (ymax b - ymin b + 1) = nat (ymax b - ymin b + 1)"
    and "to_size_t w (zmax b - zmin b + 1) = nat (zmax b - zmin b + 1)"
    and "size_mul w (nat (ymax b - ymin b + 1)) (nat (zmax b - zmin b + 1))
           = nat (ymax b - ymin b + 1) * nat (zmax b - zmin b + 1)"
    and "0 < nat (ymax b - ymin b + 1) * nat (zmax b - zmin b + 1)"
    and "0 < nat (zmax b - zmin b + 1)"
proof -
  have o: "xmin b \<le> xmax b" "ymin b \<le> ymax b" "zmin b \<le> zmax b"
    and t: "totalChunks b < 2 ^ w"
    using assms by (simp_all add: allocatable_def)
  note e = extent_le_total[OF o]
  have l: "nat (xmax b - xmin b + 1) < 2 ^ w" "nat (ymax b - ymin b + 1) < 2 ^ w"
      "nat (zmax b - zmin b + 1) < 2 ^ w"
    using e(1,2,3) t by linarith+
  have n: "0 \<le> xmax b - xmin b + 1" "0 \<le> ymax b - ymin b + 1" "0 \<le> zmax b - zmin b + 1"
    using o by linarith+
  show "to_size_t w (xmax b - xmin b + 1) = nat (xmax b - xmin b + 1)"
    using n(1) l(1) by (rule to_size_t_fit)
  show "to_size_t w (ymax b - ymin b + 1) = nat (ymax b - ymin b + 1)"
    using n(2) l(2) by (rule to_size_t_fit)
  show "to_size_t w (zmax b - zmin b + 1) = nat (zmax b - zmin b + 1)"
    using n(3) l(3) by (rule to_size_t_fit)
  show "size_mul w (nat (ymax b - ymin b + 1)) (nat (zmax b - zmin b + 1))
           = nat (ymax b - ymin b + 1) * nat (zmax b - zmin b + 1)"
    using e(4) t by (intro size_mul_fit) simp
  show "0 < nat (ymax b - ymin b + 1) * nat (zmax b - zmin b + 1)"
    using o by simp
  show "0 < nat (zmax b - zmin b + 1)" using o by simp
qed

text \<open>On allocatable bounds the machine index is the index computed without wrap-around.\<close>

lemma chunkCoordinateToIndexW_fit:
  assumes a: "allocatable w b"
  shows "chunkCoordinateToIndexW w cx cy cz b = chunkCoordinateToIndex cx cy cz b"
proof (cases "in_bounds b cx cy cz")
  case False
  then show ?thesis
    by (auto simp: in_bounds_def chunkCoordinateToIndexW_def chunkCoordinateToIndex_def)
next
  case True
  let ?xs = "nat (xmax b - xmin b + 1)"
  let ?ys = "nat (ymax b - ymin b + 1)" and ?zs = "nat (zmax b - zmin b + 1)"
  let ?ox = "nat (cx - xmin b)" and ?oy = "nat (cy - ymin b)" and ?oz = "nat (cz - zmin b)"
  let ?i = "(?ox * ?ys + ?oy) * ?zs + ?oz"
  have t: "totalChunks b < 2 ^ w" using a by (simp add: allocatable_def)
  have i: "chunkCoordinateToIndex cx cy cz b = Some ?i"
    using True by (rule index_in_bounds)
  then have lt: "?i < 2 ^ w" using index_lt_total[OF i] t by simp
  have zs: "1 \<le> ?zs" using True unfolding in_bounds_def by linarith
  have "(?ox * ?ys + ?oy) * 1 \<le> (?ox * ?ys + ?oy) * ?zs"
    by (rule mult_le_mono2[OF zs])
  then have "?ox * ?ys + ?oy \<le> (?ox * ?ys + ?oy) * ?zs"
    by (simp only: mult.right_neutral)
  then have m: "?ox * ?ys + ?oy \<le> ?i" by (rule trans_le_add1)
  have s1: "(?ox * ?ys + ?oy) * ?zs < 2 ^ w" using lt by linarith
  have s2: "?ox * ?ys + ?oy < 2 ^ w" using m lt by linarith
  have s3: "?ox * ?ys < 2 ^ w" using s2 by linarith
  have le: "?ox \<le> ?i" "?oy \<le> ?i" "?oz \<le> ?i"
  proof -
    have ys: "1 \<le> ?ys" using True unfolding in_bounds_def by linarith
    have "?ox * 1 \<le> ?ox * ?ys" by (rule mult_le_mono2[OF ys])
    then have "?ox \<le> ?ox * ?ys" by (simp only: mult.right_neutral)
    then show "?ox \<le> ?i" using m by linarith
    show "?oy \<le> ?i" using m by linarith
    show "?oz \<le> ?i" by (rule le_add2)
  qed
  have nn: "0 \<le> cx - xmin b" "0 \<le> cy - ymin b" "0 \<le> cz - zmin b"
    using True unfolding in_bounds_def by linarith+
  have o: "to_size_t w (cx - xmin b) = ?ox" "to_size_t w (cy - ymin b) = ?oy"
      "to_size_t w (cz - zmin b) = ?oz"
    using nn le_less_trans[OF le(1) lt] le_less_trans[OF le(2) lt] le_less_trans[OF le(3) lt]
    by (simp_all only: to_size_t_fit)
  have "chunkCoordinateToIndexW w cx cy cz b = Some ?i"
    using True
    by (simp add: chunkCoordinateToIndexW_def in_bounds_def Let_def extents_fit[OF a] o
        size_mul_fit[OF s3] size_add_fit[OF s2] size_mul_fit[OF s1] size_add_fit[OF lt]
        not_less[symmetric])
  then show ?thesis using i by simp
qed

lemma chunkIndexToCoordinateW_fit:
  assumes a: "allocatable w b" and i: "i < totalChunks b"
  shows "chunkIndexToCoordinateW w i b = Some (chunkIndexToCoordinate i b)"
proof -
  let ?ys = "nat (ymax b - ymin b + 1)" and ?zs = "nat (zmax b - zmin b + 1)"
  have im: "int (totalChunks b) \<le> INT_MAX" using a by (simp add: allocatable_def)
  have small: "to_int n = int n" if "n \<le> i" for n
  proof (rule to_int_fit)
    have "int n \<le> int (totalChunks b)" using that i by simp
    then show "int n \<le> INT_MAX" using im by simp
  qed
  have d: "i div (?ys * ?zs) \<le> i" by (rule div_le_dividend)
  have r: "i mod (?ys * ?zs) div ?zs \<le> i"
    using div_le_dividend[of "i mod (?ys * ?zs)" ?zs] mod_less_eq_dividend[of i "?ys * ?zs"]
    by (rule order_trans)
  have m: "i mod (?ys * ?zs) mod ?zs \<le> i"
    using mod_less_eq_dividend[of "i mod (?ys * ?zs)" ?zs] mod_less_eq_dividend[of i "?ys * ?zs"]
    by (rule order_trans)
  show ?thesis
    using extents_fit(5,6)[OF a]
    by (simp add: chunkIndexToCoordinateW_def chunkIndexToCoordinate_def Let_def
        extents_fit(1-4)[OF a] small[OF d] small[OF r] small[OF m])
qed

lemma newChunkW_fit:
  assumes a: "allocatable w b" and i: "i < totalChunks b"
  shows "newChunkW w b i = Some (newChunk b i)"
proof -
  have "int i \<le> INT_MAX" using a i by (simp add: allocatable_def)
  then have "to_int i = int i" by (rule to_int_fit)
  then show ?thesis
    by (simp add: newChunkW_def newChunk_def chunkIndexToCoordinateW_fit[OF a i] Let_def
        split: prod.split)
qed

lemma those_map_Some:
  "(\<And>x. x \<in> set xs \<Longrightarrow> f x = Some (g x)) \<Longrightarrow> those (map f xs) = Some (map g xs)"
  by (induction xs) simp_all

lemma total_fit:
  assumes a: "allocatable w b"
  shows "size_mul w (size_mul w (nat (xmax b - xmin b + 1)) (nat (ymax b - ymin b + 1)))
           (nat (zmax b - zmin b + 1)) = totalChunks b"
proof -
  have "totalChunks b < 2 ^ w" using a by (simp add: allocatable_def)
  then show ?thesis
    by (simp add: size_mul_def totalChunks_def mod_mult_left_eq)
qed

text \<open>
  On allocatable bounds \<open>initVoxels\<close> in machine arithmetic returns the world of
  \<open>initVoxels\<close>.
\<close>

lemma initVoxelsW_fit:
  assumes a: "allocatable w \<lparr> xmin = x0, xmax = x1, ymin = y0, ymax = y1, zmin = z0, zmax = z1 \<rparr>"
  shows "initVoxelsW w x0 x1 y0 y1 z0 z1 = Some (initVoxels x0 x1 y0 y1 z0 z1)"
proof -
  let ?b = "\<lparr> xmin = x0, xmax = x1, ymin = y0, ymax = y1, zmin = z0, zmax = z1 \<rparr>"
  have t: "size_mul w (size_mul w (nat (x1 - x0 + 1)) (nat (y1 - y0 + 1))) (nat (z1 - z0 + 1))
             = totalChunks ?b"
    using total_fit[OF a] by simp
  have e: "to_size_t w (x1 - x0 + 1) = nat (x1 - x0 + 1)"
      "to_size_t w (y1 - y0 + 1) = nat (y1 - y0 + 1)"
      "to_size_t w (z1 - z0 + 1) = nat (z1 - z0 + 1)"
    using extents_fit(1-3)[OF a] by simp_all
  have al: "\<not> 2 ^ w \<le> totalChunks ?b * (w div 8)"
    using a by (simp add: allocatable_def not_le)
  have th: "those (map (newChunkW w ?b) [0..<totalChunks ?b]) = Some (map (newChunk ?b) [0..<totalChunks ?b])"
    by (rule those_map_Some) (simp add: newChunkW_fit[OF a])
  have tc: "totalChunks ?b = nat (x1 - x0 + 1) * nat (y1 - y0 + 1) * nat (z1 - z0 + 1)"
    by (simp add: totalChunks_def)
  show ?thesis
    unfolding initVoxelsW_def Let_def e t
    using al th by (simp add: initVoxels_def Let_def tc)
qed


subsection \<open>The round trip of the chunk index\<close>

text \<open>
  C10, as the code has it. On bounds whose world the machine can hold (no inverted axis,
  the chunk count an \<^verbatim>\<open>int\<close> that fits the \<open>w\<close>-bit \<^verbatim>\<open>size_t\<close> together with the byte size of the
  pointer array), \<open>chunkIndexToCoordinate\<close> inverts \<open>chunkCoordinateToIndex\<close> at every
  coordinate within the bounds, \<open>initVoxels\<close> returns a world with one chunk per coordinate,
  and every chunk carries its array position as \<open>id\<close> and the coordinate that maps back to
  that position. All functions are the ones in machine arithmetic.
\<close>

theorem chunk_index_roundtrip:
  assumes "allocatable w b"
  shows "(in_bounds b cx cy cz \<longrightarrow>
            (\<exists>i. chunkCoordinateToIndexW w cx cy cz b = Some i \<and>
                 chunkIndexToCoordinateW w i b = Some (cx, cy, cz)))
       \<and> (\<exists>world. initVoxelsW w (xmin b) (xmax b) (ymin b) (ymax b) (zmin b) (zmax b) = Some world
              \<and> bounds world = b \<and> length (chunks world) = totalChunks b
              \<and> (\<forall>k < length (chunks world).
                    chunk_id (chunks world ! k) = int k \<and>
                    chunkCoordinateToIndexW w (chunk_x (chunks world ! k)) (chunk_y (chunks world ! k))
                        (chunk_z (chunks world ! k)) (bounds world) = Some k))"
proof (intro conjI impI)
  assume ib: "in_bounds b cx cy cz"
  then obtain i where i: "chunkCoordinateToIndex cx cy cz b = Some i"
    using index_Some_iff by blast
  with ib have c: "chunkIndexToCoordinate i b = (cx, cy, cz)"
    by (rule coordinate_of_index)
  have "chunkCoordinateToIndexW w cx cy cz b = Some i"
    using i by (simp add: chunkCoordinateToIndexW_fit[OF assms])
  moreover have "chunkIndexToCoordinateW w i b = Some (cx, cy, cz)"
    using chunkIndexToCoordinateW_fit[OF assms index_lt_total[OF i]] c by simp
  ultimately show "\<exists>i. chunkCoordinateToIndexW w cx cy cz b = Some i \<and>
                      chunkIndexToCoordinateW w i b = Some (cx, cy, cz)"
    by blast
next
  let ?w = "initVoxels (xmin b) (xmax b) (ymin b) (ymax b) (zmin b) (zmax b)"
  have rb: "\<lparr> xmin = xmin b, xmax = xmax b, ymin = ymin b, ymax = ymax b,
               zmin = zmin b, zmax = zmax b \<rparr> = b"
    by simp
  have bw: "bounds ?w = b" by (simp add: bounds_initVoxels)
  have init: "initVoxelsW w (xmin b) (xmax b) (ymin b) (ymax b) (zmin b) (zmax b) = Some ?w"
    by (rule initVoxelsW_fit) (simp only: rb assms)
  have len: "length (chunks ?w) = totalChunks b"
    using length_initVoxels[of "xmin b" "xmax b" "ymin b" "ymax b" "zmin b" "zmax b"] bw by simp
  have each: "chunk_id (chunks ?w ! k) = int k \<and>
              chunkCoordinateToIndexW w (chunk_x (chunks ?w ! k)) (chunk_y (chunks ?w ! k))
                  (chunk_z (chunks ?w ! k)) (bounds ?w) = Some k"
    if k: "k < length (chunks ?w)" for k
  proof -
    have tot: "k < totalChunks b" using k len by simp
    have c: "chunks ?w ! k = newChunk b k"
      using nth_initVoxels[OF k] bw by simp
    obtain x y z where xyz: "chunkIndexToCoordinate k b = (x, y, z)"
      by (cases "chunkIndexToCoordinate k b") auto
    have "chunkCoordinateToIndex x y z b = Some k"
      using index_of_coordinate[OF tot] xyz by simp
    then have "chunkCoordinateToIndexW w x y z b = Some k"
      by (simp add: chunkCoordinateToIndexW_fit[OF assms])
    moreover have "chunk_x (newChunk b k) = x" "chunk_y (newChunk b k) = y"
        "chunk_z (newChunk b k) = z"
      using newChunk_fields(6)[of b k] xyz by simp_all
    ultimately show ?thesis
      by (simp add: c bw newChunk_fields(5))
  qed
  show "\<exists>world. initVoxelsW w (xmin b) (xmax b) (ymin b) (ymax b) (zmin b) (zmax b) = Some world
              \<and> bounds world = b \<and> length (chunks world) = totalChunks b
              \<and> (\<forall>k < length (chunks world).
                    chunk_id (chunks world ! k) = int k \<and>
                    chunkCoordinateToIndexW w (chunk_x (chunks world ! k)) (chunk_y (chunks world ! k))
                        (chunk_z (chunks world ! k)) (bounds world) = Some k)"
    using init bw len each by blast
qed

theorem chunk_index_roundtrip_witness:
  "allocatable 32 \<lparr>xmin = - 1, xmax = 1, ymin = 0, ymax = 2, zmin = - 2, zmax = 0\<rparr>
   \<and> in_bounds \<lparr>xmin = - 1, xmax = 1, ymin = 0, ymax = 2, zmin = - 2, zmax = 0\<rparr> 1 2 (- 1)
   \<and> chunkCoordinateToIndexW 32 1 2 (- 1)
        \<lparr>xmin = - 1, xmax = 1, ymin = 0, ymax = 2, zmin = - 2, zmax = 0\<rparr> = Some 25
   \<and> chunkIndexToCoordinateW 32 25
        \<lparr>xmin = - 1, xmax = 1, ymin = 0, ymax = 2, zmin = - 2, zmax = 0\<rparr> = Some (1, 2, - 1)
   \<and> (\<exists>world. initVoxelsW 32 (- 1) 1 0 2 (- 2) 0 = Some world
         \<and> length (chunks world) = 27
         \<and> chunk_id (chunks world ! 25) = 25
         \<and> chunkCoordinateToIndexW 32 (chunk_x (chunks world ! 25)) (chunk_y (chunks world ! 25))
              (chunk_z (chunks world ! 25)) (bounds world) = Some 25)"
proof -
  let ?b = "\<lparr>xmin = - 1, xmax = 1, ymin = 0, ymax = 2, zmin = - 2, zmax = 0\<rparr>"
  have al: "allocatable 32 ?b"
    by (simp add: allocatable_def totalChunks_def INT_MAX_def)
  have ib: "in_bounds ?b 1 2 (- 1)"
    by (simp add: in_bounds_def)
  have idx: "chunkCoordinateToIndexW 32 1 2 (- 1) ?b = Some 25"
    by (simp add: chunkCoordinateToIndexW_def to_size_t_def size_mul_def size_add_def Let_def)
  have tot: "totalChunks ?b = 27" by (simp add: totalChunks_def)
  note rt = chunk_index_roundtrip[OF al, of 1 2 "- 1"]
  from rt ib idx have dec: "chunkIndexToCoordinateW 32 25 ?b = Some (1, 2, - 1)"
    by auto
  from rt obtain world where w: "initVoxelsW 32 (- 1) 1 0 2 (- 2) 0 = Some world"
      "length (chunks world) = 27"
      "\<forall>k < length (chunks world).
          chunk_id (chunks world ! k) = int k \<and>
          chunkCoordinateToIndexW 32 (chunk_x (chunks world ! k)) (chunk_y (chunks world ! k))
              (chunk_z (chunks world ! k)) (bounds world) = Some k"
    unfolding tot by auto
  have "chunk_id (chunks world ! 25) = 25 \<and>
        chunkCoordinateToIndexW 32 (chunk_x (chunks world ! 25)) (chunk_y (chunks world ! 25))
              (chunk_z (chunks world ! 25)) (bounds world) = Some 25"
    using w(2,3) by simp
  with al ib idx dec w(1,2) show ?thesis by blast
qed

text \<open>
  C10, the claim as stated, fails on bounds whose chunk count exceeds \<^verbatim>\<open>size_t\<close>. With a
  32-bit \<^verbatim>\<open>size_t\<close> and the bounds \<open>y \<in> 0..65535\<close>, \<open>z \<in> 0..65536\<close> (\<open>min \<le> max\<close> on every
  axis) the coordinate \<open>(0, 65535, 65536)\<close> has index \<open>2 ^ 32 + 65535\<close>, stored as \<open>65535\<close>,
  which decodes to \<open>(0, 0, 65535)\<close>. With a 64-bit \<^verbatim>\<open>size_t\<close> and \<open>0..4194303\<close> on every axis
  the last coordinate has index \<open>2 ^ 66 - 1\<close>, stored as \<open>2 ^ 64 - 1\<close>, which decodes to
  \<open>(1048575, 4194303, 4194303)\<close>.
\<close>

theorem chunk_index_wraps:
  "in_bounds \<lparr>xmin = 0, xmax = 0, ymin = 0, ymax = 65535, zmin = 0, zmax = 65536\<rparr> 0 65535 65536
   \<and> chunkCoordinateToIndexW 32 0 65535 65536
        \<lparr>xmin = 0, xmax = 0, ymin = 0, ymax = 65535, zmin = 0, zmax = 65536\<rparr> = Some 65535
   \<and> chunkIndexToCoordinateW 32 65535
        \<lparr>xmin = 0, xmax = 0, ymin = 0, ymax = 65535, zmin = 0, zmax = 65536\<rparr>
       = Some (0, 0, 65535)
   \<and> in_bounds \<lparr>xmin = 0, xmax = 4194303, ymin = 0, ymax = 4194303, zmin = 0, zmax = 4194303\<rparr>
        4194303 4194303 4194303
   \<and> chunkCoordinateToIndexW 64 4194303 4194303 4194303
        \<lparr>xmin = 0, xmax = 4194303, ymin = 0, ymax = 4194303, zmin = 0, zmax = 4194303\<rparr>
       = Some (2 ^ 64 - 1)
   \<and> chunkIndexToCoordinateW 64 (2 ^ 64 - 1)
        \<lparr>xmin = 0, xmax = 4194303, ymin = 0, ymax = 4194303, zmin = 0, zmax = 4194303\<rparr>
       = Some (1048575, 4194303, 4194303)"
proof -
  have a: "in_bounds \<lparr>xmin = 0, xmax = 0, ymin = 0, ymax = 65535, zmin = 0, zmax = 65536\<rparr> 0 65535 65536"
    by (simp add: in_bounds_def)
  have b: "chunkCoordinateToIndexW 32 0 65535 65536
        \<lparr>xmin = 0, xmax = 0, ymin = 0, ymax = 65535, zmin = 0, zmax = 65536\<rparr> = Some 65535"
    by (simp add: chunkCoordinateToIndexW_def to_size_t_def size_mul_def size_add_def Let_def)
  have c: "chunkIndexToCoordinateW 32 65535
        \<lparr>xmin = 0, xmax = 0, ymin = 0, ymax = 65535, zmin = 0, zmax = 65536\<rparr>
       = Some (0, 0, 65535)"
    by (simp add: chunkIndexToCoordinateW_def to_size_t_def size_mul_def to_int_def Let_def)
  have d: "in_bounds \<lparr>xmin = 0, xmax = 4194303, ymin = 0, ymax = 4194303, zmin = 0, zmax = 4194303\<rparr>
        4194303 4194303 4194303"
    by (simp add: in_bounds_def)
  have e: "chunkCoordinateToIndexW 64 4194303 4194303 4194303
        \<lparr>xmin = 0, xmax = 4194303, ymin = 0, ymax = 4194303, zmin = 0, zmax = 4194303\<rparr>
       = Some (2 ^ 64 - 1)"
    by (simp add: chunkCoordinateToIndexW_def to_size_t_def size_mul_def size_add_def Let_def)
  have f: "chunkIndexToCoordinateW 64 (2 ^ 64 - 1)
        \<lparr>xmin = 0, xmax = 4194303, ymin = 0, ymax = 4194303, zmin = 0, zmax = 4194303\<rparr>
       = Some (1048575, 4194303, 4194303)"
    by (simp add: chunkIndexToCoordinateW_def to_size_t_def size_mul_def to_int_def Let_def)
  from a b c d e f show ?thesis by blast
qed

text \<open>
  Inverted bounds in machine arithmetic: an extent of \<open>-1\<close> is the \<^verbatim>\<open>size_t\<close> \<open>2 ^ 32 - 1\<close>. One
  such axis makes the pointer array too large to allocate; two of them multiply to a chunk
  count of 1.
\<close>

lemma initVoxelsW_inverted_axis: "initVoxelsW 32 0 (- 2) 0 0 0 0 = None"
  by (simp add: initVoxelsW_def to_size_t_def size_mul_def Let_def)

lemma initVoxelsW_two_inverted_axes:
  "map_option (length \<circ> chunks) (initVoxelsW 32 0 (- 2) 0 (- 2) 0 0) = Some 1"
  by (simp add: initVoxelsW_def to_size_t_def size_mul_def Let_def newChunkW_def
      chunkIndexToCoordinateW_def)

subsection \<open>Meshing\<close>

lemma foldOpt_append:
  "foldOpt f (xs @ ys) s = (case foldOpt f xs s of None \<Rightarrow> None | Some s' \<Rightarrow> foldOpt f ys s')"
  by (induction xs arbitrary: s) (simp_all split: option.split)

text \<open>A loop whose body adds \<open>t k\<close> to a counter that must stay below a capacity.\<close>

lemma foldOpt_count:
  fixes cnt :: "'s \<Rightarrow> nat" and t :: "nat \<Rightarrow> nat" and cap :: nat
  assumes step: "\<And>k s. k < n \<Longrightarrow> good s \<Longrightarrow> cnt s + t k \<le> cap \<Longrightarrow>
                    \<exists>s'. F k s = Some s' \<and> good s' \<and> cnt s' = cnt s + t k"
    and "good s" and "cnt s + sum_list (map t [0..<n]) \<le> cap"
  shows "\<exists>s'. foldOpt F [0..<n] s = Some s' \<and> good s' \<and> cnt s' = cnt s + sum_list (map t [0..<n])"
proof -
  have "m \<le> n \<Longrightarrow> cnt s + sum_list (map t [0..<m]) \<le> cap \<Longrightarrow>
        \<exists>s'. foldOpt F [0..<m] s = Some s' \<and> good s' \<and> cnt s' = cnt s + sum_list (map t [0..<m])" for m
  proof (induction m)
    case 0
    then show ?case using assms(2) by simp
  next
    case (Suc m)
    have "cnt s + sum_list (map t [0..<m]) \<le> cap" using Suc.prems(2) by simp
    then obtain s1 where s1: "foldOpt F [0..<m] s = Some s1" "good s1"
        "cnt s1 = cnt s + sum_list (map t [0..<m])"
      using Suc.IH Suc.prems(1) by auto
    have "cnt s1 + t m \<le> cap" using s1(3) Suc.prems(2) by simp
    then obtain s2 where s2: "F m s1 = Some s2" "good s2" "cnt s2 = cnt s1 + t m"
      using step[of m s1] Suc.prems(1) s1(2) by auto
    show ?case
      using s1 s2 by (simp add: foldOpt_append)
  qed
  then show ?thesis using assms(3) by simp
qed

lemma pushPositions:
  assumes "positionsCount g + length vs \<le> length (positions g)"
  shows "\<exists>g'. foldOpt pushPosition vs g = Some g' \<and>
           positionsCount g' = positionsCount g + length vs \<and>
           length (positions g') = length (positions g) \<and>
           (\<forall>j. positionsCount g + length vs \<le> j \<longrightarrow> positions g' ! j = positions g ! j) \<and>
           normals g' = normals g \<and> normalsCount g' = normalsCount g \<and>
           colors g' = colors g \<and> colorsCount g' = colorsCount g"
  using assms
proof (induction vs arbitrary: g)
  case Nil
  then show ?case by simp
next
  case (Cons v vs)
  let ?g1 = "g\<lparr>positions := (positions g)[positionsCount g := v],
                 positionsCount := positionsCount g + 1\<rparr>"
  have p: "pushPosition v g = Some ?g1"
    using Cons.prems by (simp add: pushPosition_def)
  have "positionsCount ?g1 + length vs \<le> length (positions ?g1)"
    using Cons.prems by simp
  from Cons.IH[OF this] obtain g' where g': "foldOpt pushPosition vs ?g1 = Some g'"
      "positionsCount g' = positionsCount ?g1 + length vs"
      "length (positions g') = length (positions ?g1)"
      "\<forall>j. positionsCount ?g1 + length vs \<le> j \<longrightarrow> positions g' ! j = positions ?g1 ! j"
      "normals g' = normals ?g1" "normalsCount g' = normalsCount ?g1"
      "colors g' = colors ?g1" "colorsCount g' = colorsCount ?g1"
    by blast
  have "foldOpt pushPosition (v # vs) g = Some g'" using p g'(1) by simp
  moreover have "\<forall>j. positionsCount g + length (v # vs) \<le> j \<longrightarrow> positions g' ! j = positions g ! j"
    using g'(4) by simp
  ultimately show ?case using g'(2,3,5,6,7,8) by simp
qed

lemma pushNormals:
  assumes "normalsCount g + length vs \<le> length (normals g)"
  shows "\<exists>g'. foldOpt pushNormal vs g = Some g' \<and>
           normalsCount g' = normalsCount g + length vs \<and>
           length (normals g') = length (normals g) \<and>
           (\<forall>j. normalsCount g + length vs \<le> j \<longrightarrow> normals g' ! j = normals g ! j) \<and>
           positions g' = positions g \<and> positionsCount g' = positionsCount g \<and>
           colors g' = colors g \<and> colorsCount g' = colorsCount g"
  using assms
proof (induction vs arbitrary: g)
  case Nil
  then show ?case by simp
next
  case (Cons v vs)
  let ?g1 = "g\<lparr>normals := (normals g)[normalsCount g := v],
                 normalsCount := normalsCount g + 1\<rparr>"
  have p: "pushNormal v g = Some ?g1"
    using Cons.prems by (simp add: pushNormal_def)
  have "normalsCount ?g1 + length vs \<le> length (normals ?g1)"
    using Cons.prems by simp
  from Cons.IH[OF this] obtain g' where g': "foldOpt pushNormal vs ?g1 = Some g'"
      "normalsCount g' = normalsCount ?g1 + length vs"
      "length (normals g') = length (normals ?g1)"
      "\<forall>j. normalsCount ?g1 + length vs \<le> j \<longrightarrow> normals g' ! j = normals ?g1 ! j"
      "positions g' = positions ?g1" "positionsCount g' = positionsCount ?g1"
      "colors g' = colors ?g1" "colorsCount g' = colorsCount ?g1"
    by blast
  have "foldOpt pushNormal (v # vs) g = Some g'" using p g'(1) by simp
  moreover have "\<forall>j. normalsCount g + length (v # vs) \<le> j \<longrightarrow> normals g' ! j = normals g ! j"
    using g'(4) by simp
  ultimately show ?case using g'(2,3,5,6,7,8) by simp
qed

lemma pushColors:
  assumes "colorsCount g + length vs \<le> length (colors g)"
  shows "\<exists>g'. foldOpt pushColor vs g = Some g' \<and>
           colorsCount g' = colorsCount g + length vs \<and>
           length (colors g') = length (colors g) \<and>
           (\<forall>j. colorsCount g + length vs \<le> j \<longrightarrow> colors g' ! j = colors g ! j) \<and>
           positions g' = positions g \<and> positionsCount g' = positionsCount g \<and>
           normals g' = normals g \<and> normalsCount g' = normalsCount g"
  using assms
proof (induction vs arbitrary: g)
  case Nil
  then show ?case by simp
next
  case (Cons v vs)
  let ?g1 = "g\<lparr>colors := (colors g)[colorsCount g := v],
                 colorsCount := colorsCount g + 1\<rparr>"
  have p: "pushColor v g = Some ?g1"
    using Cons.prems by (simp add: pushColor_def)
  have "colorsCount ?g1 + length vs \<le> length (colors ?g1)"
    using Cons.prems by simp
  from Cons.IH[OF this] obtain g' where g': "foldOpt pushColor vs ?g1 = Some g'"
      "colorsCount g' = colorsCount ?g1 + length vs"
      "length (colors g') = length (colors ?g1)"
      "\<forall>j. colorsCount ?g1 + length vs \<le> j \<longrightarrow> colors g' ! j = colors ?g1 ! j"
      "positions g' = positions ?g1" "positionsCount g' = positionsCount ?g1"
      "normals g' = normals ?g1" "normalsCount g' = normalsCount ?g1"
    by blast
  have "foldOpt pushColor (v # vs) g = Some g'" using p g'(1) by simp
  moreover have "\<forall>j. colorsCount g + length (v # vs) \<le> j \<longrightarrow> colors g' ! j = colors g ! j"
    using g'(4) by simp
  ultimately show ?case using g'(2,3,5,6,7,8) by simp
qed

text \<open>One triangle: 27 writes inside the arrays, nine below each new counter.\<close>

lemma emitTriangle_appended:
  assumes a: "appendedTo g0 g"
    and cap: "cap \<le> length (positions g0)" "cap \<le> length (normals g0)" "cap \<le> length (colors g0)"
    and room: "positionsCount g + 9 \<le> cap"
  shows "\<exists>g'. emitTriangle p0 p1 p2 g = Some g' \<and> appendedTo g0 g' \<and>
              positionsCount g' = positionsCount g + 9"
proof -
  obtain p0x p0y p0z p1x p1y p1z p2x p2y p2z where
    p: "e_position p0 = (p0x, p0y, p0z)" "e_position p1 = (p1x, p1y, p1z)"
       "e_position p2 = (p2x, p2y, p2z)"
    by (metis prod_cases3)
  obtain nx ny nz where
    n: "computeNormal (p0x, p0y, p0z) (p1x, p1y, p1z) (p2x, p2y, p2z) = (nx, ny, nz)"
    by (metis prod_cases3)
  let ?ps = "[p0x, p0y, p0z, p1x, p1y, p1z, p2x, p2y, p2z]"
  let ?ns = "[nx, ny, nz, nx, ny, nz, nx, ny, nz]"
  let ?cs = "[e_r p0, e_g p0, e_b p0, e_r p1, e_g p1, e_b p1, e_r p2, e_g p2, e_b p2]"
  have len: "length (positions g) = length (positions g0)" "length (normals g) = length (normals g0)"
      "length (colors g) = length (colors g0)"
    and cnt: "normalsCount g = positionsCount g" "colorsCount g = positionsCount g"
    and keep: "\<And>j. j < length (positions g0) \<Longrightarrow> positionsCount g \<le> j \<Longrightarrow> positions g ! j = positions g0 ! j"
       "\<And>j. j < length (normals g0) \<Longrightarrow> positionsCount g \<le> j \<Longrightarrow> normals g ! j = normals g0 ! j"
       "\<And>j. j < length (colors g0) \<Longrightarrow> positionsCount g \<le> j \<Longrightarrow> colors g ! j = colors g0 ! j"
    using a by (simp_all add: appendedTo_def)
  have "positionsCount g + length ?ps \<le> length (positions g)"
    using room cap(1) len(1) by simp
  from pushPositions[OF this] obtain g1 where g1: "foldOpt pushPosition ?ps g = Some g1"
      "positionsCount g1 = positionsCount g + 9" "length (positions g1) = length (positions g)"
      "\<forall>j. positionsCount g + 9 \<le> j \<longrightarrow> positions g1 ! j = positions g ! j"
      "normals g1 = normals g" "normalsCount g1 = normalsCount g"
      "colors g1 = colors g" "colorsCount g1 = colorsCount g"
    by auto
  have "normalsCount g1 + length ?ns \<le> length (normals g1)"
    using room cap(2) len(2) g1(5,6) cnt(1) by simp
  from pushNormals[OF this] obtain g2 where g2: "foldOpt pushNormal ?ns g1 = Some g2"
      "normalsCount g2 = normalsCount g1 + 9" "length (normals g2) = length (normals g1)"
      "\<forall>j. normalsCount g1 + 9 \<le> j \<longrightarrow> normals g2 ! j = normals g1 ! j"
      "positions g2 = positions g1" "positionsCount g2 = positionsCount g1"
      "colors g2 = colors g1" "colorsCount g2 = colorsCount g1"
    by auto
  have "colorsCount g2 + length ?cs \<le> length (colors g2)"
    using room cap(3) len(3) g1(7,8) g2(7,8) cnt(2) by simp
  from pushColors[OF this] obtain g3 where g3: "foldOpt pushColor ?cs g2 = Some g3"
      "colorsCount g3 = colorsCount g2 + 9" "length (colors g3) = length (colors g2)"
      "\<forall>j. colorsCount g2 + 9 \<le> j \<longrightarrow> colors g3 ! j = colors g2 ! j"
      "positions g3 = positions g2" "positionsCount g3 = positionsCount g2"
      "normals g3 = normals g2" "normalsCount g3 = normalsCount g2"
    by auto
  have e: "emitTriangle p0 p1 p2 g = Some g3"
    by (simp only: emitTriangle_def p prod.case n g1(1) g2(1) g3(1) option.case)
  have c3: "positionsCount g3 = positionsCount g + 9"
    using g3(6) g2(6) g1(2) by simp
  have "appendedTo g0 g3"
    unfolding appendedTo_def
  proof (intro conjI allI impI)
    show "length (positions g3) = length (positions g0)" using g3(5) g2(5) g1(3) len(1) by simp
    show "length (normals g3) = length (normals g0)" using g3(7) g2(3) g1(5) len(2) by simp
    show "length (colors g3) = length (colors g0)" using g3(3) g2(7) g1(7) len(3) by simp
    show "normalsCount g3 = positionsCount g3" using g3(8) g2(2) g1(6) cnt(1) c3 by simp
    show "colorsCount g3 = positionsCount g3" using g3(2) g2(8) g1(8) cnt(2) c3 by simp
  next
    fix j assume j: "j < length (positions g0)" "positionsCount g3 \<le> j"
    then have "positions g1 ! j = positions g ! j" using g1(4) c3 by simp
    then show "positions g3 ! j = positions g0 ! j"
      using keep(1)[of j] j c3 g3(5) g2(5) by simp
  next
    fix j assume j: "j < length (normals g0)" "positionsCount g3 \<le> j"
    then have "normals g2 ! j = normals g1 ! j" using g2(4) c3 g1(6) cnt(1) by simp
    then show "normals g3 ! j = normals g0 ! j"
      using keep(2)[of j] j c3 g3(7) g1(5) by simp
  next
    fix j assume j: "j < length (colors g0)" "positionsCount g3 \<le> j"
    then have "colors g3 ! j = colors g2 ! j" using g3(4) c3 g2(8) g1(8) cnt(2) by simp
    then show "colors g3 ! j = colors g0 ! j"
      using keep(3)[of j] j c3 g2(7) g1(7) by simp
  qed
  with e c3 show ?thesis by blast
qed

text \<open>The triangle loop writes nine components per triangle that the row lists.\<close>

lemma emitTriangles_appended:
  assumes "appendedTo g0 g"
    and "cap \<le> length (positions g0)" "cap \<le> length (normals g0)" "cap \<le> length (colors g0)"
    and "positionsCount g + 9 * rowTriangles tri i \<le> cap"
  shows "\<exists>g'. emitTriangles tri ep i g = Some g' \<and> appendedTo g0 g' \<and>
              positionsCount g' = positionsCount g + 9 * rowTriangles tri i"
  using assms
proof (induction tri ep i g rule: emitTriangles.induct)
  case (1 tri ep i g)
  show ?case
  proof (cases "i < 16 \<and> tri ! i \<noteq> - 1")
    case False
    then have "emitTriangles tri ep i g = Some g" "rowTriangles tri i = 0"
      by (auto simp: emitTriangles.simps[of tri ep i g] rowTriangles.simps[of tri i])
    then show ?thesis using "1.prems"(1) by simp
  next
    case True
    have r: "rowTriangles tri i = 1 + rowTriangles tri (i + 3)"
      using True by (simp add: rowTriangles.simps[of tri i])
    let ?p0 = "ep ! nat (tri ! i)" and ?p1 = "ep ! nat (tri ! (i + 1))"
      and ?p2 = "ep ! nat (tri ! (i + 2))"
    have "positionsCount g + 9 \<le> cap" using "1.prems"(5) r by simp
    from emitTriangle_appended[OF "1.prems"(1,2,3,4) this, of ?p0 ?p1 ?p2]
    obtain g1 where g1: "emitTriangle ?p0 ?p1 ?p2 g = Some g1" "appendedTo g0 g1"
        "positionsCount g1 = positionsCount g + 9"
      by blast
    have "positionsCount g1 + 9 * rowTriangles tri (i + 3) \<le> cap"
      using "1.prems"(5) r g1(3) by simp
    from "1.IH"[OF _ _ g1(1) g1(2) "1.prems"(2,3,4) this] True
    obtain g' where g': "emitTriangles tri ep (i + 3) g1 = Some g'" "appendedTo g0 g'"
        "positionsCount g' = positionsCount g1 + 9 * rowTriangles tri (i + 3)"
      by auto
    have "emitTriangles tri ep i g = Some g'"
      using True g1(1) g'(1) by (simp add: emitTriangles.simps[of tri ep i g])
    then show ?thesis using g'(2,3) g1(3) r by simp
  qed
qed

text \<open>The samples that \<open>loadSamples\<close> builds from a filled grid are the corner samples.\<close>

lemma loadSamples_cellSamples:
  assumes g: "\<forall>ly \<le> 16. \<forall>lz \<le> 16. \<forall>lx \<le> 16.
         eng_gridBuffer e (ly, lz, lx) = getVoxelRelative w c (int lx) (int ly) (int lz)"
    and r: "lx < 16" "ly < 16" "lz < 16"
  shows "eng_samples (loadSamples lx ly lz e) = cellSamples w c lx ly lz"
proof -
  have s: "gridSample e x y z = cornerSample w c x y z" if "x \<le> 16" "y \<le> 16" "z \<le> 16" for x y z
    using g that by (simp add: gridSample_def cornerSample_def)
  show ?thesis
    using r by (simp add: loadSamples_def cellSamples_def s)
qed

lemma loadSamples_fields:
  "eng_world (loadSamples lx ly lz e) = eng_world e"
  "eng_gridBuffer (loadSamples lx ly lz e) = eng_gridBuffer e"
  "eng_geometry (loadSamples lx ly lz e) = eng_geometry e"
  "eng_edgePoints (loadSamples lx ly lz e) = eng_edgePoints e"
  by (simp_all add: loadSamples_def)

text \<open>One cell of the marching loop.\<close>

lemma meshCell_marching:
  assumes m: "marching w c g0 e"
    and cap: "cap \<le> length (positions g0)" "cap \<le> length (normals g0)" "cap \<le> length (colors g0)"
    and r: "lx < 16" "ly < 16" "lz < 16"
    and room: "positionsCount (eng_geometry e) + 9 * cellTriangles w c ly lz lx \<le> cap"
  shows "\<exists>e'. meshCell ly lz lx e = Some e' \<and> marching w c g0 e' \<and>
              positionsCount (eng_geometry e') =
                positionsCount (eng_geometry e) + 9 * cellTriangles w c ly lz lx"
proof -
  let ?e1 = "loadSamples lx ly lz e"
  let ?ci = "cubeIndexOf (cellSamples w c lx ly lz)"
  have grid: "\<forall>ly \<le> 16. \<forall>lz \<le> 16. \<forall>lx \<le> 16.
         eng_gridBuffer e (ly, lz, lx) = getVoxelRelative w c (int lx) (int ly) (int lz)"
    and wd: "eng_world e = w" and ap: "appendedTo g0 (eng_geometry e)"
    using m by (simp_all add: marching_def)
  have s: "eng_samples ?e1 = cellSamples w c lx ly lz"
    using grid r by (rule loadSamples_cellSamples)
  have m1: "marching w c g0 ?e1"
    using m by (simp add: marching_def loadSamples_fields)
  show ?thesis
  proof (cases "edgeTable ! ?ci = 0")
    case True
    then have "meshCell ly lz lx e = Some ?e1" "cellTriangles w c ly lz lx = 0"
      by (simp_all add: meshCell_def Let_def s cellTriangles_def)
    then show ?thesis using m1 by (simp add: loadSamples_fields)
  next
    case False
    let ?e2 = "?e1\<lparr>eng_edgePoints :=
                   fold (buildEdge (edgeTable ! ?ci) (eng_samples ?e1)) cubeEdges (eng_edgePoints ?e1)\<rparr>"
    have t: "cellTriangles w c ly lz lx = rowTriangles (triTable ! ?ci) 0"
      using False by (simp add: cellTriangles_def Let_def)
    have "positionsCount (eng_geometry e) + 9 * rowTriangles (triTable ! ?ci) 0 \<le> cap"
      using room t by simp
    from emitTriangles_appended[OF ap cap this, of "eng_edgePoints ?e2"]
    obtain g' where g': "emitTriangles (triTable ! ?ci) (eng_edgePoints ?e2) 0 (eng_geometry e) = Some g'"
        "appendedTo g0 g'"
        "positionsCount g' = positionsCount (eng_geometry e) + 9 * rowTriangles (triTable ! ?ci) 0"
      by blast
    have "meshCell ly lz lx e = Some (?e2\<lparr>eng_geometry := g'\<rparr>)"
      using False g'(1) by (simp add: meshCell_def Let_def s loadSamples_fields)
    moreover have "marching w c g0 (?e2\<lparr>eng_geometry := g'\<rparr>)"
      using m g'(2) by (simp add: marching_def loadSamples_fields)
    ultimately show ?thesis using g'(3) t by simp
  qed
qed

text \<open>The pre-sampling loops fill the grid and change nothing else.\<close>

lemma presample_fields:
  "eng_world (presample ci ly lz lx e) = eng_world e"
  "eng_geometry (presample ci ly lz lx e) = eng_geometry e"
  by (simp_all add: presample_def)

lemma presample_entry:
  "eng_gridBuffer (presample ci ly lz lx e) (ly', lz', lx') =
     (if (ly', lz', lx') = (ly, lz, lx)
      then getVoxelRelative (eng_world e) (chunks (eng_world e) ! ci) (int lx) (int ly) (int lz)
      else eng_gridBuffer e (ly', lz', lx'))"
  by (simp add: presample_def)

lemma presample_row:
  assumes "eng_world e = w \<and> eng_geometry e = g"
  shows "(eng_world (fold (presample ci ly lz) [0..<n] e) = w \<and>
          eng_geometry (fold (presample ci ly lz) [0..<n] e) = g) \<and>
         eng_gridBuffer (fold (presample ci ly lz) [0..<n] e) (ly', lz', lx') =
           (if \<exists>k<n. (ly', lz', lx') = (ly, lz, k)
            then getVoxelRelative w (chunks w ! ci) (int lx') (int ly') (int lz')
            else eng_gridBuffer e (ly', lz', lx'))"
proof (rule fold_upt_pointwise[where good = "\<lambda>e::Engine. eng_world e = w \<and> eng_geometry e = g"
      and obs = "\<lambda>e::Engine. eng_gridBuffer e (ly', lz', lx')"
      and T = "\<lambda>_. getVoxelRelative w (chunks w ! ci) (int lx') (int ly') (int lz')"
      and sel = "\<lambda>k. (ly', lz', lx') = (ly, lz, k)"])
  fix k and e :: Engine
  assume "k < n" and "eng_world e = w \<and> eng_geometry e = g"
  then show "(eng_world (presample ci ly lz k e) = w \<and> eng_geometry (presample ci ly lz k e) = g) \<and>
       eng_gridBuffer (presample ci ly lz k e) (ly', lz', lx') =
       (if (ly', lz', lx') = (ly, lz, k)
        then getVoxelRelative w (chunks w ! ci) (int lx') (int ly') (int lz')
        else eng_gridBuffer e (ly', lz', lx'))"
    by (auto simp: presample_fields presample_entry)
qed (simp_all add: assms)

lemma presample_slab:
  assumes "eng_world e = w \<and> eng_geometry e = g"
  shows "(eng_world (fold (\<lambda>lz. fold (presample ci ly lz) [0..<n]) [0..<n] e) = w \<and>
          eng_geometry (fold (\<lambda>lz. fold (presample ci ly lz) [0..<n]) [0..<n] e) = g) \<and>
         eng_gridBuffer (fold (\<lambda>lz. fold (presample ci ly lz) [0..<n]) [0..<n] e) (ly', lz', lx') =
           (if \<exists>k<n. ly' = ly \<and> lz' = k \<and> lx' < n
            then getVoxelRelative w (chunks w ! ci) (int lx') (int ly') (int lz')
            else eng_gridBuffer e (ly', lz', lx'))"
proof (rule fold_upt_pointwise[where good = "\<lambda>e::Engine. eng_world e = w \<and> eng_geometry e = g"
      and obs = "\<lambda>e::Engine. eng_gridBuffer e (ly', lz', lx')"
      and T = "\<lambda>_. getVoxelRelative w (chunks w ! ci) (int lx') (int ly') (int lz')"
      and sel = "\<lambda>k. ly' = ly \<and> lz' = k \<and> lx' < n"])
  fix k and e :: Engine
  assume "k < n" and e: "eng_world e = w \<and> eng_geometry e = g"
  have "(\<exists>j<n. (ly', lz', lx') = (ly, k, j)) = (ly' = ly \<and> lz' = k \<and> lx' < n)" by auto
  then show "(eng_world (fold (presample ci ly k) [0..<n] e) = w \<and>
        eng_geometry (fold (presample ci ly k) [0..<n] e) = g) \<and>
       eng_gridBuffer (fold (presample ci ly k) [0..<n] e) (ly', lz', lx') =
       (if ly' = ly \<and> lz' = k \<and> lx' < n
        then getVoxelRelative w (chunks w ! ci) (int lx') (int ly') (int lz')
        else eng_gridBuffer e (ly', lz', lx'))"
    using presample_row[OF e, of ci ly k n ly' lz' lx'] by simp
qed (simp_all add: assms)

lemma presample_volume:
  assumes "eng_world e = w \<and> eng_geometry e = g"
  shows "(eng_world (fold (\<lambda>ly. fold (\<lambda>lz. fold (presample ci ly lz) [0..<n]) [0..<n]) [0..<n] e) = w \<and>
          eng_geometry (fold (\<lambda>ly. fold (\<lambda>lz. fold (presample ci ly lz) [0..<n]) [0..<n]) [0..<n] e) = g) \<and>
         eng_gridBuffer (fold (\<lambda>ly. fold (\<lambda>lz. fold (presample ci ly lz) [0..<n]) [0..<n]) [0..<n] e)
             (ly', lz', lx') =
           (if \<exists>k<n. ly' = k \<and> lz' < n \<and> lx' < n
            then getVoxelRelative w (chunks w ! ci) (int lx') (int ly') (int lz')
            else eng_gridBuffer e (ly', lz', lx'))"
proof (rule fold_upt_pointwise[where good = "\<lambda>e::Engine. eng_world e = w \<and> eng_geometry e = g"
      and obs = "\<lambda>e::Engine. eng_gridBuffer e (ly', lz', lx')"
      and T = "\<lambda>_. getVoxelRelative w (chunks w ! ci) (int lx') (int ly') (int lz')"
      and sel = "\<lambda>k. ly' = k \<and> lz' < n \<and> lx' < n"])
  fix k and e :: Engine
  assume "k < n" and e: "eng_world e = w \<and> eng_geometry e = g"
  have "(\<exists>j<n. ly' = k \<and> lz' = j \<and> lx' < n) = (ly' = k \<and> lz' < n \<and> lx' < n)" by auto
  then show "(eng_world (fold (\<lambda>lz. fold (presample ci k lz) [0..<n]) [0..<n] e) = w \<and>
        eng_geometry (fold (\<lambda>lz. fold (presample ci k lz) [0..<n]) [0..<n] e) = g) \<and>
       eng_gridBuffer (fold (\<lambda>lz. fold (presample ci k lz) [0..<n]) [0..<n] e) (ly', lz', lx') =
       (if ly' = k \<and> lz' < n \<and> lx' < n
        then getVoxelRelative w (chunks w ! ci) (int lx') (int ly') (int lz')
        else eng_gridBuffer e (ly', lz', lx'))"
    using presample_slab[OF e, of ci k n ly' lz' lx'] by simp
qed (simp_all add: assms)

text \<open>After the reset and the pre-sampling the marching loop starts on an empty buffer.\<close>

lemma appendedTo_reset:
  "appendedTo g (g\<lparr>positionsCount := 0, normalsCount := 0, colorsCount := 0\<rparr>)"
  by (simp add: appendedTo_def)

lemma marching_start:
  fixes e :: Engine and ci :: nat
  defines "e0 \<equiv> e\<lparr>eng_geometry :=
                    (eng_geometry e)\<lparr>positionsCount := 0, normalsCount := 0, colorsCount := 0\<rparr>\<rparr>"
  defines "e1 \<equiv> fold (\<lambda>ly. fold (\<lambda>lz. fold (presample ci ly lz) [0..<17]) [0..<17]) [0..<17] e0"
  shows "marching (eng_world e) (chunks (eng_world e) ! ci) (eng_geometry e) e1"
    and "positionsCount (eng_geometry e1) = 0"
proof -
  let ?g = "(eng_geometry e)\<lparr>positionsCount := 0, normalsCount := 0, colorsCount := 0\<rparr>"
  have s: "eng_world e0 = eng_world e \<and> eng_geometry e0 = ?g"
    by (simp add: e0_def)
  note v = presample_volume[OF s, of ci 17, folded e1_def]
  have grid: "eng_gridBuffer e1 (ly, lz, lx) =
        getVoxelRelative (eng_world e) (chunks (eng_world e) ! ci) (int lx) (int ly) (int lz)"
    if "ly \<le> 16" "lz \<le> 16" "lx \<le> 16" for ly lz lx
  proof -
    have "\<exists>k<17. ly = k \<and> lz < 17 \<and> lx < 17" using that by simp
    then show ?thesis using v[of ly lz lx] by simp
  qed
  have g: "eng_geometry e1 = ?g" and w: "eng_world e1 = eng_world e"
    using v[of 0 0 0] by simp_all
  show "marching (eng_world e) (chunks (eng_world e) ! ci) (eng_geometry e) e1"
    unfolding marching_def using grid w g appendedTo_reset by simp
  show "positionsCount (eng_geometry e1) = 0" using g by simp
qed

text \<open>The three marching loops, innermost first.\<close>

lemma march_row:
  assumes m: "marching w c g0 e"
    and cap: "cap \<le> length (positions g0)" "cap \<le> length (normals g0)" "cap \<le> length (colors g0)"
    and r: "ly < 16" "lz < 16"
    and room: "positionsCount (eng_geometry e) + (\<Sum>lx\<leftarrow>[0..<16]. 9 * cellTriangles w c ly lz lx) \<le> cap"
  shows "\<exists>e'. foldOpt (meshCell ly lz) [0..<16] e = Some e' \<and> marching w c g0 e' \<and>
              positionsCount (eng_geometry e') =
                positionsCount (eng_geometry e) + (\<Sum>lx\<leftarrow>[0..<16]. 9 * cellTriangles w c ly lz lx)"
proof (rule foldOpt_count[where good = "marching w c g0"
      and cnt = "\<lambda>e::Engine. positionsCount (eng_geometry e)" and cap = cap
      and t = "\<lambda>lx. 9 * cellTriangles w c ly lz lx"])
  fix k and s :: Engine
  assume "k < 16" "marching w c g0 s"
    "positionsCount (eng_geometry s) + 9 * cellTriangles w c ly lz k \<le> cap"
  then show "\<exists>s'. meshCell ly lz k s = Some s' \<and> marching w c g0 s' \<and>
       positionsCount (eng_geometry s') = positionsCount (eng_geometry s) + 9 * cellTriangles w c ly lz k"
    using meshCell_marching[OF _ cap _ r] by blast
qed (use m room in simp_all)

lemma march_slab:
  assumes m: "marching w c g0 e"
    and cap: "cap \<le> length (positions g0)" "cap \<le> length (normals g0)" "cap \<le> length (colors g0)"
    and r: "ly < 16"
    and room: "positionsCount (eng_geometry e) +
                 (\<Sum>lz\<leftarrow>[0..<16]. \<Sum>lx\<leftarrow>[0..<16]. 9 * cellTriangles w c ly lz lx) \<le> cap"
  shows "\<exists>e'. foldOpt (\<lambda>lz. foldOpt (meshCell ly lz) [0..<16]) [0..<16] e = Some e' \<and>
              marching w c g0 e' \<and>
              positionsCount (eng_geometry e') =
                positionsCount (eng_geometry e) +
                  (\<Sum>lz\<leftarrow>[0..<16]. \<Sum>lx\<leftarrow>[0..<16]. 9 * cellTriangles w c ly lz lx)"
proof (rule foldOpt_count[where good = "marching w c g0"
      and cnt = "\<lambda>e::Engine. positionsCount (eng_geometry e)" and cap = cap
      and t = "\<lambda>lz. \<Sum>lx\<leftarrow>[0..<16]. 9 * cellTriangles w c ly lz lx"])
  fix k and s :: Engine
  assume "k < 16" "marching w c g0 s"
    "positionsCount (eng_geometry s) + (\<Sum>lx\<leftarrow>[0..<16]. 9 * cellTriangles w c ly k lx) \<le> cap"
  then show "\<exists>s'. foldOpt (meshCell ly k) [0..<16] s = Some s' \<and> marching w c g0 s' \<and>
       positionsCount (eng_geometry s') =
         positionsCount (eng_geometry s) + (\<Sum>lx\<leftarrow>[0..<16]. 9 * cellTriangles w c ly k lx)"
    using march_row[OF _ cap r] by blast
qed (use m room in simp_all)

lemma march_volume:
  assumes m: "marching w c g0 e"
    and cap: "cap \<le> length (positions g0)" "cap \<le> length (normals g0)" "cap \<le> length (colors g0)"
    and room: "positionsCount (eng_geometry e) +
                 (\<Sum>ly\<leftarrow>[0..<16]. \<Sum>lz\<leftarrow>[0..<16]. \<Sum>lx\<leftarrow>[0..<16]. 9 * cellTriangles w c ly lz lx) \<le> cap"
  shows "\<exists>e'. foldOpt (\<lambda>ly. foldOpt (\<lambda>lz. foldOpt (meshCell ly lz) [0..<16]) [0..<16]) [0..<16] e = Some e' \<and>
              marching w c g0 e' \<and>
              positionsCount (eng_geometry e') =
                positionsCount (eng_geometry e) +
                  (\<Sum>ly\<leftarrow>[0..<16]. \<Sum>lz\<leftarrow>[0..<16]. \<Sum>lx\<leftarrow>[0..<16]. 9 * cellTriangles w c ly lz lx)"
proof (rule foldOpt_count[where good = "marching w c g0"
      and cnt = "\<lambda>e::Engine. positionsCount (eng_geometry e)" and cap = cap
      and t = "\<lambda>ly. \<Sum>lz\<leftarrow>[0..<16]. \<Sum>lx\<leftarrow>[0..<16]. 9 * cellTriangles w c ly lz lx"])
  fix k and s :: Engine
  assume "k < 16" "marching w c g0 s"
    "positionsCount (eng_geometry s) +
       (\<Sum>lz\<leftarrow>[0..<16]. \<Sum>lx\<leftarrow>[0..<16]. 9 * cellTriangles w c k lz lx) \<le> cap"
  then show "\<exists>s'. foldOpt (\<lambda>lz. foldOpt (meshCell k lz) [0..<16]) [0..<16] s = Some s' \<and>
       marching w c g0 s' \<and>
       positionsCount (eng_geometry s') =
         positionsCount (eng_geometry s) +
           (\<Sum>lz\<leftarrow>[0..<16]. \<Sum>lx\<leftarrow>[0..<16]. 9 * cellTriangles w c k lz lx)"
    using march_slab[OF _ cap] by blast
qed (use m room in simp_all)

text \<open>Facts of the tables: a cube index is below 256, and no row lists more than five triangles.\<close>

lemma solidBit_cases: "solidBit smp k = 0 \<or> solidBit smp k = 2 ^ k"
  by (simp add: solidBit_def)

lemma cubeIndexOf_lt: "cubeIndexOf samples < 256"
proof -
  have "solidBit (samples ! 0) 0 \<in> {0, 1}" "solidBit (samples ! 1) 1 \<in> {0, 2}"
    "solidBit (samples ! 2) 2 \<in> {0, 4}" "solidBit (samples ! 3) 3 \<in> {0, 8}"
    "solidBit (samples ! 4) 4 \<in> {0, 16}" "solidBit (samples ! 5) 5 \<in> {0, 32}"
    "solidBit (samples ! 6) 6 \<in> {0, 64}" "solidBit (samples ! 7) 7 \<in> {0, 128}"
    by (simp_all add: solidBit_def)
  then show ?thesis
    unfolding cubeIndexOf_def by (elim insertE emptyE) simp_all
qed

lemma length_triTable: "length triTable = 256"
  by (simp add: triTable_def)

lemma triTable_rows_all: "list_all (\<lambda>row. rowTriangles row 0 \<le> 5) triTable"
  by (simp add: triTable_def rowTriangles.simps)

lemma triTable_row: "ci < 256 \<Longrightarrow> rowTriangles (triTable ! ci) 0 \<le> 5"
  using triTable_rows_all by (simp add: list_all_length length_triTable)

lemma cellTriangles_le: "cellTriangles w c ly lz lx \<le> 5"
  by (simp add: cellTriangles_def Let_def triTable_row cubeIndexOf_lt)

lemma sum_list_upt_le:
  fixes f :: "nat \<Rightarrow> nat"
  assumes "\<And>k. k < n \<Longrightarrow> f k \<le> b"
  shows "sum_list (map f [0..<n]) \<le> n * b"
  using assms
proof (induction n)
  case 0
  then show ?case by simp
next
  case (Suc n)
  have "sum_list (map f [0..<n]) \<le> n * b" using Suc by simp
  moreover have "f n \<le> b" using Suc.prems by simp
  ultimately show ?case by simp
qed

lemma meshTriangles_le: "meshTriangles w c \<le> CHUNK_VOXELS * 5"
proof -
  have r: "(\<Sum>lx\<leftarrow>[0..<16]. cellTriangles w c ly lz lx) \<le> 16 * 5" for ly lz
    by (rule sum_list_upt_le) (rule cellTriangles_le)
  have s: "(\<Sum>lz\<leftarrow>[0..<16]. \<Sum>lx\<leftarrow>[0..<16]. cellTriangles w c ly lz lx) \<le> 16 * (16 * 5)" for ly
    by (rule sum_list_upt_le) (rule r)
  have "meshTriangles w c \<le> 16 * (16 * (16 * 5))"
    unfolding meshTriangles_def by (rule sum_list_upt_le) (rule s)
  then show ?thesis
    by (simp add: CHUNK_VOXELS_def CHUNK_SIZE_def CHUNK_BITS_def)
qed

lemma nine_meshTriangles:
  "(\<Sum>ly\<leftarrow>[0..<16]. \<Sum>lz\<leftarrow>[0..<16]. \<Sum>lx\<leftarrow>[0..<16]. 9 * cellTriangles w c ly lz lx)
     = 9 * meshTriangles w c"
  by (simp only: meshTriangles_def sum_list_const_mult)

text \<open>
  C9. \<open>mesh\<close> on a memory whose geometry arrays are allocated for the worst case returns
  (no write leaves the arrays) and leaves the world as it was: every chunk keeps its dirty
  flag, densities, colours and sum. The counters restart from zero whatever they were, all
  three end at nine components per triangle that the tables list for the cells of the
  chunk, within the worst-case size, and the arrays are changed below the counters only.
\<close>

theorem mesh_frame:
  assumes "CHUNK_GEOMETRY_WORST_CASE_COMPONENTS \<le> length (positions (eng_geometry e))"
    and "CHUNK_GEOMETRY_WORST_CASE_COMPONENTS \<le> length (normals (eng_geometry e))"
    and "CHUNK_GEOMETRY_WORST_CASE_COMPONENTS \<le> length (colors (eng_geometry e))"
  shows "\<exists>e'. mesh e ci = Some e'
       \<and> eng_world e' = eng_world e
       \<and> appendedTo (eng_geometry e) (eng_geometry e')
       \<and> positionsCount (eng_geometry e') = 9 * meshTriangles (eng_world e) (chunks (eng_world e) ! ci)
       \<and> positionsCount (eng_geometry e') \<le> CHUNK_GEOMETRY_WORST_CASE_COMPONENTS
       \<and> mesh (e\<lparr>eng_geometry :=
                   (eng_geometry e)\<lparr>positionsCount := p, normalsCount := n, colorsCount := k\<rparr>\<rparr>) ci
           = Some e'"
proof -
  let ?w = "eng_world e" and ?g0 = "eng_geometry e"
  let ?c = "chunks ?w ! ci"
  let ?e0 = "e\<lparr>eng_geometry := ?g0\<lparr>positionsCount := 0, normalsCount := 0, colorsCount := 0\<rparr>\<rparr>"
  let ?e1 = "fold (\<lambda>ly. fold (\<lambda>lz. fold (presample ci ly lz) [0..<17]) [0..<17]) [0..<17] ?e0"
  have m: "marching ?w ?c ?g0 ?e1" and z: "positionsCount (eng_geometry ?e1) = 0"
    by (rule marching_start)+
  have le: "9 * meshTriangles ?w ?c \<le> CHUNK_GEOMETRY_WORST_CASE_COMPONENTS"
    using meshTriangles_le[of ?w ?c]
    by (simp add: CHUNK_GEOMETRY_WORST_CASE_COMPONENTS_def CHUNK_GEOMETRY_WORST_CASE_VERTICES_def)
  have room: "positionsCount (eng_geometry ?e1) +
      (\<Sum>ly\<leftarrow>[0..<16]. \<Sum>lz\<leftarrow>[0..<16]. \<Sum>lx\<leftarrow>[0..<16]. 9 * cellTriangles ?w ?c ly lz lx)
        \<le> CHUNK_GEOMETRY_WORST_CASE_COMPONENTS"
    unfolding z nine_meshTriangles using le by simp
  from march_volume[OF m assms room] obtain e' where
    e': "foldOpt (\<lambda>ly. foldOpt (\<lambda>lz. foldOpt (meshCell ly lz) [0..<16]) [0..<16]) [0..<16] ?e1 = Some e'"
      "marching ?w ?c ?g0 e'"
      "positionsCount (eng_geometry e') = positionsCount (eng_geometry ?e1) +
         (\<Sum>ly\<leftarrow>[0..<16]. \<Sum>lz\<leftarrow>[0..<16]. \<Sum>lx\<leftarrow>[0..<16]. 9 * cellTriangles ?w ?c ly lz lx)"
    by blast
  have n16: "nat CHUNK_SIZE = 16" "SAMPLE_GRID_SIZE = 17"
    by (simp_all add: SAMPLE_GRID_SIZE_def CHUNK_SIZE_def CHUNK_BITS_def)
  have r: "mesh e ci = Some e'"
    unfolding mesh_def Let_def n16 by (rule e'(1))
  have cnt: "positionsCount (eng_geometry e') = 9 * meshTriangles ?w ?c"
    using e'(3) unfolding z nine_meshTriangles by simp
  have rs: "mesh (e\<lparr>eng_geometry := ?g0\<lparr>positionsCount := p, normalsCount := n, colorsCount := k\<rparr>\<rparr>) ci
           = Some e'"
    using e'(1) unfolding mesh_def Let_def n16 by simp
  show ?thesis
    using r e'(2) cnt le rs by (intro exI[of _ e']) (simp add: marching_def)
qed

subsection \<open>Meshing a chunk with one solid voxel\<close>

lemma single_bits:
  "edgeTable ! 0 = 0"
  "edgeTable ! 1 \<noteq> 0 \<and> rowTriangles (triTable ! 1) 0 = 1"
  "edgeTable ! 2 \<noteq> 0 \<and> rowTriangles (triTable ! 2) 0 = 1"
  "edgeTable ! 4 \<noteq> 0 \<and> rowTriangles (triTable ! 4) 0 = 1"
  "edgeTable ! 8 \<noteq> 0 \<and> rowTriangles (triTable ! 8) 0 = 1"
  "edgeTable ! 16 \<noteq> 0 \<and> rowTriangles (triTable ! 16) 0 = 1"
  "edgeTable ! 32 \<noteq> 0 \<and> rowTriangles (triTable ! 32) 0 = 1"
  "edgeTable ! 64 \<noteq> 0 \<and> rowTriangles (triTable ! 64) 0 = 1"
  "edgeTable ! 128 \<noteq> 0 \<and> rowTriangles (triTable ! 128) 0 = 1"
  by (simp_all add: edgeTable_def triTable_def rowTriangles.simps)

text \<open>
  The one-chunk world with the single solid voxel \<open>(5, 5, 5)\<close>: what \<open>getVoxelRelative\<close> reads
  at the corners \<open>0..16\<close> of the sample grid of its chunk.
\<close>

lemma single_corner:
  fixes x y z :: nat
  assumes "x \<le> 16" "y \<le> 16" "z \<le> 16"
  shows "getVoxelRelative (setVoxel (initVoxels 0 0 0 0 0 0) 5 5 5 255 10 20 30)
           (chunks (setVoxel (initVoxels 0 0 0 0 0 0) 5 5 5 255 10 20 30) ! 0) (int x) (int y) (int z)
         = (if (x, y, z) = (5, 5, 5) then (255, 10, 20, 30) else (0, 0, 0, 0))"
proof -
  let ?init = "initVoxels 0 0 0 0 0 0"
  let ?w = "setVoxel ?init 5 5 5 255 10 20 30"
  let ?c = "chunks ?w ! 0"
  have c5: "worldPositionToChunkCoordinates 5 5 5 = (0, 0, 0)"
    by (simp add: worldPositionToChunkCoordinates_def CHUNK_BITS_def)
  have l5: "worldPositionToChunkPosition 5 5 5 = (5, 5, 5)"
    by (simp add: worldPositionToChunkPosition_def CHUNK_MASK_def CHUNK_SIZE_def CHUNK_BITS_def)
  have ib: "in_bounds (bounds ?init) 0 0 0"
    by (simp add: in_bounds_def bounds_initVoxels)
  have k: "chunkCoordinateToIndex 0 0 0 (bounds ?init) = Some 0"
    by (simp add: chunkCoordinateToIndex_def bounds_initVoxels Let_def)
  have b: "bounds ?w = bounds ?init"
    by (rule setVoxel_effect(2)[OF wf_initVoxels c5 l5 k])
  have len: "0 < length (chunks ?init)"
    by (simp add: length_initVoxels totalChunks_def bounds_initVoxels)
  obtain S where S: "marks (?init\<lparr>chunks := (chunks ?init)
        [0 := writeVoxel (chunks ?init ! 0) (getVoxelIndex 5 5 5) 255 10 20 30]\<rparr>) S ?w"
    using setVoxel_effect(1)[OF wf_initVoxels c5 l5 k, of 255 10 20 30] by blast
  have xyz: "(chunk_x (chunks ?init ! 0), chunk_y (chunks ?init ! 0), chunk_z (chunks ?init ! 0))
      = (0, 0, 0)"
    using nth_initVoxels[OF len] newChunk_fields(6)[of "bounds ?init" 0]
    by (simp add: chunkIndexToCoordinate_def bounds_initVoxels Let_def)
  have co: "chunk_x ?c = 0" "chunk_y ?c = 0" "chunk_z ?c = 0"
    using marks_data(4,5,6)[OF S] len xyz by (simp_all add: writeVoxel_fields)
  have gv: "getVoxel ?w a b' c = (if (a, b', c) = (5, 5, 5) then (255, 10, 20, 30) else (0, 0, 0, 0))"
    for a b' c
    by (rule getVoxel_single[OF c5 ib])
  have "getVoxelRelative ?w ?c (int x) (int y) (int z) = getVoxel ?w (int x) (int y) (int z)"
  proof (cases "x < 16 \<and> y < 16 \<and> z < 16")
    case True
    then have d: "int x div 16 = 0" "int y div 16 = 0" "int z div 16 = 0"
      and m: "int x mod 16 = int x" "int y mod 16 = int y" "int z mod 16 = int z"
      by simp_all
    show ?thesis
      using True
      by (simp add: getVoxelRelative_def getVoxel_def worldPositionToChunkCoordinates_def
          worldPositionToChunkPosition_def CHUNK_MASK_def CHUNK_SIZE_def CHUNK_BITS_def d m b k
          Let_def)
  next
    case False
    then show ?thesis
      by (auto simp: getVoxelRelative_def co CHUNK_SIZE_def CHUNK_BITS_def Let_def)
  qed
  then show ?thesis
    unfolding gv by auto
qed

lemma single_cubeIndex:
  fixes lx ly lz :: nat
  assumes "lx < 16" "ly < 16" "lz < 16"
  shows "cubeIndexOf (cellSamples (setVoxel (initVoxels 0 0 0 0 0 0) 5 5 5 255 10 20 30)
           (chunks (setVoxel (initVoxels 0 0 0 0 0 0) 5 5 5 255 10 20 30) ! 0) lx ly lz)
         = (if (lx, ly, lz) = (5, 5, 5) then 1 else 0) OR
           (if (lx, ly + 1, lz) = (5, 5, 5) then 2 else 0) OR
           (if (lx + 1, ly + 1, lz) = (5, 5, 5) then 4 else 0) OR
           (if (lx + 1, ly, lz) = (5, 5, 5) then 8 else 0) OR
           (if (lx, ly, lz + 1) = (5, 5, 5) then 16 else 0) OR
           (if (lx, ly + 1, lz + 1) = (5, 5, 5) then 32 else 0) OR
           (if (lx + 1, ly + 1, lz + 1) = (5, 5, 5) then 64 else 0) OR
           (if (lx + 1, ly, lz + 1) = (5, 5, 5) then 128 else 0)"
proof -
  let ?w = "setVoxel (initVoxels 0 0 0 0 0 0) 5 5 5 255 10 20 30"
  have s: "solidBit (cornerSample ?w (chunks ?w ! 0) x y z) k
             = (if (x, y, z) = (5, 5, 5) then 2 ^ k else 0)"
    if "x \<le> 16" "y \<le> 16" "z \<le> 16" for x y z k
    using single_corner[OF that] by (simp add: solidBit_def cornerSample_def ISOLEVEL_def)
  show ?thesis
    using assms by (simp add: cubeIndexOf_def cellSamples_def s)
qed

lemma single_cellTriangles:
  fixes lx ly lz :: nat
  assumes "lx < 16" "ly < 16" "lz < 16"
  shows "cellTriangles (setVoxel (initVoxels 0 0 0 0 0 0) 5 5 5 255 10 20 30)
           (chunks (setVoxel (initVoxels 0 0 0 0 0 0) 5 5 5 255 10 20 30) ! 0) ly lz lx
         = (if (lx = 4 \<or> lx = 5) \<and> (ly = 4 \<or> ly = 5) \<and> (lz = 4 \<or> lz = 5) then 1 else 0)"
proof (cases "(lx = 4 \<or> lx = 5) \<and> (ly = 4 \<or> ly = 5) \<and> (lz = 4 \<or> lz = 5)")
  case True
  then show ?thesis
    unfolding cellTriangles_def Let_def single_cubeIndex[OF assms]
    by (elim conjE disjE) (simp_all add: single_bits single_bits(2)[unfolded One_nat_def])
next
  case False
  then have "(lx, ly, lz) \<noteq> (5, 5, 5)" "(lx, ly + 1, lz) \<noteq> (5, 5, 5)"
    "(lx + 1, ly + 1, lz) \<noteq> (5, 5, 5)" "(lx + 1, ly, lz) \<noteq> (5, 5, 5)"
    "(lx, ly, lz + 1) \<noteq> (5, 5, 5)" "(lx, ly + 1, lz + 1) \<noteq> (5, 5, 5)"
    "(lx + 1, ly + 1, lz + 1) \<noteq> (5, 5, 5)" "(lx + 1, ly, lz + 1) \<noteq> (5, 5, 5)"
    by auto
  then have "cubeIndexOf (cellSamples (setVoxel (initVoxels 0 0 0 0 0 0) 5 5 5 255 10 20 30)
           (chunks (setVoxel (initVoxels 0 0 0 0 0 0) 5 5 5 255 10 20 30) ! 0) lx ly lz) = 0"
    unfolding single_cubeIndex[OF assms] by (simp only: if_False) simp
  then have "cellTriangles (setVoxel (initVoxels 0 0 0 0 0 0) 5 5 5 255 10 20 30)
           (chunks (setVoxel (initVoxels 0 0 0 0 0 0) 5 5 5 255 10 20 30) ! 0) ly lz lx = 0"
    by (simp add: cellTriangles_def single_bits(1))
  then show ?thesis using False by simp
qed

lemma sum_list_upt_cong:
  fixes f g :: "nat \<Rightarrow> nat"
  assumes "\<And>k. k < n \<Longrightarrow> f k = g k"
  shows "sum_list (map f [0..<n]) = sum_list (map g [0..<n])"
  using assms by (intro arg_cong[where f = sum_list] map_cong) simp_all

lemma count_two: "(\<Sum>k\<leftarrow>[0..<16]. if (k = 4 \<or> k = 5) \<and> P then t else (0::nat)) = (if P then 2 * t else 0)"
  by (cases P) (simp_all add: upt_rec)

lemma single_meshTriangles:
  "meshTriangles (setVoxel (initVoxels 0 0 0 0 0 0) 5 5 5 255 10 20 30)
     (chunks (setVoxel (initVoxels 0 0 0 0 0 0) 5 5 5 255 10 20 30) ! 0) = 8"
proof -
  let ?w = "setVoxel (initVoxels 0 0 0 0 0 0) 5 5 5 255 10 20 30"
  let ?c = "chunks ?w ! 0"
  have row: "(\<Sum>lx\<leftarrow>[0..<16]. cellTriangles ?w ?c ly lz lx)
      = (if (ly = 4 \<or> ly = 5) \<and> (lz = 4 \<or> lz = 5) then 2 else 0)"
    if "ly < 16" "lz < 16" for ly lz
  proof -
    have "(\<Sum>lx\<leftarrow>[0..<16]. cellTriangles ?w ?c ly lz lx)
        = (\<Sum>lx\<leftarrow>[0..<16]. if (lx = 4 \<or> lx = 5) \<and> ((ly = 4 \<or> ly = 5) \<and> (lz = 4 \<or> lz = 5))
                              then 1 else 0)"
      by (rule sum_list_upt_cong) (simp add: single_cellTriangles that)
    then show ?thesis unfolding count_two by simp
  qed
  have slab: "(\<Sum>lz\<leftarrow>[0..<16]. \<Sum>lx\<leftarrow>[0..<16]. cellTriangles ?w ?c ly lz lx)
      = (if ly = 4 \<or> ly = 5 then 4 else 0)"
    if "ly < 16" for ly
  proof -
    have "(\<Sum>lz\<leftarrow>[0..<16]. \<Sum>lx\<leftarrow>[0..<16]. cellTriangles ?w ?c ly lz lx)
        = (\<Sum>lz\<leftarrow>[0..<16]. if (lz = 4 \<or> lz = 5) \<and> (ly = 4 \<or> ly = 5) then 2 else 0)"
      by (rule sum_list_upt_cong) (auto simp: row that)
    then show ?thesis unfolding count_two by simp
  qed
  have "meshTriangles ?w ?c = (\<Sum>ly\<leftarrow>[0..<16]. if (ly = 4 \<or> ly = 5) \<and> True then 4 else 0)"
    unfolding meshTriangles_def by (rule sum_list_upt_cong) (simp add: slab)
  then show ?thesis unfolding count_two by simp
qed

lemma single_dirty:
  "dirtyMesh (chunks (setVoxel (initVoxels 0 0 0 0 0 0) 5 5 5 255 10 20 30) ! 0)"
proof -
  let ?init = "initVoxels 0 0 0 0 0 0"
  let ?w = "setVoxel ?init 5 5 5 255 10 20 30"
  have c5: "worldPositionToChunkCoordinates 5 5 5 = (0, 0, 0)"
    by (simp add: worldPositionToChunkCoordinates_def CHUNK_BITS_def)
  have l5: "worldPositionToChunkPosition 5 5 5 = (5, 5, 5)"
    by (simp add: worldPositionToChunkPosition_def CHUNK_MASK_def CHUNK_SIZE_def CHUNK_BITS_def)
  have ib: "in_bounds (bounds ?init) 0 0 0"
    by (simp add: in_bounds_def bounds_initVoxels)
  have k: "chunkCoordinateToIndex 0 0 0 (bounds ?init) = Some 0"
    by (simp add: chunkCoordinateToIndex_def bounds_initVoxels Let_def)
  have b: "bounds ?w = bounds ?init"
    by (rule setVoxel_effect(2)[OF wf_initVoxels c5 l5 k])
  have "chunkDirtyAt ?w 0 0 0 = Some True"
    using setVoxel_dirty[OF wf_initVoxels c5 l5 ib, of 255 10 20 30 0 0 0]
      chunkDirtyAt_initVoxels[OF ib] by simp
  then show ?thesis
    by (simp add: chunkDirtyAt_def getChunkAt_def b k isChunkDirty_def)
qed

theorem mesh_frame_witness:
  "CHUNK_GEOMETRY_WORST_CASE_COMPONENTS \<le> length (replicate 184320 (0::real))
   \<and> dirtyMesh (chunks (setVoxel (initVoxels 0 0 0 0 0 0) 5 5 5 255 10 20 30) ! 0)
   \<and> (\<exists>e'. mesh \<lparr> eng_world = setVoxel (initVoxels 0 0 0 0 0 0) 5 5 5 255 10 20 30,
                  eng_geometry = \<lparr> positions = replicate 184320 0, positionsCount = 18,
                                   normals = replicate 184320 0, normalsCount = 18,
                                   colors = replicate 184320 0, colorsCount = 18 \<rparr>,
                  eng_gridBuffer = (\<lambda>i. (0, 0, 0, 0)),
                  eng_samples = [],
                  eng_edgePoints = replicate 12 \<lparr> e_position = (0, 0, 0), e_r = 0, e_g = 0, e_b = 0 \<rparr> \<rparr>
             0 = Some e'
          \<and> eng_world e' = setVoxel (initVoxels 0 0 0 0 0 0) 5 5 5 255 10 20 30
          \<and> dirtyMesh (chunks (eng_world e') ! 0)
          \<and> positionsCount (eng_geometry e') = 72
          \<and> normalsCount (eng_geometry e') = 72
          \<and> colorsCount (eng_geometry e') = 72)"
proof -
  let ?w = "setVoxel (initVoxels 0 0 0 0 0 0) 5 5 5 255 10 20 30"
  let ?e = "\<lparr> eng_world = ?w,
              eng_geometry = \<lparr> positions = replicate 184320 0, positionsCount = 18,
                               normals = replicate 184320 0, normalsCount = 18,
                               colors = replicate 184320 0, colorsCount = 18 \<rparr>,
              eng_gridBuffer = (\<lambda>i. (0, 0, 0, 0)),
              eng_samples = [],
              eng_edgePoints = replicate 12 \<lparr> e_position = (0, 0, 0), e_r = 0, e_g = 0, e_b = 0 \<rparr> \<rparr>"
  have cap: "CHUNK_GEOMETRY_WORST_CASE_COMPONENTS \<le> length (replicate 184320 (0::real))"
    by (simp add: CHUNK_GEOMETRY_WORST_CASE_COMPONENTS_def CHUNK_GEOMETRY_WORST_CASE_VERTICES_def
        CHUNK_VOXELS_def CHUNK_SIZE_def CHUNK_BITS_def)
  have caps: "CHUNK_GEOMETRY_WORST_CASE_COMPONENTS \<le> length (positions (eng_geometry ?e))"
    "CHUNK_GEOMETRY_WORST_CASE_COMPONENTS \<le> length (normals (eng_geometry ?e))"
    "CHUNK_GEOMETRY_WORST_CASE_COMPONENTS \<le> length (colors (eng_geometry ?e))"
    using cap by simp_all
  from mesh_frame[OF caps, of 0] obtain e' where e': "mesh ?e 0 = Some e'"
      "eng_world e' = eng_world ?e" "appendedTo (eng_geometry ?e) (eng_geometry e')"
      "positionsCount (eng_geometry e') = 9 * meshTriangles (eng_world ?e) (chunks (eng_world ?e) ! 0)"
    by blast
  have w: "eng_world e' = ?w" using e'(2) by simp
  have n: "positionsCount (eng_geometry e') = 72"
    using e'(4) by (simp add: single_meshTriangles)
  have "normalsCount (eng_geometry e') = 72" "colorsCount (eng_geometry e') = 72"
    using e'(3) n by (simp_all add: appendedTo_def)
  with e'(1) w n single_dirty cap show ?thesis by auto
qed

end
